theory Spec2Isabelle
  imports Main
begin

section \<open>Python values, exceptions and the remote resource client\<close>

text \<open>
  The operations keep their compensation records in plain Python dictionaries
  (\<^verbatim>\<open>rollback_data: Dict[str, Any]\<close>) and build request bodies as dictionaries as well.
  Such dynamic values are modelled by \<open>pyval\<close>; a dictionary is an association list,
  looked up with \<open>map_of\<close>.
\<close>

datatype pyval =
    PNone
  | PBool bool
  | PInt int
  | PStr string
  | PList "pyval list"
  | PDict "(string \<times> pyval) list"

type_synonym pydict = "(string \<times> pyval) list"

datatype exn =
    KeyError string
  | TypeError string
  | AttributeError string
  | HttpError int string
  | DefaultCredentialsError string
  | RuntimeError string

text \<open>\<^verbatim>\<open>str(e)\<close> for the exceptions above.\<close>

fun str_exn :: "exn \<Rightarrow> string" where
  "str_exn (KeyError k) = [CHR 0x27] @ k @ [CHR 0x27]"
| "str_exn (TypeError m) = m"
| "str_exn (AttributeError m) = m"
| "str_exn (HttpError code m) = m"
| "str_exn (DefaultCredentialsError m) = m"
| "str_exn (RuntimeError m) = m"

text \<open>Python truthiness (\<^verbatim>\<open>if x:\<close>, \<^verbatim>\<open>if not x:\<close>).\<close>

fun truthy :: "pyval \<Rightarrow> bool" where
  "truthy PNone = False"
| "truthy (PBool b) = b"
| "truthy (PInt i) = (i \<noteq> 0)"
| "truthy (PStr s) = (s \<noteq> [])"
| "truthy (PList xs) = (xs \<noteq> [])"
| "truthy (PDict d) = (d \<noteq> [])"

text \<open>\<^verbatim>\<open>d[k]\<close> raises KeyError on a missing key; \<^verbatim>\<open>d.get(k)\<close> yields None and
  \<^verbatim>\<open>d.get(k, default)\<close> the default.\<close>

definition dict_item :: "pydict \<Rightarrow> string \<Rightarrow> exn + pyval" where
  "dict_item d k = (case map_of d k of None \<Rightarrow> Inl (KeyError k) | Some v \<Rightarrow> Inr v)"

definition dict_get :: "pydict \<Rightarrow> string \<Rightarrow> pyval" where
  "dict_get d k = (case map_of d k of None \<Rightarrow> PNone | Some v \<Rightarrow> v)"

definition dict_get_default :: "pydict \<Rightarrow> string \<Rightarrow> pyval \<Rightarrow> pyval" where
  "dict_get_default d k dflt = (case map_of d k of None \<Rightarrow> dflt | Some v \<Rightarrow> v)"

text \<open>Subscripting and \<^verbatim>\<open>.get\<close> on a value that was itself read from a dictionary:
  only a dictionary supports them.\<close>

definition py_item :: "pyval \<Rightarrow> string \<Rightarrow> exn + pyval" where
  "py_item v k = (case v of PDict d \<Rightarrow> dict_item d k
                   | _ \<Rightarrow> Inl (TypeError ''object is not subscriptable''))"

definition py_get_default :: "pyval \<Rightarrow> string \<Rightarrow> pyval \<Rightarrow> exn + pyval" where
  "py_get_default v k dflt = (case v of PDict d \<Rightarrow> Inr (dict_get_default d k dflt)
                   | _ \<Rightarrow> Inl (AttributeError ''object has no attribute get''))"

text \<open>Decimal rendering of integers, as f-strings print them.\<close>

definition digit_char :: "nat \<Rightarrow> char" where
  "digit_char n = char_of (48 + n)"

function str_nat :: "nat \<Rightarrow> string" where
  "str_nat n = (if n < 10 then [digit_char n] else str_nat (n div 10) @ [digit_char (n mod 10)])"
  by pat_completeness auto
termination
  by (relation "measure id") auto

definition str_int :: "int \<Rightarrow> string" where
  "str_int i = (if i < 0 then CHR ''-'' # str_nat (nat (- i)) else str_nat (nat i))"

subsection \<open>Resources returned by the client\<close>

text \<open>
  The compute client is an external collaborator. Its responses are typed after the
  fields the code reads: a field read with \<^verbatim>\<open>x['f']\<close> is always there, a field read with
  \<^verbatim>\<open>x.get('f', default)\<close> is optional.
\<close>

record attached_disk =
  ad_source :: string
  ad_deviceName :: string
  ad_boot :: "bool option"
  ad_autoDelete :: "bool option"
  ad_mode :: "string option"

record vm_metadata =
  md_fingerprint :: "string option"
  md_items :: "(string \<times> string) list option"

record vm_instance =
  in_status :: string
  in_disks :: "attached_disk list option"
  in_metadata :: "vm_metadata option"

text \<open>The requests the code issues, with the arguments it passes. Arguments that may come
  out of a compensation record are dynamic values.\<close>

datatype api_call =
    InstancesGet string string pyval
  | InstancesStop string string pyval
  | InstancesStart string string pyval
  | InstancesAttachDisk string string pyval pyval
  | InstancesDetachDisk string string pyval pyval
  | InstancesSetMetadata string string pyval pyval
  | InstancesTestIamPermissions string string pyval pyval
  | DisksInsert string string pyval
  | DisksGet string string pyval
  | DisksDelete string string pyval
  | DisksCreateSnapshot string string pyval pyval
  | SnapshotsGet string pyval
  | SnapshotsDelete string pyval

text \<open>
  A client over a remote state \<open>'r\<close>: every call either raises or returns, changes the
  remote state and takes some whole number of seconds.
\<close>

type_synonym ('r, 'a) remote_call = "'r \<Rightarrow> (exn + 'a) \<times> 'r \<times> nat"

record 'r compute =
  instances_get :: "string \<Rightarrow> string \<Rightarrow> pyval \<Rightarrow> ('r, vm_instance) remote_call"
  instances_stop :: "string \<Rightarrow> string \<Rightarrow> pyval \<Rightarrow> ('r, unit) remote_call"
  instances_start :: "string \<Rightarrow> string \<Rightarrow> pyval \<Rightarrow> ('r, unit) remote_call"
  instances_attachDisk :: "string \<Rightarrow> string \<Rightarrow> pyval \<Rightarrow> pyval \<Rightarrow> ('r, unit) remote_call"
  instances_detachDisk :: "string \<Rightarrow> string \<Rightarrow> pyval \<Rightarrow> pyval \<Rightarrow> ('r, unit) remote_call"
  instances_setMetadata :: "string \<Rightarrow> string \<Rightarrow> pyval \<Rightarrow> pyval \<Rightarrow> ('r, unit) remote_call"
  instances_testIamPermissions ::
    "string \<Rightarrow> string \<Rightarrow> pyval \<Rightarrow> pyval \<Rightarrow> ('r, string list option) remote_call"
  disks_insert :: "string \<Rightarrow> string \<Rightarrow> pyval \<Rightarrow> ('r, unit) remote_call"
  disks_get :: "string \<Rightarrow> string \<Rightarrow> pyval \<Rightarrow> ('r, string) remote_call"
  disks_delete :: "string \<Rightarrow> string \<Rightarrow> pyval \<Rightarrow> ('r, unit) remote_call"
  disks_createSnapshot :: "string \<Rightarrow> string \<Rightarrow> pyval \<Rightarrow> pyval \<Rightarrow> ('r, unit) remote_call"
  snapshots_get :: "string \<Rightarrow> pyval \<Rightarrow> ('r, string option) remote_call"
  snapshots_delete :: "string \<Rightarrow> pyval \<Rightarrow> ('r, unit) remote_call"

text \<open>
  The world a workflow runs in: the wall clock (\<^verbatim>\<open>time.time()\<close>, in seconds), the remote
  state, and the log of requests issued so far (oldest first). The log is what the
  theorems observe; the code does not read it.
\<close>

record 'r world =
  clock :: int
  remote :: 'r
  requests :: "api_call list"

definition perform :: "api_call \<Rightarrow> ('r, 'a) remote_call \<Rightarrow> 'r world \<Rightarrow> (exn + 'a) \<times> 'r world" where
  "perform call f w =
     (case f (remote w) of
        (res, r', d) \<Rightarrow>
          (res, w\<lparr>clock := clock w + int d, remote := r', requests := requests w @ [call]\<rparr>))"

text \<open>\<^verbatim>\<open>time.sleep(d)\<close>.\<close>

definition time_sleep :: "int \<Rightarrow> 'r world \<Rightarrow> 'r world" where
  "time_sleep d w = w\<lparr>clock := clock w + d\<rparr>"

definition get_instance :: "'r compute \<Rightarrow> string \<Rightarrow> string \<Rightarrow> pyval \<Rightarrow> 'r world \<Rightarrow> (exn + vm_instance) \<times> 'r world" where
  "get_instance c p z v = perform (InstancesGet p z v) (instances_get c p z v)"

definition stop_instance :: "'r compute \<Rightarrow> string \<Rightarrow> string \<Rightarrow> pyval \<Rightarrow> 'r world \<Rightarrow> (exn + unit) \<times> 'r world" where
  "stop_instance c p z v = perform (InstancesStop p z v) (instances_stop c p z v)"

definition start_instance :: "'r compute \<Rightarrow> string \<Rightarrow> string \<Rightarrow> pyval \<Rightarrow> 'r world \<Rightarrow> (exn + unit) \<times> 'r world" where
  "start_instance c p z v = perform (InstancesStart p z v) (instances_start c p z v)"

definition attach_disk :: "'r compute \<Rightarrow> string \<Rightarrow> string \<Rightarrow> pyval \<Rightarrow> pyval \<Rightarrow> 'r world \<Rightarrow> (exn + unit) \<times> 'r world" where
  "attach_disk c p z v body = perform (InstancesAttachDisk p z v body) (instances_attachDisk c p z v body)"

definition detach_disk :: "'r compute \<Rightarrow> string \<Rightarrow> string \<Rightarrow> pyval \<Rightarrow> pyval \<Rightarrow> 'r world \<Rightarrow> (exn + unit) \<times> 'r world" where
  "detach_disk c p z v dev = perform (InstancesDetachDisk p z v dev) (instances_detachDisk c p z v dev)"

definition set_metadata :: "'r compute \<Rightarrow> string \<Rightarrow> string \<Rightarrow> pyval \<Rightarrow> pyval \<Rightarrow> 'r world \<Rightarrow> (exn + unit) \<times> 'r world" where
  "set_metadata c p z v body = perform (InstancesSetMetadata p z v body) (instances_setMetadata c p z v body)"

definition test_iam_permissions :: "'r compute \<Rightarrow> string \<Rightarrow> string \<Rightarrow> pyval \<Rightarrow> pyval \<Rightarrow> 'r world \<Rightarrow> (exn + string list option) \<times> 'r world" where
  "test_iam_permissions c p z v body =
     perform (InstancesTestIamPermissions p z v body) (instances_testIamPermissions c p z v body)"

definition insert_disk :: "'r compute \<Rightarrow> string \<Rightarrow> string \<Rightarrow> pyval \<Rightarrow> 'r world \<Rightarrow> (exn + unit) \<times> 'r world" where
  "insert_disk c p z body = perform (DisksInsert p z body) (disks_insert c p z body)"

definition get_disk :: "'r compute \<Rightarrow> string \<Rightarrow> string \<Rightarrow> pyval \<Rightarrow> 'r world \<Rightarrow> (exn + string) \<times> 'r world" where
  "get_disk c p z d = perform (DisksGet p z d) (disks_get c p z d)"

definition delete_disk :: "'r compute \<Rightarrow> string \<Rightarrow> string \<Rightarrow> pyval \<Rightarrow> 'r world \<Rightarrow> (exn + unit) \<times> 'r world" where
  "delete_disk c p z d = perform (DisksDelete p z d) (disks_delete c p z d)"

definition create_disk_snapshot :: "'r compute \<Rightarrow> string \<Rightarrow> string \<Rightarrow> pyval \<Rightarrow> pyval \<Rightarrow> 'r world \<Rightarrow> (exn + unit) \<times> 'r world" where
  "create_disk_snapshot c p z d body = perform (DisksCreateSnapshot p z d body) (disks_createSnapshot c p z d body)"

definition get_snapshot :: "'r compute \<Rightarrow> string \<Rightarrow> pyval \<Rightarrow> 'r world \<Rightarrow> (exn + string option) \<times> 'r world" where
  "get_snapshot c p s = perform (SnapshotsGet p s) (snapshots_get c p s)"

definition delete_snapshot :: "'r compute \<Rightarrow> string \<Rightarrow> pyval \<Rightarrow> 'r world \<Rightarrow> (exn + unit) \<times> 'r world" where
  "delete_snapshot c p s = perform (SnapshotsDelete p s) (snapshots_delete c p s)"

section \<open>Operations (operations/*.py)\<close>

record OperationResult =
  operation_name :: string
  success :: bool
  message :: string
  rollback_data :: "pydict option"
  error :: "string option"

definition failure :: "string \<Rightarrow> string \<Rightarrow> string option \<Rightarrow> OperationResult" where
  "failure n msg err =
     \<lparr>operation_name = n, success = False, message = msg, rollback_data = None, error = err\<rparr>"

definition succeeded :: "string \<Rightarrow> string \<Rightarrow> pydict option \<Rightarrow> OperationResult" where
  "succeeded n msg rd =
     \<lparr>operation_name = n, success = True, message = msg, rollback_data = rd, error = None\<rparr>"

subsection \<open>BaseOperation._wait_for_status (operations/base.py)\<close>

text \<open>
  The \<^verbatim>\<open>check_func\<close> closures handed to \<^verbatim>\<open>_wait_for_status\<close> are exactly two:
  \<^verbatim>\<open>get_status\<close> of stop_vm.py and start_vm.py reads \<^verbatim>\<open>vm['status']\<close>, and \<^verbatim>\<open>get_status\<close> of
  create_disk.py reads the disk's status and answers \<^verbatim>\<open>'CREATING'\<close> on any exception.
\<close>

datatype status_check =
    VMStatus string string pyval
  | DiskStatus string string pyval

definition check_func :: "'r compute \<Rightarrow> status_check \<Rightarrow> 'r world \<Rightarrow> (exn + string) \<times> 'r world" where
  "check_func c chk w =
     (case chk of
        VMStatus p z v \<Rightarrow>
          (case get_instance c p z v w of
             (Inl e, w1) \<Rightarrow> (Inl e, w1)
           | (Inr vm, w1) \<Rightarrow> (Inr (in_status vm), w1))
      | DiskStatus p z d \<Rightarrow>
          (case get_disk c p z d w of
             (Inl e, w1) \<Rightarrow> (Inr ''CREATING'', w1)
           | (Inr st, w1) \<Rightarrow> (Inr st, w1)))"

function wait_loop ::
  "'r compute \<Rightarrow> status_check \<Rightarrow> string \<Rightarrow> int \<Rightarrow> int \<Rightarrow> 'r world \<Rightarrow> (exn + bool) \<times> 'r world" where
  "wait_loop c chk target_status timeout start_time w =
     (if clock w - start_time > timeout then (Inr False, w)
      else
        (case check_func c chk w of
           (Inl e, w1) \<Rightarrow> (Inl e, w1)
         | (Inr current_status, w1) \<Rightarrow>
             if current_status = target_status then (Inr True, w1)
             else wait_loop c chk target_status timeout start_time (time_sleep 5 w1)))"
  by pat_completeness auto
termination
  by (relation "measure (\<lambda>(c, chk, target_status, timeout, start_time, w).
                   nat (timeout + start_time - clock w + 1))")
     (auto simp: check_func_def get_instance_def get_disk_def perform_def time_sleep_def
           split: status_check.splits prod.splits sum.splits)

definition wait_for_status ::
  "'r compute \<Rightarrow> status_check \<Rightarrow> string \<Rightarrow> int \<Rightarrow> 'r world \<Rightarrow> (exn + bool) \<times> 'r world" where
  "wait_for_status c chk target_status timeout w =
     wait_loop c chk target_status timeout (clock w) w"

text \<open>
  Names the orchestrators discover on the instance (\<^verbatim>\<open>original_disk_name\<close>,
  \<^verbatim>\<open>rescue_device_name\<close>, ...) start as \<^verbatim>\<open>None\<close> and stay so when nothing is found, so the
  parameters they are passed to are \<open>string option\<close>. \<open>fmt_opt\<close> is what an f-string
  prints for such a value, \<open>opt_val\<close> the value itself.
\<close>

definition fmt_opt :: "string option \<Rightarrow> string" where
  "fmt_opt x = (case x of None \<Rightarrow> ''None'' | Some s \<Rightarrow> s)"

definition opt_val :: "string option \<Rightarrow> pyval" where
  "opt_val x = (case x of None \<Rightarrow> PNone | Some s \<Rightarrow> PStr s)"

definition bind_res :: "exn + 'a \<Rightarrow> ('a \<Rightarrow> exn + 'b) \<Rightarrow> exn + 'b" where
  "bind_res r f = (case r of Inl e \<Rightarrow> Inl e | Inr x \<Rightarrow> f x)"

subsection \<open>StopVMOperation (operations/stop_vm.py)\<close>

definition StopVMOperation_execute ::
  "'r compute \<Rightarrow> string \<Rightarrow> string \<Rightarrow> string \<Rightarrow> int \<Rightarrow> 'r world \<Rightarrow> OperationResult \<times> 'r world" where
  "StopVMOperation_execute c project zone vm_name timeout w =
     (case get_instance c project zone (PStr vm_name) w of
        (Inl e, w1) \<Rightarrow> (failure ''Stop VM'' ''Failed to stop VM'' (Some (str_exn e)), w1)
      | (Inr vm, w1) \<Rightarrow>
          (let original_status = in_status vm in
           if original_status = ''RUNNING'' then
             (case stop_instance c project zone (PStr vm_name) w1 of
                (Inl e, w2) \<Rightarrow> (failure ''Stop VM'' ''Failed to stop VM'' (Some (str_exn e)), w2)
              | (Inr u, w2) \<Rightarrow>
                  (let start_time = clock w2 in
                   case wait_for_status c (VMStatus project zone (PStr vm_name)) ''TERMINATED'' timeout w2 of
                     (Inl e, w3) \<Rightarrow> (failure ''Stop VM'' ''Failed to stop VM'' (Some (str_exn e)), w3)
                   | (Inr reached, w3) \<Rightarrow>
                       if \<not> reached then
                         (failure ''Stop VM''
                            (''Timeout waiting for VM to stop (>'' @ str_int timeout @ ''s)'') None, w3)
                       else
                         (let duration = clock w3 - start_time in
                          (succeeded ''Stop VM'' (''VM stopped ('' @ str_int duration @ ''s)'')
                             (Some [(''vm_name'', PStr vm_name),
                                    (''original_status'', PStr original_status)]), w3))))
           else if original_status = ''TERMINATED'' then
             (succeeded ''Stop VM'' ''VM already stopped''
                (Some [(''vm_name'', PStr vm_name), (''original_status'', PStr original_status)]), w1)
           else
             (failure ''Stop VM'' (''VM is in unexpected state: '' @ original_status)
                (Some (''Cannot stop VM in state: '' @ original_status)), w1)))"

definition StopVMOperation_rollback ::
  "'r compute \<Rightarrow> string \<Rightarrow> string \<Rightarrow> pydict \<Rightarrow> 'r world \<Rightarrow> bool \<times> 'r world" where
  "StopVMOperation_rollback c project zone rdata w =
     (case dict_item rdata ''vm_name'' of
        Inl e \<Rightarrow> (False, w)
      | Inr vm_name \<Rightarrow>
          (case dict_item rdata ''original_status'' of
             Inl e \<Rightarrow> (False, w)
           | Inr original_status \<Rightarrow>
               if original_status = PStr ''RUNNING'' then
                 (case start_instance c project zone vm_name w of
                    (Inl e, w1) \<Rightarrow> (False, w1)
                  | (Inr u, w1) \<Rightarrow>
                      (case wait_for_status c (VMStatus project zone vm_name) ''RUNNING'' 300 w1 of
                         (Inl e, w2) \<Rightarrow> (False, w2)
                       | (Inr reached, w2) \<Rightarrow> (reached, w2)))
               else (True, w)))"

subsection \<open>StartVMOperation (operations/start_vm.py)\<close>

definition StartVMOperation_execute ::
  "'r compute \<Rightarrow> string \<Rightarrow> string \<Rightarrow> string \<Rightarrow> int \<Rightarrow> 'r world \<Rightarrow> OperationResult \<times> 'r world" where
  "StartVMOperation_execute c project zone vm_name timeout w =
     (case get_instance c project zone (PStr vm_name) w of
        (Inl e, w1) \<Rightarrow> (failure ''Start VM'' ''Failed to start VM'' (Some (str_exn e)), w1)
      | (Inr vm, w1) \<Rightarrow>
          (let original_status = in_status vm in
           if original_status = ''TERMINATED'' then
             (case start_instance c project zone (PStr vm_name) w1 of
                (Inl e, w2) \<Rightarrow> (failure ''Start VM'' ''Failed to start VM'' (Some (str_exn e)), w2)
              | (Inr u, w2) \<Rightarrow>
                  (let start_time = clock w2 in
                   case wait_for_status c (VMStatus project zone (PStr vm_name)) ''RUNNING'' timeout w2 of
                     (Inl e, w3) \<Rightarrow> (failure ''Start VM'' ''Failed to start VM'' (Some (str_exn e)), w3)
                   | (Inr reached, w3) \<Rightarrow>
                       if \<not> reached then
                         (failure ''Start VM''
                            (''Timeout waiting for VM to start (>'' @ str_int timeout @ ''s)'') None, w3)
                       else
                         (let duration = clock w3 - start_time in
                          (succeeded ''Start VM'' (''VM started ('' @ str_int duration @ ''s)'')
                             (Some [(''vm_name'', PStr vm_name),
                                    (''original_status'', PStr original_status)]), w3))))
           else if original_status = ''RUNNING'' then
             (succeeded ''Start VM'' ''VM already running''
                (Some [(''vm_name'', PStr vm_name), (''original_status'', PStr original_status)]), w1)
           else
             (failure ''Start VM'' (''VM is in unexpected state: '' @ original_status)
                (Some (''Cannot start VM in state: '' @ original_status)), w1)))"

definition StartVMOperation_rollback ::
  "'r compute \<Rightarrow> string \<Rightarrow> string \<Rightarrow> pydict \<Rightarrow> 'r world \<Rightarrow> bool \<times> 'r world" where
  "StartVMOperation_rollback c project zone rdata w =
     (case dict_item rdata ''vm_name'' of
        Inl e \<Rightarrow> (False, w)
      | Inr vm_name \<Rightarrow>
          (case dict_item rdata ''original_status'' of
             Inl e \<Rightarrow> (False, w)
           | Inr original_status \<Rightarrow>
               if original_status = PStr ''TERMINATED'' then
                 (case stop_instance c project zone vm_name w of
                    (Inl e, w1) \<Rightarrow> (False, w1)
                  | (Inr u, w1) \<Rightarrow>
                      (case wait_for_status c (VMStatus project zone vm_name) ''TERMINATED'' 300 w1 of
                         (Inl e, w2) \<Rightarrow> (False, w2)
                       | (Inr reached, w2) \<Rightarrow> (reached, w2)))
               else (True, w)))"

subsection \<open>CreateDiskOperation (operations/create_disk.py)\<close>

text \<open>The \<^verbatim>\<open>disk_body\<close> dictionary of \<^verbatim>\<open>execute\<close>.\<close>

definition disk_body_of :: "string \<Rightarrow> string \<Rightarrow> string \<Rightarrow> int \<Rightarrow> string \<Rightarrow> string \<Rightarrow> pyval" where
  "disk_body_of project zone disk_name size_gb disk_type source_image =
     PDict
       [(''name'', PStr disk_name),
        (''sizeGb'', PStr (str_int size_gb)),
        (''type'', PStr (''projects/'' @ project @ ''/zones/'' @ zone @ ''/diskTypes/'' @ disk_type)),
        (''sourceImage'', PStr source_image)]"

definition CreateDiskOperation_execute ::
  "'r compute \<Rightarrow> string \<Rightarrow> string \<Rightarrow> string \<Rightarrow> int \<Rightarrow> string \<Rightarrow> string \<Rightarrow> int \<Rightarrow> 'r world
     \<Rightarrow> OperationResult \<times> 'r world" where
  "CreateDiskOperation_execute c project zone disk_name size_gb disk_type source_image timeout w =
     (let disk_body = disk_body_of project zone disk_name size_gb disk_type source_image in
      case insert_disk c project zone disk_body w of
        (Inl e, w1) \<Rightarrow> (failure ''Create Disk'' ''Failed to create disk'' (Some (str_exn e)), w1)
      | (Inr u, w1) \<Rightarrow>
          (let start_time = clock w1 in
           case wait_for_status c (DiskStatus project zone (PStr disk_name)) ''READY'' timeout w1 of
             (Inl e, w2) \<Rightarrow> (failure ''Create Disk'' ''Failed to create disk'' (Some (str_exn e)), w2)
           | (Inr reached, w2) \<Rightarrow>
               if \<not> reached then
                 (failure ''Create Disk''
                    (''Timeout waiting for disk creation (>'' @ str_int timeout @ ''s)'') None, w2)
               else
                 (let duration = clock w2 - start_time in
                  (succeeded ''Create Disk'' (''Disk created ('' @ str_int duration @ ''s)'')
                     (Some [(''disk_name'', PStr disk_name)]), w2))))"

definition CreateDiskOperation_rollback ::
  "'r compute \<Rightarrow> string \<Rightarrow> string \<Rightarrow> pydict \<Rightarrow> 'r world \<Rightarrow> bool \<times> 'r world" where
  "CreateDiskOperation_rollback c project zone rdata w =
     (case dict_item rdata ''disk_name'' of
        Inl e \<Rightarrow> (False, w)
      | Inr disk_name \<Rightarrow>
          (case delete_disk c project zone disk_name w of
             (Inl e, w1) \<Rightarrow> (False, w1)
           | (Inr u, w1) \<Rightarrow> (True, time_sleep 3 w1)))"

subsection \<open>DetachDiskOperation (operations/detach_disk.py)\<close>

text \<open>The \<^verbatim>\<open>disk_info\<close> dictionary built from the entry of \<^verbatim>\<open>vm['disks']\<close>.\<close>

definition disk_info_of :: "attached_disk \<Rightarrow> pydict" where
  "disk_info_of disk =
     [(''source'', PStr (ad_source disk)),
      (''boot'', PBool (case ad_boot disk of None \<Rightarrow> False | Some b \<Rightarrow> b)),
      (''autoDelete'', PBool (case ad_autoDelete disk of None \<Rightarrow> False | Some b \<Rightarrow> b)),
      (''deviceName'', PStr (ad_deviceName disk)),
      (''mode'', PStr (case ad_mode disk of None \<Rightarrow> ''READ_WRITE'' | Some m \<Rightarrow> m))]"

text \<open>The loop over \<^verbatim>\<open>vm.get('disks', [])\<close> that stops at the first entry with the device
  name.\<close>

definition find_disk_info :: "vm_instance \<Rightarrow> string option \<Rightarrow> pydict option" where
  "find_disk_info vm device_name =
     map_option disk_info_of
       (find (\<lambda>disk. Some (ad_deviceName disk) = device_name)
          (case in_disks vm of None \<Rightarrow> [] | Some ds \<Rightarrow> ds))"

definition DetachDiskOperation_execute ::
  "'r compute \<Rightarrow> string \<Rightarrow> string \<Rightarrow> string \<Rightarrow> string option \<Rightarrow> 'r world \<Rightarrow> OperationResult \<times> 'r world" where
  "DetachDiskOperation_execute c project zone vm_name device_name w =
     (case get_instance c project zone (PStr vm_name) w of
        (Inl e, w1) \<Rightarrow> (failure ''Detach Disk'' ''Failed to detach disk'' (Some (str_exn e)), w1)
      | (Inr vm, w1) \<Rightarrow>
          (case find_disk_info vm device_name of
             None \<Rightarrow>
               (failure ''Detach Disk'' (''Disk '' @ fmt_opt device_name @ '' not found on VM'') None, w1)
           | Some disk_info \<Rightarrow>
               (case detach_disk c project zone (PStr vm_name) (opt_val device_name) w1 of
                  (Inl e, w2) \<Rightarrow>
                    (failure ''Detach Disk'' ''Failed to detach disk'' (Some (str_exn e)), w2)
                | (Inr u, w2) \<Rightarrow>
                    (succeeded ''Detach Disk'' ''Disk detached''
                       (Some [(''vm_name'', PStr vm_name), (''disk_info'', PDict disk_info)]),
                     time_sleep 2 w2))))"

definition attach_body_of :: "pyval \<Rightarrow> exn + pyval" where
  "attach_body_of disk_info =
     bind_res (py_item disk_info ''source'') (\<lambda>src.
     bind_res (py_item disk_info ''boot'') (\<lambda>boot.
     bind_res (py_item disk_info ''autoDelete'') (\<lambda>auto_delete.
     bind_res (py_item disk_info ''deviceName'') (\<lambda>device_name.
     bind_res (py_item disk_info ''mode'') (\<lambda>mode.
       Inr (PDict [(''source'', src), (''boot'', boot), (''autoDelete'', auto_delete),
                   (''deviceName'', device_name), (''mode'', mode)]))))))"

definition DetachDiskOperation_rollback ::
  "'r compute \<Rightarrow> string \<Rightarrow> string \<Rightarrow> pydict \<Rightarrow> 'r world \<Rightarrow> bool \<times> 'r world" where
  "DetachDiskOperation_rollback c project zone rdata w =
     (case dict_item rdata ''vm_name'' of
        Inl e \<Rightarrow> (False, w)
      | Inr vm_name \<Rightarrow>
          (case dict_item rdata ''disk_info'' of
             Inl e \<Rightarrow> (False, w)
           | Inr disk_info \<Rightarrow>
               (case attach_body_of disk_info of
                  Inl e \<Rightarrow> (False, w)
                | Inr attach_body \<Rightarrow>
                    (case attach_disk c project zone vm_name attach_body w of
                       (Inl e, w1) \<Rightarrow> (False, w1)
                     | (Inr u, w1) \<Rightarrow> (True, time_sleep 2 w1)))))"

subsection \<open>AttachDiskOperation (operations/attach_disk.py)\<close>

definition AttachDiskOperation_execute ::
  "'r compute \<Rightarrow> string \<Rightarrow> string \<Rightarrow> string \<Rightarrow> string option \<Rightarrow> bool \<Rightarrow> bool \<Rightarrow> bool \<Rightarrow> 'r world
     \<Rightarrow> OperationResult \<times> 'r world" where
  "AttachDiskOperation_execute c project zone vm_name disk_name boot auto_delete read_only w =
     (let attach_body = PDict
            [(''source'', PStr (''projects/'' @ project @ ''/zones/'' @ zone @ ''/disks/'' @ fmt_opt disk_name)),
             (''boot'', PBool boot),
             (''autoDelete'', PBool auto_delete),
             (''deviceName'', opt_val disk_name),
             (''mode'', PStr (if read_only then ''READ_ONLY'' else ''READ_WRITE''))] in
      case attach_disk c project zone (PStr vm_name) attach_body w of
        (Inl e, w1) \<Rightarrow> (failure ''Attach Disk'' ''Failed to attach disk'' (Some (str_exn e)), w1)
      | (Inr u, w1) \<Rightarrow>
          (succeeded ''Attach Disk'' ''Disk attached''
             (Some [(''vm_name'', PStr vm_name), (''device_name'', opt_val disk_name)]),
           time_sleep 3 w1))"

definition AttachDiskOperation_rollback ::
  "'r compute \<Rightarrow> string \<Rightarrow> string \<Rightarrow> pydict \<Rightarrow> 'r world \<Rightarrow> bool \<times> 'r world" where
  "AttachDiskOperation_rollback c project zone rdata w =
     (case dict_item rdata ''vm_name'' of
        Inl e \<Rightarrow> (False, w)
      | Inr vm_name \<Rightarrow>
          (case dict_item rdata ''device_name'' of
             Inl e \<Rightarrow> (False, w)
           | Inr device_name \<Rightarrow>
               (case detach_disk c project zone vm_name device_name w of
                  (Inl e, w1) \<Rightarrow> (False, w1)
                | (Inr u, w1) \<Rightarrow> (True, time_sleep 2 w1))))"

subsection \<open>SetMetadataOperation (operations/set_metadata.py)\<close>

definition item_py :: "string \<times> string \<Rightarrow> pyval" where
  "item_py kv = PDict [(''key'', PStr (fst kv)), (''value'', PStr (snd kv))]"

text \<open>\<^verbatim>\<open>vm.get('metadata', {})\<close> as the dictionary the code stores in the compensation
  record.\<close>

definition metadata_py :: "vm_metadata option \<Rightarrow> pydict" where
  "metadata_py md =
     (case md of
        None \<Rightarrow> []
      | Some m \<Rightarrow>
          (case md_fingerprint m of None \<Rightarrow> [] | Some f \<Rightarrow> [(''fingerprint'', PStr f)]) @
          (case md_items m of None \<Rightarrow> [] | Some its \<Rightarrow> [(''items'', PList (map item_py its))]))"

definition SetMetadataOperation_execute ::
  "'r compute \<Rightarrow> string \<Rightarrow> string \<Rightarrow> string \<Rightarrow> pyval list \<Rightarrow> 'r world \<Rightarrow> OperationResult \<times> 'r world" where
  "SetMetadataOperation_execute c project zone vm_name metadata_items w =
     (case get_instance c project zone (PStr vm_name) w of
        (Inl e, w1) \<Rightarrow> (failure ''Set Metadata'' ''Failed to set metadata'' (Some (str_exn e)), w1)
      | (Inr vm, w1) \<Rightarrow>
          (let original_metadata = metadata_py (in_metadata vm);
               fingerprint = dict_get original_metadata ''fingerprint'';
               new_metadata = PDict [(''fingerprint'', fingerprint), (''items'', PList metadata_items)] in
           case set_metadata c project zone (PStr vm_name) new_metadata w1 of
             (Inl e, w2) \<Rightarrow>
               (failure ''Set Metadata'' ''Failed to set metadata'' (Some (str_exn e)), w2)
           | (Inr u, w2) \<Rightarrow>
               (succeeded ''Set Metadata''
                  (''Metadata set ('' @ str_int (int (length metadata_items)) @ '' items)'')
                  (Some [(''vm_name'', PStr vm_name), (''original_metadata'', PDict original_metadata)]),
                time_sleep 2 w2)))"

definition SetMetadataOperation_rollback ::
  "'r compute \<Rightarrow> string \<Rightarrow> string \<Rightarrow> pydict \<Rightarrow> 'r world \<Rightarrow> bool \<times> 'r world" where
  "SetMetadataOperation_rollback c project zone rdata w =
     (case dict_item rdata ''vm_name'' of
        Inl e \<Rightarrow> (False, w)
      | Inr vm_name \<Rightarrow>
          (case dict_item rdata ''original_metadata'' of
             Inl e \<Rightarrow> (False, w)
           | Inr original_metadata \<Rightarrow>
               (case get_instance c project zone vm_name w of
                  (Inl e, w1) \<Rightarrow> (False, w1)
                | (Inr vm, w1) \<Rightarrow>
                    (let current_fingerprint = dict_get (metadata_py (in_metadata vm)) ''fingerprint'' in
                     case py_get_default original_metadata ''items'' (PList []) of
                       Inl e \<Rightarrow> (False, w1)
                     | Inr its \<Rightarrow>
                         (let restore_metadata =
                                PDict [(''fingerprint'', current_fingerprint), (''items'', its)] in
                          case set_metadata c project zone vm_name restore_metadata w1 of
                            (Inl e, w2) \<Rightarrow> (False, w2)
                          | (Inr u, w2) \<Rightarrow> (True, time_sleep 2 w2))))))"

subsection \<open>CreateSnapshotOperation (operations/create_snapshot.py)\<close>

text \<open>The polling loop of \<^verbatim>\<open>execute\<close>. An exception while reading the snapshot is swallowed
  (the snapshot may not exist yet) and the loop sleeps and polls again.\<close>

function snapshot_loop ::
  "'r compute \<Rightarrow> string \<Rightarrow> string \<Rightarrow> string option \<Rightarrow> int \<Rightarrow> int \<Rightarrow> 'r world \<Rightarrow> OperationResult \<times> 'r world" where
  "snapshot_loop c project snapshot_name disk_name timeout start_time w =
     (let elapsed = clock w - start_time in
      if elapsed > timeout then
        (failure ''Create Snapshot'' (''Snapshot creation timeout after '' @ str_int timeout @ ''s'')
           (Some ''timeout''), w)
      else
        (case get_snapshot c project (PStr snapshot_name) w of
           (Inl e, w1) \<Rightarrow>
             snapshot_loop c project snapshot_name disk_name timeout start_time (time_sleep 5 w1)
         | (Inr snapshot, w1) \<Rightarrow>
             (let status = (case snapshot of None \<Rightarrow> ''UNKNOWN'' | Some s \<Rightarrow> s) in
              if status = ''READY'' then
                (let duration = clock w1 - start_time in
                 (succeeded ''Create Snapshot''
                    (''Snapshot created: '' @ snapshot_name @ '' ('' @ str_int duration @ ''s)'')
                    (Some [(''snapshot_name'', PStr snapshot_name),
                           (''disk_name'', opt_val disk_name),
                           (''created_by_operation'', PBool True)]), w1))
              else if status = ''FAILED'' then
                (failure ''Create Snapshot'' ''Snapshot creation failed'' (Some ''snapshot_failed''), w1)
              else
                snapshot_loop c project snapshot_name disk_name timeout start_time (time_sleep 5 w1))))"
  by pat_completeness auto
termination
  by (relation "measure (\<lambda>(c, project, snapshot_name, disk_name, timeout, start_time, w).
                   nat (timeout + start_time - clock w + 1))")
     (auto simp: get_snapshot_def perform_def time_sleep_def split: prod.splits)

text \<open>The name and the description \<^verbatim>\<open>execute\<close> falls back on when the caller passes \<^verbatim>\<open>None\<close>
  or an empty string.\<close>

definition snapshot_name_or_default :: "string option \<Rightarrow> string option \<Rightarrow> int \<Rightarrow> string" where
  "snapshot_name_or_default snapshot_name disk_name now =
     (if snapshot_name = None \<or> snapshot_name = Some [] then
        ''pre-rescue-'' @ fmt_opt disk_name @ ''-'' @ str_int now
      else fmt_opt snapshot_name)"

definition description_or_default :: "string option \<Rightarrow> string option \<Rightarrow> string" where
  "description_or_default description disk_name =
     (if description = None \<or> description = Some [] then
        ''Pre-rescue safety snapshot of '' @ fmt_opt disk_name
      else fmt_opt description)"

definition snapshot_body_of :: "string \<Rightarrow> string \<Rightarrow> pyval" where
  "snapshot_body_of snapshot_name description =
     PDict [(''name'', PStr snapshot_name), (''description'', PStr description)]"

definition CreateSnapshotOperation_execute ::
  "'r compute \<Rightarrow> string \<Rightarrow> string \<Rightarrow> string option \<Rightarrow> string option \<Rightarrow> string option \<Rightarrow> int \<Rightarrow> 'r world
     \<Rightarrow> OperationResult \<times> 'r world" where
  "CreateSnapshotOperation_execute c project zone disk_name snapshot_name0 description0 timeout w =
     (let snapshot_name = snapshot_name_or_default snapshot_name0 disk_name (clock w);
          description = description_or_default description0 disk_name;
          body = snapshot_body_of snapshot_name description in
      case create_disk_snapshot c project zone (opt_val disk_name) body w of
        (Inl e, w1) \<Rightarrow>
          (failure ''Create Snapshot'' ''Failed to create snapshot'' (Some (str_exn e)), w1)
      | (Inr u, w1) \<Rightarrow> snapshot_loop c project snapshot_name disk_name timeout (clock w1) w1)"

definition CreateSnapshotOperation_rollback ::
  "'r compute \<Rightarrow> string \<Rightarrow> string \<Rightarrow> pydict \<Rightarrow> 'r world \<Rightarrow> bool \<times> 'r world" where
  "CreateSnapshotOperation_rollback c project zone rdata w =
     (if \<not> truthy (dict_get rdata ''created_by_operation'') then (True, w)
      else
        (let snapshot_name = dict_get rdata ''snapshot_name'' in
         if \<not> truthy snapshot_name then (True, w)
         else
           (case delete_snapshot c project snapshot_name w of
              (Inl e, w1) \<Rightarrow> (True, w1)
            | (Inr u, w1) \<Rightarrow> (True, time_sleep 2 w1))))"

subsection \<open>DeleteDiskOperation (operations/delete_disk.py)\<close>

definition DeleteDiskOperation_execute ::
  "'r compute \<Rightarrow> string \<Rightarrow> string \<Rightarrow> string option \<Rightarrow> 'r world \<Rightarrow> OperationResult \<times> 'r world" where
  "DeleteDiskOperation_execute c project zone disk_name w =
     (case delete_disk c project zone (opt_val disk_name) w of
        (Inl e, w1) \<Rightarrow> (failure ''Delete Disk'' ''Failed to delete disk'' (Some (str_exn e)), w1)
      | (Inr u, w1) \<Rightarrow> (succeeded ''Delete Disk'' ''Disk deleted'' None, time_sleep 2 w1))"

definition DeleteDiskOperation_rollback ::
  "'r compute \<Rightarrow> string \<Rightarrow> string \<Rightarrow> pydict \<Rightarrow> 'r world \<Rightarrow> bool \<times> 'r world" where
  "DeleteDiskOperation_rollback c project zone rdata w = (False, w)"

section \<open>State tracker (orchestration/state.py)\<close>

text \<open>One entry of the tracker. The \<^verbatim>\<open>timestamp\<close> field is written once and never read by
  the code modelled here; it is left out.\<close>

record OperationState =
  st_operation_name :: string
  st_success :: bool
  st_message :: string
  st_rollback_data :: "pydict option"

type_synonym StateTracker = "OperationState list"

definition add_operation ::
  "StateTracker \<Rightarrow> string \<Rightarrow> bool \<Rightarrow> string \<Rightarrow> pydict option \<Rightarrow> StateTracker" where
  "add_operation tracker n ok msg rd =
     tracker @ [\<lparr>st_operation_name = n, st_success = ok, st_message = msg, st_rollback_data = rd\<rparr>]"

definition get_successful_operations :: "StateTracker \<Rightarrow> OperationState list" where
  "get_successful_operations tracker = filter st_success tracker"

definition get_failed_operations :: "StateTracker \<Rightarrow> OperationState list" where
  "get_failed_operations tracker = filter (\<lambda>op. \<not> st_success op) tracker"

definition get_rollback_operations :: "StateTracker \<Rightarrow> OperationState list" where
  "get_rollback_operations tracker = rev (get_successful_operations tracker)"

section \<open>Rollback handler (orchestration/rollback.py)\<close>

text \<open>
  \<^verbatim>\<open>operations_map\<close> maps a step name to an operation instance; of the instance the
  handler only calls \<^verbatim>\<open>rollback\<close>, which returns a boolean or raises. The handler's state
  while it loops is the \<^verbatim>\<open>all_succeeded\<close> flag and the world. \<open>compensated\<close> records, oldest
  first, the steps for which \<^verbatim>\<open>operation.rollback\<close> was called and with which record; the
  code keeps no such list, the theorems read it.
\<close>

type_synonym 'w rollback_fn = "pydict \<Rightarrow> 'w \<Rightarrow> (exn + bool) \<times> 'w"

record 'w rollback_run =
  all_succeeded :: bool
  compensated :: "(string \<times> pydict) list"
  after :: 'w

text \<open>\<^verbatim>\<open>if not op_state.rollback_data\<close>: the record is \<^verbatim>\<open>None\<close> or the empty dictionary.\<close>

definition no_rollback_data :: "pydict option \<Rightarrow> bool" where
  "no_rollback_data rd = (case rd of None \<Rightarrow> True | Some d \<Rightarrow> d = [])"

fun rollback_loop ::
  "(string \<rightharpoonup> 'w rollback_fn) \<Rightarrow> OperationState list \<Rightarrow> 'w rollback_run \<Rightarrow> 'w rollback_run" where
  "rollback_loop operations_map [] run = run"
| "rollback_loop operations_map (op_state # rest) run =
     (case operations_map (st_operation_name op_state) of
        None \<Rightarrow> rollback_loop operations_map rest (run\<lparr>all_succeeded := False\<rparr>)
      | Some operation \<Rightarrow>
          (case st_rollback_data op_state of
             None \<Rightarrow> rollback_loop operations_map rest run
           | Some rd \<Rightarrow>
               if rd = [] then rollback_loop operations_map rest run
               else
                 (case operation rd (after run) of
                    (Inr ok, w') \<Rightarrow>
                      rollback_loop operations_map rest
                        \<lparr>all_succeeded = (if ok then all_succeeded run else False),
                         compensated = compensated run @ [(st_operation_name op_state, rd)],
                         after = w'\<rparr>
                  | (Inl e, w') \<Rightarrow>
                      rollback_loop operations_map rest
                        \<lparr>all_succeeded = False,
                         compensated = compensated run @ [(st_operation_name op_state, rd)],
                         after = w'\<rparr>)))"

definition RollbackHandler_rollback ::
  "(string \<rightharpoonup> 'w rollback_fn) \<Rightarrow> StateTracker \<Rightarrow> 'w \<Rightarrow> 'w rollback_run" where
  "RollbackHandler_rollback operations_map state_tracker w =
     (let rollback_ops = get_rollback_operations state_tracker in
      if rollback_ops = [] then \<lparr>all_succeeded = True, compensated = [], after = w\<rparr>
      else rollback_loop operations_map rollback_ops
             \<lparr>all_succeeded = True, compensated = [], after = w\<rparr>)"

text \<open>An operation instance in the map: its \<^verbatim>\<open>rollback\<close> method, which catches its own
  exceptions and so always returns.\<close>

definition as_operation :: "(pydict \<Rightarrow> 'w \<Rightarrow> bool \<times> 'w) \<Rightarrow> 'w rollback_fn" where
  "as_operation f = (\<lambda>rd w. case f rd w of (ok, w') \<Rightarrow> (Inr ok, w'))"

text \<open>The steps for which the handler calls \<^verbatim>\<open>operation.rollback\<close>: the operation is in
  the map and the record is neither \<^verbatim>\<open>None\<close> nor empty.\<close>

definition compensable :: "(string \<rightharpoonup> 'w rollback_fn) \<Rightarrow> OperationState \<Rightarrow> bool" where
  "compensable operations_map op_state =
     (operations_map (st_operation_name op_state) \<noteq> None \<and>
      \<not> no_rollback_data (st_rollback_data op_state))"

definition step_call :: "OperationState \<Rightarrow> string \<times> pydict" where
  "step_call op_state =
     (st_operation_name op_state, case st_rollback_data op_state of None \<Rightarrow> [] | Some rd \<Rightarrow> rd)"

section \<open>Validators (validators/*.py)\<close>

record ValidationResult =
  validator_name :: string
  passed :: bool
  v_message :: string
  details :: "pydict option"

type_synonym 'w validator = "'w \<Rightarrow> ValidationResult \<times> 'w"

subsection \<open>ValidationResults and ValidationRunner (validators/base.py)\<close>

definition all_passed :: "ValidationResult list \<Rightarrow> bool" where
  "all_passed results = list_all passed results"

definition get_failures :: "ValidationResult list \<Rightarrow> ValidationResult list" where
  "get_failures results = filter (\<lambda>r. \<not> passed r) results"

text \<open>The loop of \<^verbatim>\<open>run_all\<close>: each validator is run and its result appended.\<close>

fun run_loop :: "'w validator list \<Rightarrow> ValidationResult list \<Rightarrow> 'w \<Rightarrow> ValidationResult list \<times> 'w" where
  "run_loop [] results w = (results, w)"
| "run_loop (validator # rest) results w =
     (case validator w of (result, w1) \<Rightarrow> run_loop rest (results @ [result]) w1)"

definition run_all :: "'w validator list \<Rightarrow> 'w \<Rightarrow> ValidationResult list \<times> 'w" where
  "run_all validators w = run_loop validators [] w"

subsection \<open>IAMPermissionsValidator (validators/iam_permissions.py)\<close>

definition INSTANCE_PERMISSIONS :: "string list" where
  "INSTANCE_PERMISSIONS =
     [''compute.instances.get'', ''compute.instances.stop'', ''compute.instances.start'',
      ''compute.instances.attachDisk'', ''compute.instances.detachDisk'',
      ''compute.instances.setMetadata'']"

definition DISK_PERMISSIONS :: "string list" where
  "DISK_PERMISSIONS = [''compute.disks.create'', ''compute.disks.delete'', ''compute.disks.get'']"

definition SNAPSHOT_PERMISSIONS :: "string list" where
  "SNAPSHOT_PERMISSIONS =
     [''compute.disks.createSnapshot'', ''compute.snapshots.create'', ''compute.snapshots.get'',
      ''compute.snapshots.delete'']"

definition str_list :: "string list \<Rightarrow> pyval" where
  "str_list xs = PList (map PStr xs)"

definition required_roles :: pyval where
  "required_roles = str_list
     [''roles/compute.instanceAdmin.v1 (for VM operations)'',
      ''roles/compute.storageAdmin (for disk and snapshot operations)'']"

definition IAMPermissionsValidator_validate ::
  "'r compute \<Rightarrow> string \<Rightarrow> string \<Rightarrow> string option \<Rightarrow> 'r world \<Rightarrow> ValidationResult \<times> 'r world" where
  "IAMPermissionsValidator_validate c project zone vm_name w =
     (if vm_name = None \<or> vm_name = Some [] then
        (\<lparr>validator_name = ''IAM Permissions'', passed = False,
          v_message = ''VM name required to check permissions'',
          details = Some [(''error'', PStr ''vm_name not provided'')]\<rparr>, w)
      else
        (let request_body = PDict [(''permissions'', str_list INSTANCE_PERMISSIONS)] in
         case test_iam_permissions c project zone (opt_val vm_name) request_body w of
           (Inr result, w1) \<Rightarrow>
             (let granted_permissions = (case result of None \<Rightarrow> [] | Some ps \<Rightarrow> ps);
                  missing_permissions =
                    filter (\<lambda>p. p \<notin> set granted_permissions) INSTANCE_PERMISSIONS in
              if missing_permissions \<noteq> [] then
                (\<lparr>validator_name = ''IAM Permissions'', passed = False,
                  v_message = ''Missing '' @ str_int (int (length missing_permissions)) @
                              '' required permission(s)'',
                  details = Some
                    [(''missing'', str_list missing_permissions),
                     (''granted'', str_list granted_permissions),
                     (''required_roles'', required_roles),
                     (''fix'', PStr (''Grant required permissions to your account for project '' @ project)),
                     (''note'', PStr ''Snapshot permissions also required (checked during execution)'')]\<rparr>,
                 w1)
              else
                (\<lparr>validator_name = ''IAM Permissions'', passed = True,
                  v_message = ''Instance permissions OK ('' @ str_int (int (length granted_permissions)) @
                              ''/'' @ str_int (int (length INSTANCE_PERMISSIONS)) @ '')'',
                  details = Some
                    [(''granted'', str_list granted_permissions),
                     (''instance_permissions'', str_list INSTANCE_PERMISSIONS),
                     (''disk_permissions_required'', str_list DISK_PERMISSIONS),
                     (''snapshot_permissions_required'', str_list SNAPSHOT_PERMISSIONS),
                     (''note'', PStr ''Disk and snapshot permissions will be validated during execution''),
                     (''required_roles'', required_roles)]\<rparr>,
                 w1))
         | (Inl (HttpError code m), w1) \<Rightarrow>
             if code = 404 then
               (\<lparr>validator_name = ''IAM Permissions'', passed = True,
                 v_message = ''Skipped (VM validation will run next)'',
                 details = Some [(''note'', PStr ''VM not found, will be caught by VM validator'')]\<rparr>, w1)
             else
               (\<lparr>validator_name = ''IAM Permissions'', passed = False,
                 v_message = ''Failed to check permissions: '' @ m,
                 details = Some [(''error'', PStr m)]\<rparr>, w1)
         | (Inl e, w1) \<Rightarrow>
             (\<lparr>validator_name = ''IAM Permissions'', passed = False,
               v_message = ''Unexpected error checking permissions: '' @ str_exn e,
               details = Some [(''error'', PStr (str_exn e))]\<rparr>, w1)))"

subsection \<open>CredentialsValidator (validators/credentials.py)\<close>

text \<open>
  What \<^verbatim>\<open>google.auth.default()\<close> answers in the process: an exception, or the credentials and
  the default project. Of the credentials the validator reads \<^verbatim>\<open>valid\<close>, \<^verbatim>\<open>expired\<close>,
  \<^verbatim>\<open>refresh_token\<close> and the class name, and it may call \<^verbatim>\<open>refresh\<close>, which raises or not.
\<close>

record credentials =
  cred_valid :: bool
  cred_expired :: bool
  cred_refresh_token :: "string option"
  cred_refresh :: "exn option"
  cred_type :: string

type_synonym auth_env = "exn + credentials \<times> string option"

definition CredentialsValidator_validate :: "auth_env \<Rightarrow> 'w \<Rightarrow> ValidationResult \<times> 'w" where
  "CredentialsValidator_validate auth w =
     (case auth of
        Inr (creds, default_project) \<Rightarrow>
          (let authenticated =
                 \<lparr>validator_name = ''Credentials & Authentication'', passed = True,
                  v_message = ''Authenticated to project: '' @ fmt_opt default_project,
                  details = Some [(''project'', opt_val default_project),
                                  (''credentials_type'', PStr (cred_type creds))]\<rparr> in
           if \<not> cred_valid creds then
             (if cred_expired creds \<and> cred_refresh_token creds \<noteq> None \<and> cred_refresh_token creds \<noteq> Some [] then
                (case cred_refresh creds of
                   Some e \<Rightarrow>
                     (\<lparr>validator_name = ''Credentials & Authentication'', passed = False,
                       v_message = ''Credentials expired and refresh failed'',
                       details = Some [(''error'', PStr (str_exn e)),
                                       (''fix'', PStr ''gcloud auth application-default login'')]\<rparr>, w)
                 | None \<Rightarrow> (authenticated, w))
              else
                (\<lparr>validator_name = ''Credentials & Authentication'', passed = False,
                  v_message = ''Credentials are invalid or expired'',
                  details = Some [(''fix'', PStr ''gcloud auth application-default login'')]\<rparr>, w))
           else (authenticated, w))
      | Inl (DefaultCredentialsError m) \<Rightarrow>
          (\<lparr>validator_name = ''Credentials & Authentication'', passed = False,
            v_message = ''No credentials found'',
            details = Some [(''error'', PStr m),
                            (''fix'', PStr ''gcloud auth application-default login'')]\<rparr>, w)
      | Inl e \<Rightarrow>
          (\<lparr>validator_name = ''Credentials & Authentication'', passed = False,
            v_message = ''Unexpected error checking credentials: '' @ str_exn e,
            details = Some [(''error'', PStr (str_exn e))]\<rparr>, w))"

subsection \<open>VMStateValidator and VMRestoreStateValidator (validators/vm_state.py)\<close>

text \<open>\<^verbatim>\<open>s.split('/')[-1]\<close> and \<^verbatim>\<open>sub in s\<close> on strings.\<close>

definition last_segment :: "string \<Rightarrow> string" where
  "last_segment s = rev (takeWhile (\<lambda>ch. ch \<noteq> CHR ''/'') (rev s))"

fun contains :: "string \<Rightarrow> string \<Rightarrow> bool" where
  "contains sub [] = (sub = [])"
| "contains sub (ch # rest) = (take (length sub) (ch # rest) = sub \<or> contains sub rest)"

definition metadata_items_of :: "vm_instance \<Rightarrow> (string \<times> string) list" where
  "metadata_items_of vm =
     (case in_metadata vm of
        None \<Rightarrow> []
      | Some md \<Rightarrow> (case md_items md of None \<Rightarrow> [] | Some its \<Rightarrow> its))"

definition disks_of :: "vm_instance \<Rightarrow> attached_disk list" where
  "disks_of vm = (case in_disks vm of None \<Rightarrow> [] | Some ds \<Rightarrow> ds)"

definition VALID_STATES :: "string list" where
  "VALID_STATES = [''RUNNING'', ''TERMINATED'']"

definition vm_check_failed :: "string \<Rightarrow> 'w \<Rightarrow> exn \<Rightarrow> string \<Rightarrow> pydict \<Rightarrow> string \<Rightarrow> ValidationResult \<times> 'w" where
  "vm_check_failed n w e not_found_message not_found_details unexpected =
     (case e of
        HttpError code m \<Rightarrow>
          if code = 404 then
            (\<lparr>validator_name = n, passed = False, v_message = not_found_message,
              details = Some not_found_details\<rparr>, w)
          else
            (\<lparr>validator_name = n, passed = False, v_message = ''Failed to get VM info: '' @ m,
              details = Some [(''error'', PStr m)]\<rparr>, w)
      | _ \<Rightarrow>
          (\<lparr>validator_name = n, passed = False, v_message = unexpected @ str_exn e,
            details = Some [(''error'', PStr (str_exn e))]\<rparr>, w))"

definition VMStateValidator_validate ::
  "'r compute \<Rightarrow> string \<Rightarrow> string \<Rightarrow> string option \<Rightarrow> 'r world \<Rightarrow> ValidationResult \<times> 'r world" where
  "VMStateValidator_validate c project zone vm_name w =
     (if vm_name = None \<or> vm_name = Some [] then
        (\<lparr>validator_name = ''VM State'', passed = False, v_message = ''VM name required'',
          details = Some [(''error'', PStr ''vm_name not provided'')]\<rparr>, w)
      else
        (case get_instance c project zone (opt_val vm_name) w of
           (Inl e, w1) \<Rightarrow>
             vm_check_failed ''VM State'' w1 e
               (''VM '' @ [CHR 0x27] @ fmt_opt vm_name @ [CHR 0x27] @ '' not found in zone '' @
                  [CHR 0x27] @ zone @ [CHR 0x27])
               [(''vm_name'', opt_val vm_name), (''zone'', PStr zone), (''project'', PStr project),
                (''fix'', PStr (''gcloud compute instances list --zone='' @ zone @ '' --project='' @ project))]
               ''Unexpected error checking VM: ''
         | (Inr vm, w1) \<Rightarrow>
             (let current_state = in_status vm;
                  in_rescue_mode = list_ex (\<lambda>item. fst item = ''rescue-mode'') (metadata_items_of vm) in
              if in_rescue_mode then
                (\<lparr>validator_name = ''VM State'', passed = False,
                  v_message = ''VM is already in rescue mode'',
                  details = Some [(''current_state'', PStr current_state),
                                  (''fix'', PStr ''Use 'restore' command to exit rescue mode first'')]\<rparr>, w1)
              else if current_state \<notin> set VALID_STATES then
                (\<lparr>validator_name = ''VM State'', passed = False,
                  v_message = ''VM is in invalid state: '' @ current_state,
                  details = Some [(''current_state'', PStr current_state),
                                  (''valid_states'', str_list VALID_STATES),
                                  (''fix'', PStr ''Wait for VM to reach RUNNING or TERMINATED state'')]\<rparr>, w1)
              else
                (case find (\<lambda>disk. ad_boot disk = Some True) (disks_of vm) of
                   None \<Rightarrow>
                     (\<lparr>validator_name = ''VM State'', passed = False, v_message = ''VM has no boot disk'',
                       details = Some [(''error'', PStr ''No boot disk found'')]\<rparr>, w1)
                 | Some disk \<Rightarrow>
                     (let boot_disk = last_segment (ad_source disk) in
                      if boot_disk = [] then
                        (\<lparr>validator_name = ''VM State'', passed = False, v_message = ''VM has no boot disk'',
                          details = Some [(''error'', PStr ''No boot disk found'')]\<rparr>, w1)
                      else
                        (\<lparr>validator_name = ''VM State'', passed = True,
                          v_message = ''VM exists and is '' @ current_state,
                          details = Some [(''vm_name'', opt_val vm_name),
                                          (''current_state'', PStr current_state),
                                          (''boot_disk'', PStr boot_disk),
                                          (''zone'', PStr zone), (''project'', PStr project)]\<rparr>, w1))))))"

text \<open>The loop over the disks of \<^verbatim>\<open>VMRestoreStateValidator.validate\<close>: the last disk whose name
  contains \<^verbatim>\<open>rescue-disk\<close>, and the last other disk that is not a boot disk.\<close>

fun restore_disks :: "attached_disk list \<Rightarrow> string option \<times> string option \<Rightarrow> string option \<times> string option" where
  "restore_disks [] acc = acc"
| "restore_disks (disk # rest) (rescue_disk, original_disk) =
     (let disk_name = last_segment (ad_source disk) in
      if contains ''rescue-disk'' disk_name then restore_disks rest (Some disk_name, original_disk)
      else if ad_boot disk \<noteq> Some True then restore_disks rest (rescue_disk, Some disk_name)
      else restore_disks rest (rescue_disk, original_disk))"

definition VMRestoreStateValidator_validate ::
  "'r compute \<Rightarrow> string \<Rightarrow> string \<Rightarrow> string option \<Rightarrow> 'r world \<Rightarrow> ValidationResult \<times> 'r world" where
  "VMRestoreStateValidator_validate c project zone vm_name w =
     (if vm_name = None \<or> vm_name = Some [] then
        (\<lparr>validator_name = ''VM Restore State'', passed = False, v_message = ''VM name required'',
          details = Some [(''error'', PStr ''vm_name not provided'')]\<rparr>, w)
      else
        (case get_instance c project zone (opt_val vm_name) w of
           (Inl e, w1) \<Rightarrow>
             vm_check_failed ''VM Restore State'' w1 e
               (''VM '' @ [CHR 0x27] @ fmt_opt vm_name @ [CHR 0x27] @ '' not found'')
               [(''error'', PStr ''VM not found'')]
               ''Unexpected error: ''
         | (Inr vm, w1) \<Rightarrow>
             (let in_rescue_mode = list_ex (\<lambda>item. fst item = ''rescue-mode'') (metadata_items_of vm) in
              if \<not> in_rescue_mode then
                (\<lparr>validator_name = ''VM Restore State'', passed = False,
                  v_message = ''VM is not in rescue mode'',
                  details = Some [(''fix'', PStr ''Use 'rescue' command first to enter rescue mode'')]\<rparr>, w1)
              else
                (case restore_disks (disks_of vm) (None, None) of
                   (rescue_disk, original_disk) \<Rightarrow>
                     if rescue_disk = None \<or> rescue_disk = Some [] then
                       (\<lparr>validator_name = ''VM Restore State'', passed = False,
                         v_message = ''Rescue disk not found'',
                         details = Some [(''error'', PStr ''Cannot find rescue disk'')]\<rparr>, w1)
                     else if original_disk = None \<or> original_disk = Some [] then
                       (\<lparr>validator_name = ''VM Restore State'', passed = False,
                         v_message = ''Original disk not found'',
                         details = Some [(''error'', PStr ''Cannot find original disk'')]\<rparr>, w1)
                     else
                       (\<lparr>validator_name = ''VM Restore State'', passed = True,
                         v_message = ''VM is in rescue mode and ready for restore'',
                         details = Some [(''rescue_disk'', opt_val rescue_disk),
                                         (''original_disk'', opt_val original_disk)]\<rparr>, w1)))))"

section \<open>Orchestrators (orchestration/rescue.py, orchestration/restore.py)\<close>

text \<open>The fields of \<^verbatim>\<open>RescueConfig\<close> and \<^verbatim>\<open>RestoreConfig\<close> (core/config.py) that the orchestrators
  read. The two timeouts of \<^verbatim>\<open>RestoreConfig\<close> carry the prefix \<open>restore_\<close> here, since record
  fields share one name space.\<close>

record RescueConfig =
  rescue_disk_size_gb :: int
  rescue_disk_type :: string
  rescue_image_family :: string
  rescue_image_project :: string
  create_snapshot :: bool
  require_snapshot :: bool
  snapshot_timeout :: int
  vm_stop_timeout :: int
  vm_start_timeout :: int
  disk_create_timeout :: int

definition default_RescueConfig :: RescueConfig where
  "default_RescueConfig =
     \<lparr>rescue_disk_size_gb = 10, rescue_disk_type = ''pd-standard'',
      rescue_image_family = ''debian-11'', rescue_image_project = ''debian-cloud'',
      create_snapshot = True, require_snapshot = False, snapshot_timeout = 600,
      vm_stop_timeout = 300, vm_start_timeout = 300, disk_create_timeout = 300\<rparr>"

record RestoreConfig =
  delete_rescue_disk :: bool
  restore_vm_stop_timeout :: int
  restore_vm_start_timeout :: int

definition default_RestoreConfig :: RestoreConfig where
  "default_RestoreConfig =
     \<lparr>delete_rescue_disk = True, restore_vm_stop_timeout = 300, restore_vm_start_timeout = 300\<rparr>"

text \<open>What a call of \<^verbatim>\<open>execute\<close> leaves behind: the boolean it returns, the state tracker, the
  run of the rollback handler when \<^verbatim>\<open>_rollback\<close> was called, and the world.\<close>

record 'r outcome =
  returned :: bool
  state_tracker :: StateTracker
  rolled_back :: "'r world rollback_run option"
  final_world :: "'r world"

text \<open>\<^verbatim>\<open>self.state_tracker.add_operation(name, result.success, result.message,
  result.rollback_data)\<close>.\<close>

definition record_result :: "StateTracker \<Rightarrow> string \<Rightarrow> OperationResult \<Rightarrow> StateTracker" where
  "record_result tracker n result =
     add_operation tracker n (success result) (message result) (rollback_data result)"

text \<open>\<^verbatim>\<open>self._rollback(); return False\<close>.\<close>

definition rollback_and_fail ::
  "(string \<rightharpoonup> 'r world rollback_fn) \<Rightarrow> StateTracker \<Rightarrow> 'r world \<Rightarrow> 'r outcome" where
  "rollback_and_fail operations_map tracker w =
     (let run = RollbackHandler_rollback operations_map tracker w in
      \<lparr>returned = False, state_tracker = tracker, rolled_back = Some run, final_world = after run\<rparr>)"

subsection \<open>RescueOrchestrator\<close>

definition RescueOrchestrator_validate ::
  "'r compute \<Rightarrow> auth_env \<Rightarrow> string \<Rightarrow> string \<Rightarrow> string \<Rightarrow> 'r world \<Rightarrow> bool \<times> 'r world" where
  "RescueOrchestrator_validate c auth project zone vm_name w =
     (case run_all [CredentialsValidator_validate auth,
                    IAMPermissionsValidator_validate c project zone (Some vm_name),
                    VMStateValidator_validate c project zone (Some vm_name)] w of
        (results, w1) \<Rightarrow> (all_passed results, w1))"

definition rescue_operations_map ::
  "'r compute \<Rightarrow> string \<Rightarrow> string \<Rightarrow> (string \<rightharpoonup> 'r world rollback_fn)" where
  "rescue_operations_map c project zone = map_of
     [(''Create Snapshot'', as_operation (CreateSnapshotOperation_rollback c project zone)),
      (''Stop VM'', as_operation (StopVMOperation_rollback c project zone)),
      (''Create Rescue Disk'', as_operation (CreateDiskOperation_rollback c project zone)),
      (''Detach Boot Disk'', as_operation (DetachDiskOperation_rollback c project zone)),
      (''Attach Rescue Disk'', as_operation (AttachDiskOperation_rollback c project zone)),
      (''Set Metadata'', as_operation (SetMetadataOperation_rollback c project zone)),
      (''Start VM'', as_operation (StartVMOperation_rollback c project zone)),
      (''Attach Original Disk'', as_operation (AttachDiskOperation_rollback c project zone))]"

text \<open>\<^verbatim>\<open>_get_original_disk_info\<close>: the first disk with a true \<^verbatim>\<open>boot\<close> flag.\<close>

definition get_original_disk_info ::
  "'r compute \<Rightarrow> string \<Rightarrow> string \<Rightarrow> string \<Rightarrow> 'r world
     \<Rightarrow> (exn + string option \<times> string option) \<times> 'r world" where
  "get_original_disk_info c project zone vm_name w =
     (case get_instance c project zone (PStr vm_name) w of
        (Inl e, w1) \<Rightarrow> (Inl e, w1)
      | (Inr vm, w1) \<Rightarrow>
          (case find (\<lambda>disk. ad_boot disk = Some True) (disks_of vm) of
             None \<Rightarrow> (Inr (None, None), w1)
           | Some disk \<Rightarrow>
               (Inr (Some (last_segment (ad_source disk)), Some (ad_deviceName disk)), w1)))"

text \<open>\<^verbatim>\<open>str.replace(old, new)\<close> for a non-empty \<^verbatim>\<open>old\<close>.\<close>

function replace_all :: "string \<Rightarrow> string \<Rightarrow> string \<Rightarrow> string" where
  "replace_all old new s =
     (if s = [] \<or> old = [] then s
      else if take (length old) s = old then new @ replace_all old new (drop (length old) s)
      else hd s # replace_all old new (tl s))"
  by pat_completeness auto
termination
  by (relation "measure (\<lambda>(old, new, s). length s)") (auto simp: neq_Nil_conv)

text \<open>
  \<^verbatim>\<open>_generate_startup_script\<close> reads the template \<^verbatim>\<open>startup_scripts/rescue_mount.sh\<close> and
  replaces the placeholder, or falls back to an inline script. The template file and the text
  of the inline script are parameters: \<open>template\<close> is the file's content when the file exists,
  \<open>fallback\<close> the inline text for a disk name. \<^verbatim>\<open>replace\<close> raises TypeError on \<^verbatim>\<open>None\<close>.
\<close>

record script_env =
  template :: "string option"
  fallback :: "string \<Rightarrow> string"

definition generate_startup_script :: "script_env \<Rightarrow> string option \<Rightarrow> exn + string" where
  "generate_startup_script env original_disk_name =
     (case template env of
        Some script \<Rightarrow>
          (case original_disk_name of
             None \<Rightarrow> Inl (TypeError ''replace() argument 2 must be str, not None'')
           | Some n \<Rightarrow> Inr (replace_all ''DISK_NAME_PLACEHOLDER'' n script))
      | None \<Rightarrow> Inr (fallback env (fmt_opt original_disk_name)))"

text \<open>Step 0 of the rescue workflow, the safety snapshot: the tracker, the world, and whether
  the workflow aborts here (snapshot required but failed).\<close>

definition rescue_snapshot_step ::
  "'r compute \<Rightarrow> string \<Rightarrow> string \<Rightarrow> string \<Rightarrow> RescueConfig \<Rightarrow> string option \<Rightarrow> 'r world
     \<Rightarrow> StateTracker \<times> 'r world \<times> bool" where
  "rescue_snapshot_step c project zone vm_name config original_disk_name w =
     (if create_snapshot config then
        (case CreateSnapshotOperation_execute c project zone original_disk_name None
                (Some (''Pre-rescue safety snapshot of '' @ vm_name)) (snapshot_timeout config) w of
           (result, w1) \<Rightarrow>
             (record_result [] ''Create Snapshot'' result, w1,
              \<not> success result \<and> require_snapshot config))
      else ([], w, False))"

definition RescueOrchestrator_execute ::
  "'r compute \<Rightarrow> string \<Rightarrow> string \<Rightarrow> string \<Rightarrow> RescueConfig \<Rightarrow> script_env \<Rightarrow> 'r world \<Rightarrow> 'r outcome" where
  "RescueOrchestrator_execute c project zone vm_name config scripts w =
     (let rescue_disk_name = ''rescue-disk-'' @ str_int (clock w) in
      case get_original_disk_info c project zone vm_name w of
        (Inl e, w0) \<Rightarrow> rollback_and_fail Map.empty [] w0
      | (Inr (original_disk_name, original_device_name), w0) \<Rightarrow>
      (let operations_map = rescue_operations_map c project zone in
       case rescue_snapshot_step c project zone vm_name config original_disk_name w0 of
         (tracker0, w1, abort) \<Rightarrow>
       if abort then
         \<lparr>returned = False, state_tracker = tracker0, rolled_back = None, final_world = w1\<rparr>
       else
       (case StopVMOperation_execute c project zone vm_name (vm_stop_timeout config) w1 of
          (result1, w2) \<Rightarrow>
       (let tracker1 = record_result tracker0 ''Stop VM'' result1 in
        if \<not> success result1 then rollback_and_fail operations_map tracker1 w2
        else
       (case CreateDiskOperation_execute c project zone rescue_disk_name
               (rescue_disk_size_gb config) (rescue_disk_type config)
               (''projects/'' @ rescue_image_project config @ ''/global/images/family/'' @
                  rescue_image_family config)
               (disk_create_timeout config) w2 of
          (result2, w3) \<Rightarrow>
       (let tracker2 = record_result tracker1 ''Create Rescue Disk'' result2 in
        if \<not> success result2 then rollback_and_fail operations_map tracker2 w3
        else
       (case DetachDiskOperation_execute c project zone vm_name original_device_name w3 of
          (result3, w4) \<Rightarrow>
       (let tracker3 = record_result tracker2 ''Detach Boot Disk'' result3 in
        if \<not> success result3 then rollback_and_fail operations_map tracker3 w4
        else
       (case AttachDiskOperation_execute c project zone vm_name (Some rescue_disk_name)
               True False False w4 of
          (result4, w5) \<Rightarrow>
       (let tracker4 = record_result tracker3 ''Attach Rescue Disk'' result4 in
        if \<not> success result4 then rollback_and_fail operations_map tracker4 w5
        else
       (case generate_startup_script scripts original_disk_name of
          Inl e \<Rightarrow> rollback_and_fail operations_map tracker4 w5
        | Inr startup_script \<Rightarrow>
       (let metadata_items =
              [PDict [(''key'', PStr ''startup-script''), (''value'', PStr startup_script)],
               PDict [(''key'', PStr ''rescue-mode''), (''value'', PStr (str_int (clock w5)))],
               PDict [(''key'', PStr ''rescue-original-disk''), (''value'', opt_val original_disk_name)]] in
        case SetMetadataOperation_execute c project zone vm_name metadata_items w5 of
          (result5, w6) \<Rightarrow>
       (let tracker5 = record_result tracker4 ''Set Metadata'' result5 in
        if \<not> success result5 then rollback_and_fail operations_map tracker5 w6
        else
       (case StartVMOperation_execute c project zone vm_name (vm_start_timeout config) w6 of
          (result6, w7) \<Rightarrow>
       (let tracker6 = record_result tracker5 ''Start VM'' result6 in
        if \<not> success result6 then rollback_and_fail operations_map tracker6 w7
        else
       (case AttachDiskOperation_execute c project zone vm_name original_disk_name
               False False False (time_sleep 10 w7) of
          (result7, w8) \<Rightarrow>
       (let tracker7 = record_result tracker6 ''Attach Original Disk'' result7 in
        if \<not> success result7 then rollback_and_fail operations_map tracker7 w8
        else
          \<lparr>returned = True, state_tracker = tracker7, rolled_back = None,
            final_world = w8\<rparr>)))))))))))))))))"

subsection \<open>RestoreOrchestrator\<close>

definition RestoreOrchestrator_validate ::
  "'r compute \<Rightarrow> auth_env \<Rightarrow> string \<Rightarrow> string \<Rightarrow> string \<Rightarrow> 'r world \<Rightarrow> bool \<times> 'r world" where
  "RestoreOrchestrator_validate c auth project zone vm_name w =
     (case run_all [CredentialsValidator_validate auth,
                    IAMPermissionsValidator_validate c project zone (Some vm_name),
                    VMRestoreStateValidator_validate c project zone (Some vm_name)] w of
        (results, w1) \<Rightarrow> (all_passed results, w1))"

definition restore_operations_map ::
  "'r compute \<Rightarrow> string \<Rightarrow> string \<Rightarrow> (string \<rightharpoonup> 'r world rollback_fn)" where
  "restore_operations_map c project zone = map_of
     [(''Stop VM'', as_operation (StopVMOperation_rollback c project zone)),
      (''Detach Rescue Disk'', as_operation (DetachDiskOperation_rollback c project zone)),
      (''Detach Original Disk'', as_operation (DetachDiskOperation_rollback c project zone)),
      (''Attach Original Disk'', as_operation (AttachDiskOperation_rollback c project zone)),
      (''Set Metadata'', as_operation (SetMetadataOperation_rollback c project zone)),
      (''Start VM'', as_operation (StartVMOperation_rollback c project zone))]"

text \<open>\<^verbatim>\<open>_get_disk_info\<close>: the original disk's name is the value of the first
  \<^verbatim>\<open>rescue-original-disk\<close> metadata item; the loop over the disks then keeps the last disk whose
  name contains \<^verbatim>\<open>rescue-disk\<close> and the device name of the last other disk with the original
  disk's name.\<close>

record disk_names =
  rescue_disk_name :: "string option"
  rescue_device_name :: "string option"
  original_disk_name :: "string option"
  original_device_name :: "string option"

fun disk_info_loop :: "attached_disk list \<Rightarrow> disk_names \<Rightarrow> disk_names" where
  "disk_info_loop [] names = names"
| "disk_info_loop (disk # rest) names =
     (let disk_name = last_segment (ad_source disk);
          device_name = ad_deviceName disk in
      if contains ''rescue-disk'' disk_name then
        disk_info_loop rest
          (names\<lparr>rescue_disk_name := Some disk_name, rescue_device_name := Some device_name\<rparr>)
      else if Some disk_name = original_disk_name names then
        disk_info_loop rest (names\<lparr>original_device_name := Some device_name\<rparr>)
      else disk_info_loop rest names)"

definition get_disk_info ::
  "'r compute \<Rightarrow> string \<Rightarrow> string \<Rightarrow> string \<Rightarrow> 'r world \<Rightarrow> (exn + disk_names) \<times> 'r world" where
  "get_disk_info c project zone vm_name w =
     (case get_instance c project zone (PStr vm_name) w of
        (Inl e, w1) \<Rightarrow> (Inl e, w1)
      | (Inr vm, w1) \<Rightarrow>
          (Inr (disk_info_loop (disks_of vm)
                  \<lparr>rescue_disk_name = None, rescue_device_name = None,
                   original_disk_name =
                     map_option snd (find (\<lambda>item. fst item = ''rescue-original-disk'') (metadata_items_of vm)),
                   original_device_name = None\<rparr>), w1))"

definition rescue_keys :: "string list" where
  "rescue_keys = [''rescue-mode'', ''startup-script'', ''rescue-original-disk'']"

definition get_clean_metadata ::
  "'r compute \<Rightarrow> string \<Rightarrow> string \<Rightarrow> string \<Rightarrow> 'r world \<Rightarrow> (exn + (string \<times> string) list) \<times> 'r world" where
  "get_clean_metadata c project zone vm_name w =
     (case get_instance c project zone (PStr vm_name) w of
        (Inl e, w1) \<Rightarrow> (Inl e, w1)
      | (Inr vm, w1) \<Rightarrow>
          (Inr (filter (\<lambda>item. fst item \<notin> set rescue_keys) (metadata_items_of vm)), w1))"

text \<open>Step 7 of the restore workflow: the rescue disk is deleted when the configuration asks
  for it; the result is neither recorded nor able to fail the workflow.\<close>

definition restore_delete_step ::
  "'r compute \<Rightarrow> string \<Rightarrow> string \<Rightarrow> RestoreConfig \<Rightarrow> string option \<Rightarrow> 'r world \<Rightarrow> 'r world" where
  "restore_delete_step c project zone config disk_name w =
     (if delete_rescue_disk config then snd (DeleteDiskOperation_execute c project zone disk_name w)
      else w)"

definition RestoreOrchestrator_execute ::
  "'r compute \<Rightarrow> string \<Rightarrow> string \<Rightarrow> string \<Rightarrow> RestoreConfig \<Rightarrow> 'r world \<Rightarrow> 'r outcome" where
  "RestoreOrchestrator_execute c project zone vm_name config w =
     (case get_disk_info c project zone vm_name w of
        (Inl e, w0) \<Rightarrow> rollback_and_fail Map.empty [] w0
      | (Inr names, w0) \<Rightarrow>
      (let operations_map = restore_operations_map c project zone in
       case StopVMOperation_execute c project zone vm_name (restore_vm_stop_timeout config) w0 of
          (result1, w1) \<Rightarrow>
       (let tracker1 = record_result [] ''Stop VM'' result1 in
        if \<not> success result1 then rollback_and_fail operations_map tracker1 w1
        else
       (case DetachDiskOperation_execute c project zone vm_name (rescue_device_name names) w1 of
          (result2, w2) \<Rightarrow>
       (let tracker2 = record_result tracker1 ''Detach Rescue Disk'' result2 in
        if \<not> success result2 then rollback_and_fail operations_map tracker2 w2
        else
       (case DetachDiskOperation_execute c project zone vm_name (original_device_name names) w2 of
          (result3, w3) \<Rightarrow>
       (let tracker3 = record_result tracker2 ''Detach Original Disk'' result3 in
        if \<not> success result3 then rollback_and_fail operations_map tracker3 w3
        else
       (case AttachDiskOperation_execute c project zone vm_name (original_disk_name names)
               True False False w3 of
          (result4, w4) \<Rightarrow>
       (let tracker4 = record_result tracker3 ''Attach Original Disk'' result4 in
        if \<not> success result4 then rollback_and_fail operations_map tracker4 w4
        else
       (case get_clean_metadata c project zone vm_name w4 of
          (Inl e, w5) \<Rightarrow> rollback_and_fail operations_map tracker4 w5
        | (Inr clean_metadata, w5) \<Rightarrow>
       (case SetMetadataOperation_execute c project zone vm_name (map item_py clean_metadata) w5 of
          (result5, w6) \<Rightarrow>
       (let tracker5 = record_result tracker4 ''Set Metadata'' result5 in
        if \<not> success result5 then rollback_and_fail operations_map tracker5 w6
        else
       (case StartVMOperation_execute c project zone vm_name (restore_vm_start_timeout config) w6 of
          (result6, w7) \<Rightarrow>
       (let tracker6 = record_result tracker5 ''Start VM'' result6 in
        if \<not> success result6 then rollback_and_fail operations_map tracker6 w7
        else
          \<lparr>returned = True, state_tracker = tracker6, rolled_back = None,
            final_world = restore_delete_step c project zone config (rescue_disk_name names) w7\<rparr>))))))))))))))"

section \<open>Entry points (main.py)\<close>

text \<open>\<^verbatim>\<open>rescue_vm\<close> and \<^verbatim>\<open>restore_vm\<close> from the point where the client has been built:
  validate, and execute only if the validation passed.\<close>

definition rescue_vm ::
  "'r compute \<Rightarrow> auth_env \<Rightarrow> string \<Rightarrow> string \<Rightarrow> string \<Rightarrow> RescueConfig \<Rightarrow> script_env \<Rightarrow> 'r world
     \<Rightarrow> 'r outcome" where
  "rescue_vm c auth project zone vm_name config scripts w =
     (case RescueOrchestrator_validate c auth project zone vm_name w of
        (ok, w1) \<Rightarrow>
          if \<not> ok then \<lparr>returned = False, state_tracker = [], rolled_back = None, final_world = w1\<rparr>
          else RescueOrchestrator_execute c project zone vm_name config scripts w1)"

definition restore_vm ::
  "'r compute \<Rightarrow> auth_env \<Rightarrow> string \<Rightarrow> string \<Rightarrow> string \<Rightarrow> RestoreConfig \<Rightarrow> 'r world \<Rightarrow> 'r outcome" where
  "restore_vm c auth project zone vm_name config w =
     (case RestoreOrchestrator_validate c auth project zone vm_name w of
        (ok, w1) \<Rightarrow>
          if \<not> ok then \<lparr>returned = False, state_tracker = [], rolled_back = None, final_world = w1\<rparr>
          else RestoreOrchestrator_execute c project zone vm_name config w1)"

section \<open>A simulated client\<close>

text \<open>
  A small in-memory stand-in for the compute service, used to run the code above on concrete
  inputs. It holds one instance with its status, attached disks and metadata, the disks and
  snapshots of the project, and the permissions of the caller. \<^verbatim>\<open>setMetadata\<close> replaces the
  item list with the one in the request body and checks the fingerprint, as the service does;
  \<^verbatim>\<open>testIamPermissions\<close> answers the requested permissions the caller holds. Every call
  returns at once. When \<open>sim_stuck\<close> is set, a stop or start request leaves the instance in
  \<^verbatim>\<open>STOPPING\<close> or \<^verbatim>\<open>PROVISIONING\<close> for good, and a new disk or snapshot stays in
  \<^verbatim>\<open>CREATING\<close>.
\<close>

record cloud =
  sim_vm :: string
  sim_status :: string
  sim_attached :: "attached_disk list"
  sim_items :: "(string \<times> string) list"
  sim_fingerprint :: nat
  sim_disks :: "(string \<times> string) list"
  sim_snapshots :: "(string \<times> string) list"
  sim_granted :: "string list"
  sim_stuck :: bool

definition not_found :: exn where
  "not_found = HttpError 404 ''not found''"

definition bad_request :: exn where
  "bad_request = HttpError 400 ''bad request''"

definition sim_instance :: "cloud \<Rightarrow> vm_instance" where
  "sim_instance r =
     \<lparr>in_status = sim_status r, in_disks = Some (sim_attached r),
      in_metadata = Some \<lparr>md_fingerprint = Some (str_nat (sim_fingerprint r)),
                          md_items = Some (sim_items r)\<rparr>\<rparr>"

definition on_vm :: "pyval \<Rightarrow> (cloud \<Rightarrow> (exn + 'a) \<times> cloud \<times> nat) \<Rightarrow> (cloud, 'a) remote_call" where
  "on_vm v f r = (if v = PStr (sim_vm r) then f r else (Inl not_found, r, 0))"

fun decode_disk :: "pyval \<Rightarrow> attached_disk option" where
  "decode_disk (PDict d) =
     (case (map_of d ''source'', map_of d ''boot'', map_of d ''autoDelete'',
            map_of d ''deviceName'', map_of d ''mode'') of
        (Some (PStr src), Some (PBool b), Some (PBool a), Some (PStr dev), Some (PStr m)) \<Rightarrow>
          Some \<lparr>ad_source = src, ad_deviceName = dev, ad_boot = Some b, ad_autoDelete = Some a,
                ad_mode = Some m\<rparr>
      | _ \<Rightarrow> None)"
| "decode_disk _ = None"

fun decode_item :: "pyval \<Rightarrow> (string \<times> string) option" where
  "decode_item (PDict d) =
     (case (map_of d ''key'', map_of d ''value'') of
        (Some (PStr k), Some (PStr v)) \<Rightarrow> Some (k, v)
      | _ \<Rightarrow> None)"
| "decode_item _ = None"

fun decode_items :: "pyval list \<Rightarrow> (string \<times> string) list option" where
  "decode_items [] = Some []"
| "decode_items (x # xs) =
     (case (decode_item x, decode_items xs) of
        (Some kv, Some kvs) \<Rightarrow> Some (kv # kvs)
      | _ \<Rightarrow> None)"

fun decode_strings :: "pyval list \<Rightarrow> string list" where
  "decode_strings [] = []"
| "decode_strings (PStr s # xs) = s # decode_strings xs"
| "decode_strings (_ # xs) = decode_strings xs"

definition sim_set_metadata :: "pyval \<Rightarrow> cloud \<Rightarrow> (exn + unit) \<times> cloud \<times> nat" where
  "sim_set_metadata body r =
     (case body of
        PDict d \<Rightarrow>
          (case (map_of d ''fingerprint'', map_of d ''items'') of
             (Some (PStr f), Some (PList its)) \<Rightarrow>
               if f \<noteq> str_nat (sim_fingerprint r) then
                 (Inl (HttpError 412 ''fingerprint mismatch''), r, 0)
               else
                 (case decode_items its of
                    None \<Rightarrow> (Inl bad_request, r, 0)
                  | Some kvs \<Rightarrow>
                      (Inr (), r\<lparr>sim_items := kvs, sim_fingerprint := Suc (sim_fingerprint r)\<rparr>, 0))
           | _ \<Rightarrow> (Inl bad_request, r, 0))
      | _ \<Rightarrow> (Inl bad_request, r, 0))"

definition sim_attach :: "pyval \<Rightarrow> cloud \<Rightarrow> (exn + unit) \<times> cloud \<times> nat" where
  "sim_attach body r =
     (case decode_disk body of
        None \<Rightarrow> (Inl bad_request, r, 0)
      | Some disk \<Rightarrow>
          if ad_deviceName disk \<in> set (map ad_deviceName (sim_attached r)) then (Inl bad_request, r, 0)
          else (Inr (), r\<lparr>sim_attached := sim_attached r @ [disk]\<rparr>, 0))"

definition sim_detach :: "pyval \<Rightarrow> cloud \<Rightarrow> (exn + unit) \<times> cloud \<times> nat" where
  "sim_detach dev r =
     (if dev \<in> set (map (\<lambda>d. PStr (ad_deviceName d)) (sim_attached r)) then
        (Inr (), r\<lparr>sim_attached := filter (\<lambda>d. PStr (ad_deviceName d) \<noteq> dev) (sim_attached r)\<rparr>, 0)
      else (Inl bad_request, r, 0))"

definition sim_permissions :: "pyval \<Rightarrow> cloud \<Rightarrow> (exn + string list option) \<times> cloud \<times> nat" where
  "sim_permissions body r =
     (case body of
        PDict d \<Rightarrow>
          (case map_of d ''permissions'' of
             Some (PList ps) \<Rightarrow> (Inr (Some (filter (\<lambda>p. p \<in> set (sim_granted r)) (decode_strings ps))), r, 0)
           | _ \<Rightarrow> (Inl bad_request, r, 0))
      | _ \<Rightarrow> (Inl bad_request, r, 0))"

definition sim_insert_disk :: "pyval \<Rightarrow> cloud \<Rightarrow> (exn + unit) \<times> cloud \<times> nat" where
  "sim_insert_disk body r =
     (case body of
        PDict d \<Rightarrow>
          (case map_of d ''name'' of
             Some (PStr n) \<Rightarrow>
               if map_of (sim_disks r) n \<noteq> None then (Inl (HttpError 409 ''already exists''), r, 0)
               else (Inr (), r\<lparr>sim_disks := sim_disks r @
                        [(n, if sim_stuck r then ''CREATING'' else ''READY'')]\<rparr>, 0)
           | _ \<Rightarrow> (Inl bad_request, r, 0))
      | _ \<Rightarrow> (Inl bad_request, r, 0))"

definition sim_create_snapshot :: "pyval \<Rightarrow> pyval \<Rightarrow> cloud \<Rightarrow> (exn + unit) \<times> cloud \<times> nat" where
  "sim_create_snapshot disk body r =
     (case (disk, body) of
        (PStr dn, PDict d) \<Rightarrow>
          (case (map_of (sim_disks r) dn, map_of d ''name'') of
             (Some st, Some (PStr n)) \<Rightarrow>
               (Inr (), r\<lparr>sim_snapshots := sim_snapshots r @
                        [(n, if sim_stuck r then ''CREATING'' else ''READY'')]\<rparr>, 0)
           | (None, _) \<Rightarrow> (Inl not_found, r, 0)
           | _ \<Rightarrow> (Inl bad_request, r, 0))
      | _ \<Rightarrow> (Inl bad_request, r, 0))"

definition sim_lookup :: "(string \<times> string) list \<Rightarrow> pyval \<Rightarrow> string option" where
  "sim_lookup table n = (case n of PStr s \<Rightarrow> map_of table s | _ \<Rightarrow> None)"

definition sim_remove :: "(string \<times> string) list \<Rightarrow> pyval \<Rightarrow> (string \<times> string) list" where
  "sim_remove table n = filter (\<lambda>entry. PStr (fst entry) \<noteq> n) table"

definition sim :: "cloud compute" where
  "sim =
     \<lparr>instances_get = (\<lambda>p z v. on_vm v (\<lambda>r. (Inr (sim_instance r), r, 0))),
      instances_stop = (\<lambda>p z v. on_vm v (\<lambda>r.
         (Inr (), r\<lparr>sim_status := (if sim_stuck r then ''STOPPING'' else ''TERMINATED'')\<rparr>, 0))),
      instances_start = (\<lambda>p z v. on_vm v (\<lambda>r.
         (Inr (), r\<lparr>sim_status := (if sim_stuck r then ''PROVISIONING'' else ''RUNNING'')\<rparr>, 0))),
      instances_attachDisk = (\<lambda>p z v body. on_vm v (sim_attach body)),
      instances_detachDisk = (\<lambda>p z v dev. on_vm v (sim_detach dev)),
      instances_setMetadata = (\<lambda>p z v body. on_vm v (sim_set_metadata body)),
      instances_testIamPermissions = (\<lambda>p z v body. on_vm v (sim_permissions body)),
      disks_insert = (\<lambda>p z body. sim_insert_disk body),
      disks_get = (\<lambda>p z d r.
         (case sim_lookup (sim_disks r) d of None \<Rightarrow> (Inl not_found, r, 0) | Some st \<Rightarrow> (Inr st, r, 0))),
      disks_delete = (\<lambda>p z d r.
         (case sim_lookup (sim_disks r) d of
            None \<Rightarrow> (Inl not_found, r, 0)
          | Some st \<Rightarrow> (Inr (), r\<lparr>sim_disks := sim_remove (sim_disks r) d\<rparr>, 0))),
      disks_createSnapshot = (\<lambda>p z d body. sim_create_snapshot d body),
      snapshots_get = (\<lambda>p s r.
         (case sim_lookup (sim_snapshots r) s of
            None \<Rightarrow> (Inl not_found, r, 0)
          | Some st \<Rightarrow> (Inr (Some st), r, 0))),
      snapshots_delete = (\<lambda>p s r.
         (case sim_lookup (sim_snapshots r) s of
            None \<Rightarrow> (Inl not_found, r, 0)
          | Some st \<Rightarrow> (Inr (), r\<lparr>sim_snapshots := sim_remove (sim_snapshots r) s\<rparr>, 0)))\<rparr>"

text \<open>An instance \<^verbatim>\<open>vm1\<close>, running, booting from \<^verbatim>\<open>disk1\<close> under the device name
  \<^verbatim>\<open>persistent-disk-0\<close>, with one metadata item of its own; the caller holds the six
  instance-level permissions and no other.\<close>

definition cloud0 :: cloud where
  "cloud0 =
     \<lparr>sim_vm = ''vm1'', sim_status = ''RUNNING'',
      sim_attached = [\<lparr>ad_source = ''projects/p/zones/z/disks/disk1'',
                       ad_deviceName = ''persistent-disk-0'', ad_boot = Some True,
                       ad_autoDelete = Some True, ad_mode = Some ''READ_WRITE''\<rparr>],
      sim_items = [(''owner'', ''alice'')],
      sim_fingerprint = 7,
      sim_disks = [(''disk1'', ''READY'')],
      sim_snapshots = [],
      sim_granted = INSTANCE_PERMISSIONS,
      sim_stuck = False\<rparr>"

definition world0 :: "cloud world" where
  "world0 = \<lparr>clock = 1000, remote = cloud0, requests = []\<rparr>"

definition good_auth :: auth_env where
  "good_auth =
     Inr (\<lparr>cred_valid = True, cred_expired = False, cred_refresh_token = None,
           cred_refresh = None, cred_type = ''Credentials''\<rparr>, Some ''p'')"

definition scripts0 :: script_env where
  "scripts0 = \<lparr>template = Some ''disk=DISK_NAME_PLACEHOLDER'', fallback = (\<lambda>n. ''disk='' @ n)\<rparr>"

text \<open>The request one status check issues.\<close>

definition status_request :: "status_check \<Rightarrow> api_call" where
  "status_request chk =
     (case chk of VMStatus p z v \<Rightarrow> InstancesGet p z v | DiskStatus p z d \<Rightarrow> DisksGet p z d)"

text \<open>
  A status that is never reached. \<open>stays\<close> is a property of the remote state that every poll
  preserves; while it holds, the status check returns, and returns a status other than the
  target. For the snapshot poll, which swallows exceptions, the poll may also raise, and the
  status is neither \<^verbatim>\<open>READY\<close> nor \<^verbatim>\<open>FAILED\<close>.
\<close>

definition never_reaches :: "'r compute \<Rightarrow> status_check \<Rightarrow> string \<Rightarrow> ('r \<Rightarrow> bool) \<Rightarrow> bool" where
  "never_reaches c chk target_status stays =
     (\<forall>w. stays (remote w) \<longrightarrow>
        (case check_func c chk w of
           (Inr current_status, w1) \<Rightarrow> current_status \<noteq> target_status \<and> stays (remote w1)
         | (Inl e, w1) \<Rightarrow> False))"

definition snapshot_never_settles :: "'r compute \<Rightarrow> string \<Rightarrow> string \<Rightarrow> ('r \<Rightarrow> bool) \<Rightarrow> bool" where
  "snapshot_never_settles c project snapshot_name stays =
     (\<forall>w. stays (remote w) \<longrightarrow>
        (case get_snapshot c project (PStr snapshot_name) w of
           (Inr status, w1) \<Rightarrow> status \<noteq> Some ''READY'' \<and> status \<noteq> Some ''FAILED'' \<and> stays (remote w1)
         | (Inl e, w1) \<Rightarrow> stays (remote w1)))"

definition stuck0 :: "cloud world" where
  "stuck0 = world0\<lparr>remote := cloud0\<lparr>sim_stuck := True\<rparr>\<rparr>"

definition stuck1 :: "cloud world" where
  "stuck1 = world0\<lparr>remote := cloud0\<lparr>sim_stuck := True, sim_status := ''TERMINATED''\<rparr>\<rparr>"






text \<open>The requests that only read: the validators issue no other.\<close>

fun read_only :: "api_call \<Rightarrow> bool" where
  "read_only (InstancesGet p z v) = True"
| "read_only (InstancesTestIamPermissions p z v b) = True"
| "read_only (DisksGet p z d) = True"
| "read_only (SnapshotsGet p s) = True"
| "read_only _ = False"

text \<open>The world \<open>w'\<close> comes from \<open>w\<close> by requests that only read.\<close>

definition only_reads :: "'r world \<Rightarrow> 'r world \<Rightarrow> bool" where
  "only_reads w w' = (\<exists>rs. requests w' = requests w @ rs \<and> list_all read_only rs)"

definition bad_auth :: auth_env where
  "bad_auth = Inl (DefaultCredentialsError ''no credentials'')"

text \<open>A world with a disk \<open>d2\<close> whose status is the terminal \<^verbatim>\<open>FAILED\<close>.\<close>

definition failed0 :: "cloud world" where
  "failed0 = world0\<lparr>remote := cloud0\<lparr>sim_disks := sim_disks cloud0 @ [(''d2'', ''FAILED'')]\<rparr>\<rparr>"


text \<open>A round trip on the simulated client: the rescue workflow from \<open>world0\<close>, then the
  restore workflow from the world the rescue left.\<close>

definition after_rescue :: "cloud outcome" where
  "after_rescue = rescue_vm sim good_auth ''p'' ''z'' ''vm1'' default_RescueConfig scripts0 world0"

definition after_restore :: "cloud outcome" where
  "after_restore =
     restore_vm sim good_auth ''p'' ''z'' ''vm1'' default_RestoreConfig (final_world after_rescue)"

section \<open>The rollback handler's loop\<close>

lemma rollback_loop_append:
  "rollback_loop m (xs @ ys) run = rollback_loop m ys (rollback_loop m xs run)"
proof (induction xs arbitrary: run)
  case Nil
  show ?case by simp
next
  case (Cons s xs)
  show ?case
    by (simp add: Cons.IH split: option.splits prod.splits sum.splits)
qed

lemma rollback_loop_agree:
  "compensated r1 = compensated r2 \<Longrightarrow> after r1 = after r2 \<Longrightarrow>
     compensated (rollback_loop m ops r1) = compensated (rollback_loop m ops r2) \<and>
     after (rollback_loop m ops r1) = after (rollback_loop m ops r2)"
proof (induction ops arbitrary: r1 r2)
  case Nil
  then show ?case by simp
next
  case (Cons s ops)
  show ?case
  proof (cases "m (st_operation_name s)")
    case None
    then show ?thesis using Cons.IH [of "r1\<lparr>all_succeeded := False\<rparr>" "r2\<lparr>all_succeeded := False\<rparr>"] Cons.prems
      by simp
  next
    case (Some operation)
    show ?thesis
    proof (cases "no_rollback_data (st_rollback_data s)")
      case True
      then show ?thesis using Some Cons.IH [of r1 r2] Cons.prems
        by (auto simp: no_rollback_data_def split: option.splits)
    next
      case False
      then obtain rd where rd: "st_rollback_data s = Some rd" "rd \<noteq> []"
        by (auto simp: no_rollback_data_def split: option.splits)
      obtain res w' where step: "operation rd (after r2) = (res, w')"
        by (cases "operation rd (after r2)")
      let ?c = "compensated r2 @ [(st_operation_name s, rd)]"
      show ?thesis
      proof (cases res)
        case (Inl e)
        then show ?thesis using Some rd step Cons.prems
            Cons.IH [of "\<lparr>all_succeeded = False, compensated = ?c, after = w'\<rparr>"
                        "\<lparr>all_succeeded = False, compensated = ?c, after = w'\<rparr>"]
          by simp
      next
        case (Inr ok)
        then show ?thesis using Some rd step Cons.prems
            Cons.IH [of "\<lparr>all_succeeded = (if ok then all_succeeded r1 else False), compensated = ?c, after = w'\<rparr>"
                        "\<lparr>all_succeeded = (if ok then all_succeeded r2 else False), compensated = ?c, after = w'\<rparr>"]
          by simp
      qed
    qed
  qed
qed

lemma rollback_loop_flag_mono:
  "all_succeeded (rollback_loop m ops run) \<Longrightarrow> all_succeeded run"
proof (induction ops arbitrary: run)
  case Nil
  then show ?case by simp
next
  case (Cons s ops)
  show ?case
  proof (cases "m (st_operation_name s)")
    case None
    then show ?thesis using Cons.IH [of "run\<lparr>all_succeeded := False\<rparr>"] Cons.prems by simp
  next
    case (Some operation)
    show ?thesis
    proof (cases "no_rollback_data (st_rollback_data s)")
      case True
      then show ?thesis using Some Cons.IH [of run] Cons.prems
        by (auto simp: no_rollback_data_def split: option.splits)
    next
      case False
      then obtain rd where rd: "st_rollback_data s = Some rd" "rd \<noteq> []"
        by (auto simp: no_rollback_data_def split: option.splits)
      obtain res w' where step: "operation rd (after run) = (res, w')"
        by (cases "operation rd (after run)")
      show ?thesis
      proof (cases res)
        case (Inl e)
        then show ?thesis using Some rd step Cons.prems
            Cons.IH [of "\<lparr>all_succeeded = False, compensated = compensated run @ [(st_operation_name s, rd)], after = w'\<rparr>"]
          by simp
      next
        case (Inr ok)
        then show ?thesis using Some rd step Cons.prems
            Cons.IH [of "\<lparr>all_succeeded = (if ok then all_succeeded run else False), compensated = compensated run @ [(st_operation_name s, rd)], after = w'\<rparr>"]
          by (simp split: if_splits)
      qed
    qed
  qed
qed

lemma rollback_loop_compensated:
  "compensated (rollback_loop m ops run) = compensated run @ map step_call (filter (compensable m) ops)"
proof (induction ops arbitrary: run)
  case Nil
  then show ?case by simp
next
  case (Cons s ops)
  show ?case
    by (auto simp: Cons.IH compensable_def step_call_def no_rollback_data_def
             split: option.splits prod.splits sum.splits)
qed

lemma rollback_compensated:
  "compensated (RollbackHandler_rollback m tracker w) =
     map step_call (filter (compensable m) (rev (filter st_success tracker)))"
  by (simp add: RollbackHandler_rollback_def Let_def rollback_loop_compensated
        get_rollback_operations_def get_successful_operations_def)



lemma snapshot_rollback_true:
  "fst (CreateSnapshotOperation_rollback c project zone rd w)"
  by (auto simp: CreateSnapshotOperation_rollback_def Let_def split: prod.splits sum.splits)

section \<open>C2: a step whose operation is absent from the mapping\<close>

text \<open>
  C2 (as the code has it). A successful step whose operation identifier is absent from the
  mapping is skipped: no compensation is invoked for it, and the compensations invoked and the
  world the handler leaves are those of the run without that step, so rollback continues past
  it. But the handler counts the absence as an error: the aggregate result of the run is false.
\<close>

theorem absent_operation_is_skipped_but_counted:
  assumes "st_success s" and "m (st_operation_name s) = None"
  shows "\<not> all_succeeded (RollbackHandler_rollback m (pre @ [s] @ post) w)
       \<and> compensated (RollbackHandler_rollback m (pre @ [s] @ post) w) =
           compensated (RollbackHandler_rollback m (pre @ post) w)
       \<and> after (RollbackHandler_rollback m (pre @ [s] @ post) w) =
           after (RollbackHandler_rollback m (pre @ post) w)"
proof -
  let ?r0 = "\<lparr>all_succeeded = True, compensated = [], after = w\<rparr>"
  let ?xs = "rev (filter st_success post)"
  let ?ys = "rev (filter st_success pre)"
  have with_s: "RollbackHandler_rollback m (pre @ [s] @ post) w =
          rollback_loop m ?ys ((rollback_loop m ?xs ?r0)\<lparr>all_succeeded := False\<rparr>)"
    using assms
    by (simp add: RollbackHandler_rollback_def Let_def get_rollback_operations_def
          get_successful_operations_def rollback_loop_append)
  have without_s: "RollbackHandler_rollback m (pre @ post) w = rollback_loop m ?ys (rollback_loop m ?xs ?r0)"
    by (simp add: RollbackHandler_rollback_def Let_def get_rollback_operations_def
          get_successful_operations_def rollback_loop_append)
  have flag: "\<not> all_succeeded (RollbackHandler_rollback m (pre @ [s] @ post) w)"
    using rollback_loop_flag_mono [of m ?ys "(rollback_loop m ?xs ?r0)\<lparr>all_succeeded := False\<rparr>"]
    unfolding with_s by auto
  have same: "compensated (RollbackHandler_rollback m (pre @ [s] @ post) w) =
                compensated (RollbackHandler_rollback m (pre @ post) w)
            \<and> after (RollbackHandler_rollback m (pre @ [s] @ post) w) =
                after (RollbackHandler_rollback m (pre @ post) w)"
    unfolding with_s without_s by (rule rollback_loop_agree) simp_all
  show ?thesis using flag same by simp
qed

theorem absent_operation_is_skipped_but_counted_witness:
  "\<not> all_succeeded (RollbackHandler_rollback (restore_operations_map sim ''p'' ''z'')
        ([\<lparr>st_operation_name = ''Stop VM'', st_success = True, st_message = ''VM already stopped'',
           st_rollback_data = Some [(''vm_name'', PStr ''vm1''), (''original_status'', PStr ''TERMINATED'')]\<rparr>] @
         [\<lparr>st_operation_name = ''Delete Rescue Disk'', st_success = True,
           st_message = ''Disk deleted'', st_rollback_data = None\<rparr>] @ []) world0)
   \<and> compensated (RollbackHandler_rollback (restore_operations_map sim ''p'' ''z'')
        ([\<lparr>st_operation_name = ''Stop VM'', st_success = True, st_message = ''VM already stopped'',
           st_rollback_data = Some [(''vm_name'', PStr ''vm1''), (''original_status'', PStr ''TERMINATED'')]\<rparr>] @
         [\<lparr>st_operation_name = ''Delete Rescue Disk'', st_success = True,
           st_message = ''Disk deleted'', st_rollback_data = None\<rparr>] @ []) world0) =
       [(''Stop VM'', [(''vm_name'', PStr ''vm1''), (''original_status'', PStr ''TERMINATED'')])]"
proof -
  let ?stop = "\<lparr>st_operation_name = ''Stop VM'', st_success = True, st_message = ''VM already stopped'',
           st_rollback_data = Some [(''vm_name'', PStr ''vm1''), (''original_status'', PStr ''TERMINATED'')]\<rparr>"
  let ?del = "\<lparr>st_operation_name = ''Delete Rescue Disk'', st_success = True,
           st_message = ''Disk deleted'', st_rollback_data = None\<rparr>"
  have a: "st_success ?del" by simp
  have b: "restore_operations_map sim ''p'' ''z'' (st_operation_name ?del) = None"
    by (simp add: restore_operations_map_def)
  have c: "compensated (RollbackHandler_rollback (restore_operations_map sim ''p'' ''z'') ([?stop] @ []) world0) =
       [(''Stop VM'', [(''vm_name'', PStr ''vm1''), (''original_status'', PStr ''TERMINATED'')])]"
    by (simp add: rollback_compensated compensable_def step_call_def no_rollback_data_def
          restore_operations_map_def)
  show ?thesis
    using a b c absent_operation_is_skipped_but_counted
            [where s = ?del and m = "restore_operations_map sim ''p'' ''z''" and pre = "[?stop]"
               and post = "[]" and w = world0]
    by simp
qed

text \<open>
  C2 as stated fails: the restore workflow's mapping leaves the delete step out, and a tracker
  holding nothing but one successful step of that name makes the aggregate result false, while
  the empty tracker gives true.
\<close>

theorem absent_operation_counterexample:
  "st_success \<lparr>st_operation_name = ''Delete Rescue Disk'', st_success = True,
                st_message = ''Disk deleted'', st_rollback_data = None\<rparr>
   \<and> restore_operations_map sim ''p'' ''z'' ''Delete Rescue Disk'' = None
   \<and> all_succeeded (RollbackHandler_rollback (restore_operations_map sim ''p'' ''z'') [] world0)
   \<and> \<not> all_succeeded (RollbackHandler_rollback (restore_operations_map sim ''p'' ''z'')
          [\<lparr>st_operation_name = ''Delete Rescue Disk'', st_success = True,
            st_message = ''Disk deleted'', st_rollback_data = None\<rparr>] world0)"
  by (simp add: restore_operations_map_def RollbackHandler_rollback_def get_rollback_operations_def
        get_successful_operations_def)

section \<open>C5: the snapshot is deleted only if this run created it\<close>

lemma snapshot_rollback_requests:
  "requests (snd (CreateSnapshotOperation_rollback c project zone rd w)) =
     requests w @
       (if truthy (dict_get rd ''created_by_operation'') \<and> truthy (dict_get rd ''snapshot_name'')
        then [SnapshotsDelete project (dict_get rd ''snapshot_name'')] else [])"
  by (auto simp: CreateSnapshotOperation_rollback_def Let_def delete_snapshot_def perform_def
        time_sleep_def split: prod.splits sum.splits)

lemma snapshot_loop_success:
  "success (fst (snapshot_loop c project snapshot_name disk_name timeout start_time w)) \<Longrightarrow>
     rollback_data (fst (snapshot_loop c project snapshot_name disk_name timeout start_time w)) =
       Some [(''snapshot_name'', PStr snapshot_name), (''disk_name'', opt_val disk_name),
             (''created_by_operation'', PBool True)]"
proof (induction c project snapshot_name disk_name timeout start_time w rule: snapshot_loop.induct)
  case (1 c project snapshot_name disk_name timeout start_time w)
  show ?case
  proof (cases "clock w - start_time > timeout")
    case True
    then show ?thesis using "1.prems"
      by (subst (asm) snapshot_loop.simps) (simp add: failure_def)
  next
    case False
    obtain res w1 where g: "get_snapshot c project (PStr snapshot_name) w = (res, w1)"
      by (cases "get_snapshot c project (PStr snapshot_name) w")
    show ?thesis
    proof (cases res)
      case (Inl e)
      then show ?thesis using False g "1.prems" "1.IH"(1) [of "clock w - start_time" res w1 e]
        by (subst snapshot_loop.simps, subst (asm) snapshot_loop.simps) simp
    next
      case (Inr snapshot)
      let ?status = "case snapshot of None \<Rightarrow> ''UNKNOWN'' | Some s \<Rightarrow> s"
      show ?thesis
      proof (cases "?status = ''READY''")
        case True
        then show ?thesis using False g Inr
          by (subst snapshot_loop.simps) (simp add: succeeded_def)
      next
        case nr: False
        show ?thesis
        proof (cases "?status = ''FAILED''")
          case True
          then show ?thesis using False g Inr nr "1.prems"
            by (subst (asm) snapshot_loop.simps) (simp add: failure_def)
        next
          case nf: False
          then show ?thesis using False g Inr nr "1.prems"
              "1.IH"(2) [of "clock w - start_time" res w1 snapshot ?status]
            by (subst snapshot_loop.simps, subst (asm) snapshot_loop.simps) simp
        qed
      qed
    qed
  qed
qed

lemma snapshot_name_or_default_nonempty: "snapshot_name_or_default sn disk_name now \<noteq> []"
  by (cases sn) (auto simp: snapshot_name_or_default_def fmt_opt_def)

lemma snapshot_execute_success:
  assumes "success (fst (CreateSnapshotOperation_execute c project zone disk_name sn descr timeout w))"
  shows "\<exists>n. n \<noteq> [] \<and>
           rollback_data (fst (CreateSnapshotOperation_execute c project zone disk_name sn descr timeout w)) =
             Some [(''snapshot_name'', PStr n), (''disk_name'', opt_val disk_name),
                   (''created_by_operation'', PBool True)]"
proof -
  let ?n = "snapshot_name_or_default sn disk_name (clock w)"
  let ?body = "snapshot_body_of ?n (description_or_default descr disk_name)"
  obtain res w1 where cs: "create_disk_snapshot c project zone (opt_val disk_name) ?body w = (res, w1)"
    by (cases "create_disk_snapshot c project zone (opt_val disk_name) ?body w")
  have ex: "CreateSnapshotOperation_execute c project zone disk_name sn descr timeout w =
          (case res of
             Inl e \<Rightarrow> (failure ''Create Snapshot'' ''Failed to create snapshot'' (Some (str_exn e)), w1)
           | Inr u \<Rightarrow> snapshot_loop c project ?n disk_name timeout (clock w1) w1)"
    using cs by (simp add: CreateSnapshotOperation_execute_def Let_def)
  show ?thesis
  proof (cases res)
    case (Inl e)
    then show ?thesis using assms ex by (simp add: failure_def)
  next
    case (Inr u)
    then show ?thesis
      using assms ex snapshot_name_or_default_nonempty [of sn disk_name "clock w"]
        snapshot_loop_success [of c project ?n disk_name timeout "clock w1" w1]
      by auto
  qed
qed

text \<open>
  C5. For every compensation record, \<^verbatim>\<open>CreateSnapshotOperation.rollback\<close> issues exactly one
  request, the deletion of the recorded snapshot, when the record has a true
  \<^verbatim>\<open>created_by_operation\<close> and a non-empty \<^verbatim>\<open>snapshot_name\<close>, and no request at all otherwise.
  Every successful \<^verbatim>\<open>execute\<close> writes a record with the mark and a non-empty name.
\<close>

theorem snapshot_deleted_iff_created_here:
  "requests (snd (CreateSnapshotOperation_rollback c project zone rd w)) =
     requests w @
       (if truthy (dict_get rd ''created_by_operation'') \<and> truthy (dict_get rd ''snapshot_name'')
        then [SnapshotsDelete project (dict_get rd ''snapshot_name'')] else [])
   \<and> (success (fst (CreateSnapshotOperation_execute c project zone disk_name sn descr timeout w0)) \<longrightarrow>
        (\<exists>n. n \<noteq> [] \<and>
           rollback_data (fst (CreateSnapshotOperation_execute c project zone disk_name sn descr timeout w0)) =
             Some [(''snapshot_name'', PStr n), (''disk_name'', opt_val disk_name),
                   (''created_by_operation'', PBool True)]))"
  by (intro conjI impI) (rule snapshot_rollback_requests, erule snapshot_execute_success)

theorem snapshot_deleted_iff_created_here_witness:
  "success (fst (CreateSnapshotOperation_execute sim ''p'' ''z'' (Some ''disk1'') None None 600 world0))
   \<and> (\<exists>n. n \<noteq> [] \<and>
         rollback_data (fst (CreateSnapshotOperation_execute sim ''p'' ''z'' (Some ''disk1'') None None 600 world0)) =
           Some [(''snapshot_name'', PStr n), (''disk_name'', opt_val (Some ''disk1'')),
                 (''created_by_operation'', PBool True)])"
proof -
  have s: "success (fst (CreateSnapshotOperation_execute sim ''p'' ''z'' (Some ''disk1'') None None 600 world0))"
    by code_simp
  have imp: "success (fst (CreateSnapshotOperation_execute sim ''p'' ''z'' (Some ''disk1'') None None 600 world0)) \<longrightarrow>
     (\<exists>n. n \<noteq> [] \<and>
         rollback_data (fst (CreateSnapshotOperation_execute sim ''p'' ''z'' (Some ''disk1'') None None 600 world0)) =
           Some [(''snapshot_name'', PStr n), (''disk_name'', opt_val (Some ''disk1'')),
                 (''created_by_operation'', PBool True)])"
    by (rule snapshot_deleted_iff_created_here
              [of sim "''p''" "''z''" "[]" world0 "Some ''disk1''" None None 600 world0, THEN conjunct2])
  show ?thesis by (rule conjI [OF s mp [OF imp s]])
qed

section \<open>C10: the snapshot's compensation never reports a failure\<close>

lemma rollback_loop_snapshots_only:
  assumes m: "m ''Create Snapshot'' = Some (as_operation (CreateSnapshotOperation_rollback c project zone))"
  shows "list_all (\<lambda>s. st_operation_name s = ''Create Snapshot'') ops \<Longrightarrow> all_succeeded run \<Longrightarrow>
           all_succeeded (rollback_loop m ops run)"
proof (induction ops arbitrary: run)
  case Nil
  then show ?case by simp
next
  case (Cons s ops)
  have n: "st_operation_name s = ''Create Snapshot''" and rest: "list_all (\<lambda>s. st_operation_name s = ''Create Snapshot'') ops"
    using Cons.prems(1) by simp_all
  show ?case
  proof (cases "no_rollback_data (st_rollback_data s)")
    case True
    then show ?thesis using n m rest Cons.IH [of run] Cons.prems(2)
      by (auto simp: no_rollback_data_def split: option.splits)
  next
    case False
    then obtain rd where rd: "st_rollback_data s = Some rd" "rd \<noteq> []"
      by (auto simp: no_rollback_data_def split: option.splits)
    obtain ok w' where step: "CreateSnapshotOperation_rollback c project zone rd (after run) = (ok, w')"
      by (cases "CreateSnapshotOperation_rollback c project zone rd (after run)")
    have ok: "ok"
      using step snapshot_rollback_true [of c project zone rd "after run"] by simp
    show ?thesis
      using n m rd step ok Cons.prems(2) rest
        Cons.IH [of "\<lparr>all_succeeded = all_succeeded run,
                       compensated = compensated run @ [(st_operation_name s, rd)], after = w'\<rparr>"]
      by (simp add: as_operation_def)
  qed
qed

text \<open>
  C10. \<^verbatim>\<open>CreateSnapshotOperation.rollback\<close> returns True for every compensation record, every
  client and every world, also when the deletion request raises. So a run of the rollback
  handler over a tracker whose successful steps are all snapshot steps ends with the aggregate
  result true, whatever the deletions did.
\<close>

theorem snapshot_rollback_always_succeeds:
  "fst (CreateSnapshotOperation_rollback c project zone rd w) \<and>
   (m ''Create Snapshot'' = Some (as_operation (CreateSnapshotOperation_rollback c project zone)) \<longrightarrow>
    list_all (\<lambda>s. st_operation_name s = ''Create Snapshot'') (get_successful_operations tracker) \<longrightarrow>
      all_succeeded (RollbackHandler_rollback m tracker w0))"
proof (intro conjI impI)
  show "fst (CreateSnapshotOperation_rollback c project zone rd w)"
    by (rule snapshot_rollback_true)
next
  assume m: "m ''Create Snapshot'' = Some (as_operation (CreateSnapshotOperation_rollback c project zone))"
    and all: "list_all (\<lambda>s. st_operation_name s = ''Create Snapshot'') (get_successful_operations tracker)"
  have "list_all (\<lambda>s. st_operation_name s = ''Create Snapshot'') (get_rollback_operations tracker)"
    using all by (simp add: get_rollback_operations_def list_all_iff)
  then show "all_succeeded (RollbackHandler_rollback m tracker w0)"
    using m rollback_loop_snapshots_only [of m c project zone "get_rollback_operations tracker"
              "\<lparr>all_succeeded = True, compensated = [], after = w0\<rparr>"]
    by (simp add: RollbackHandler_rollback_def Let_def)
qed

theorem snapshot_rollback_always_succeeds_witness:
  "fst (delete_snapshot sim ''p'' (PStr ''gone'') world0) = Inl not_found
   \<and> fst (CreateSnapshotOperation_rollback sim ''p'' ''z''
          [(''snapshot_name'', PStr ''gone''), (''created_by_operation'', PBool True)] world0)
   \<and> all_succeeded (RollbackHandler_rollback (rescue_operations_map sim ''p'' ''z'')
          [\<lparr>st_operation_name = ''Create Snapshot'', st_success = True, st_message = ''Snapshot created'',
            st_rollback_data = Some [(''snapshot_name'', PStr ''gone''), (''created_by_operation'', PBool True)]\<rparr>]
          world0)"
proof -
  have a: "fst (delete_snapshot sim ''p'' (PStr ''gone'') world0) = Inl not_found"
    by (simp add: delete_snapshot_def perform_def sim_def world0_def cloud0_def sim_lookup_def)
  have m: "rescue_operations_map sim ''p'' ''z'' ''Create Snapshot'' =
             Some (as_operation (CreateSnapshotOperation_rollback sim ''p'' ''z''))"
    by (simp add: rescue_operations_map_def)
  show ?thesis
    using a m snapshot_rollback_always_succeeds
      [of sim "''p''" "''z''" "[(''snapshot_name'', PStr ''gone''), (''created_by_operation'', PBool True)]"
          world0 "rescue_operations_map sim ''p'' ''z''"
          "[\<lparr>st_operation_name = ''Create Snapshot'', st_success = True, st_message = ''Snapshot created'',
            st_rollback_data = Some [(''snapshot_name'', PStr ''gone''), (''created_by_operation'', PBool True)]\<rparr>]"
          world0]
    by (simp add: get_successful_operations_def)
qed

section \<open>C7: polling waits\<close>

lemma check_func_clock: "clock w \<le> clock (snd (check_func c chk w))"
  by (auto simp: check_func_def get_instance_def get_disk_def perform_def
           split: status_check.splits prod.splits sum.splits)

lemma check_func_request:
  "requests (snd (check_func c chk w)) = requests w @ [status_request chk]"
  by (auto simp: check_func_def get_instance_def get_disk_def perform_def status_request_def
           split: status_check.splits prod.splits sum.splits)

lemma wait_loop_run:
  "wait_loop c chk target timeout start_time w = (res, w') \<Longrightarrow>
     \<exists>n. requests w' = requests w @ replicate n (status_request chk)
        \<and> (clock w - start_time \<le> timeout \<longrightarrow> 1 \<le> n)
        \<and> (res = Inr True \<longrightarrow>
             1 \<le> n \<and> clock w + 5 * (int n - 1) \<le> clock w'
             \<and> (\<exists>w0. check_func c chk w0 = (Inr target, w')))
        \<and> (res = Inr False \<longrightarrow> timeout < clock w' - start_time \<and> clock w + 5 * int n \<le> clock w')
        \<and> (\<forall>e. res = Inl e \<longrightarrow> 1 \<le> n \<and> (\<exists>w0. check_func c chk w0 = (Inl e, w')))"
proof (induction c chk target timeout start_time w rule: wait_loop.induct)
  case (1 c chk target timeout start_time w)
  show ?case
  proof (cases "clock w - start_time > timeout")
    case True
    then have "res = Inr False" "w' = w" using "1.prems" by (subst (asm) wait_loop.simps, simp)+
    then show ?thesis using True by (intro exI [of _ 0]) simp
  next
    case False
    obtain r1 w1 where ch: "check_func c chk w = (r1, w1)" by (cases "check_func c chk w")
    have rq: "requests w1 = requests w @ [status_request chk]"
      using check_func_request [of c chk w] ch by simp
    have c1: "clock w \<le> clock w1" using check_func_clock [of w c chk] ch by simp
    show ?thesis
    proof (cases r1)
      case (Inl e)
      then have "res = Inl e" "w' = w1" using False ch "1.prems" by (subst (asm) wait_loop.simps, simp)+
      then show ?thesis using rq ch Inl by (intro exI [of _ 1]) auto
    next
      case (Inr st)
      show ?thesis
      proof (cases "st = target")
        case True
        then have "res = Inr True" "w' = w1" using False ch Inr "1.prems"
          by (subst (asm) wait_loop.simps, simp)+
        then show ?thesis using rq ch Inr True c1 by (intro exI [of _ 1]) auto
      next
        case ne: False
        let ?w2 = "time_sleep 5 w1"
        have step: "wait_loop c chk target timeout start_time ?w2 = (res, w')"
          using False ch Inr ne "1.prems" by (subst (asm) wait_loop.simps) simp
        obtain n where n: "requests w' = requests ?w2 @ replicate n (status_request chk)"
            "res = Inr True \<longrightarrow>
               1 \<le> n \<and> clock ?w2 + 5 * (int n - 1) \<le> clock w'
               \<and> (\<exists>w0. check_func c chk w0 = (Inr target, w'))"
            "res = Inr False \<longrightarrow> timeout < clock w' - start_time \<and> clock ?w2 + 5 * int n \<le> clock w'"
            "\<forall>e. res = Inl e \<longrightarrow> 1 \<le> n \<and> (\<exists>w0. check_func c chk w0 = (Inl e, w'))"
          using "1.IH" [of r1 w1 st, OF False ch [symmetric] Inr ne step] by blast
        have c2: "clock ?w2 = clock w1 + 5" "requests ?w2 = requests w1" by (simp_all add: time_sleep_def)
        have "requests w' = requests w @ replicate (Suc n) (status_request chk)"
          using n(1) rq c2 by (simp add: replicate_app_Cons_same)
        moreover have "res = Inr True \<longrightarrow>
               1 \<le> Suc n \<and> clock w + 5 * (int (Suc n) - 1) \<le> clock w'
               \<and> (\<exists>w0. check_func c chk w0 = (Inr target, w'))"
          using n(2) c1 c2 by auto
        moreover have "res = Inr False \<longrightarrow> timeout < clock w' - start_time \<and> clock w + 5 * int (Suc n) \<le> clock w'"
          using n(3) c1 c2 by auto
        moreover have "\<forall>e. res = Inl e \<longrightarrow> 1 \<le> Suc n \<and> (\<exists>w0. check_func c chk w0 = (Inl e, w'))"
          using n(4) by auto
        moreover have "clock w - start_time \<le> timeout \<longrightarrow> 1 \<le> Suc n" by simp
        ultimately show ?thesis by (intro exI [of _ "Suc n"] conjI)
      qed
    qed
  qed
qed

lemma check_func_one_request: "length (requests (snd (check_func c chk w))) = Suc (length (requests w))"
  by (auto simp: check_func_def get_instance_def get_disk_def perform_def
           split: status_check.splits prod.splits sum.splits)

lemma wait_loop_false_elapsed:
  "wait_loop c chk target timeout start_time w = (Inr False, w') \<Longrightarrow> clock w' - start_time > timeout"
proof (induction c chk target timeout start_time w rule: wait_loop.induct)
  case (1 c chk target timeout start_time w)
  show ?case
  proof (cases "clock w - start_time > timeout")
    case True
    then show ?thesis using "1.prems" by (subst (asm) wait_loop.simps) simp
  next
    case False
    obtain res w1 where ch: "check_func c chk w = (res, w1)" by (cases "check_func c chk w")
    show ?thesis
    proof (cases res)
      case (Inl e)
      then show ?thesis using False ch "1.prems" by (subst (asm) wait_loop.simps) simp
    next
      case (Inr st)
      show ?thesis
      proof (cases "st = target")
        case True
        then show ?thesis using False ch Inr "1.prems" by (subst (asm) wait_loop.simps) simp
      next
        case ne: False
        have "wait_loop c chk target timeout start_time (time_sleep 5 w1) = (Inr False, w')"
          using False ch Inr ne "1.prems" by (subst (asm) wait_loop.simps) simp
        then show ?thesis using "1.IH" [of res w1 st] False ch Inr ne by simp
      qed
    qed
  qed
qed

lemma wait_loop_never:
  "never_reaches c chk target stays \<Longrightarrow> stays (remote w) \<Longrightarrow>
     \<exists>w'. wait_loop c chk target timeout start_time w = (Inr False, w') \<and> stays (remote w')"
proof (induction c chk target timeout start_time w rule: wait_loop.induct)
  case (1 c chk target timeout start_time w)
  show ?case
  proof (cases "clock w - start_time > timeout")
    case True
    then show ?thesis using "1.prems"(2) by (subst wait_loop.simps) simp
  next
    case False
    obtain res w1 where ch: "check_func c chk w = (res, w1)" by (cases "check_func c chk w")
    have k: "case check_func c chk w of
               (Inr current_status, w1) \<Rightarrow> current_status \<noteq> target \<and> stays (remote w1)
             | (Inl e, w1) \<Rightarrow> False"
      by (rule "1.prems"(1) [unfolded never_reaches_def, rule_format, OF "1.prems"(2)])
    from k ch obtain st where st: "res = Inr st" "st \<noteq> target" "stays (remote w1)"
      by (cases res) simp_all
    have "stays (remote (time_sleep 5 w1))" using st by (simp add: time_sleep_def)
    then obtain w' where "wait_loop c chk target timeout start_time (time_sleep 5 w1) = (Inr False, w')"
        "stays (remote w')"
      using "1.IH" [of res w1 st] False ch st "1.prems"(1) by auto
    then show ?thesis using False ch st by (subst wait_loop.simps) simp
  qed
qed

lemma wait_for_status_never:
  assumes "never_reaches c chk target stays" and "stays (remote w)"
  shows "\<exists>w'. wait_for_status c chk target timeout w = (Inr False, w') \<and> stays (remote w')
               \<and> clock w' - clock w > timeout"
proof -
  obtain w' where w': "wait_loop c chk target timeout (clock w) w = (Inr False, w')" "stays (remote w')"
    using wait_loop_never [OF assms] by blast
  then show ?thesis using wait_loop_false_elapsed [of c chk target timeout "clock w" w w']
    unfolding wait_for_status_def by simp
qed

lemma wait_loop_polls:
  "length (requests (snd (wait_loop c chk target timeout start_time w))) \<le>
     length (requests w) +
       (if clock w - start_time > timeout then 0 else nat ((timeout - (clock w - start_time)) div 5) + 1)"
proof (induction c chk target timeout start_time w rule: wait_loop.induct)
  case (1 c chk target timeout start_time w)
  show ?case
  proof (cases "clock w - start_time > timeout")
    case True
    then show ?thesis by (subst wait_loop.simps) simp
  next
    case False
    obtain res w1 where ch: "check_func c chk w = (res, w1)" by (cases "check_func c chk w")
    have r1: "length (requests w1) = Suc (length (requests w))"
      using check_func_one_request [of c chk w] ch by simp
    have c1: "clock w \<le> clock w1" using check_func_clock [of w c chk] ch by simp
    show ?thesis
    proof (cases res)
      case (Inl e)
      then show ?thesis using False ch r1 by (subst wait_loop.simps) simp
    next
      case (Inr st)
      show ?thesis
      proof (cases "st = target")
        case True
        then show ?thesis using False ch r1 Inr by (subst wait_loop.simps) simp
      next
        case ne: False
        let ?w2 = "time_sleep 5 w1"
        have c2: "clock ?w2 \<ge> clock w + 5" using c1 by (simp add: time_sleep_def)
        have r2: "length (requests ?w2) = Suc (length (requests w))" using r1 by (simp add: time_sleep_def)
        have ih: "length (requests (snd (wait_loop c chk target timeout start_time ?w2))) \<le>
                    length (requests ?w2) +
                      (if clock ?w2 - start_time > timeout then 0
                       else nat ((timeout - (clock ?w2 - start_time)) div 5) + 1)"
          using "1.IH" [of res w1 st] False ch Inr ne by simp
        have step: "wait_loop c chk target timeout start_time w = wait_loop c chk target timeout start_time ?w2"
          using False ch Inr ne by (subst wait_loop.simps) simp
        have ar: "(if clock ?w2 - start_time > timeout then 0
                       else nat ((timeout - (clock ?w2 - start_time)) div 5) + 1)
                   \<le> nat ((timeout - (clock w - start_time)) div 5)"
          using c2 False by (auto simp: not_less)
        show ?thesis using ih r2 ar False unfolding step by simp
      qed
    qed
  qed
qed

lemma wait_for_status_polls:
  "length (requests (snd (wait_for_status c chk target timeout w))) \<le>
     length (requests w) + nat (timeout div 5 + 1)"
proof -
  let ?k = "if clock w - clock w > timeout then 0 else nat ((timeout - (clock w - clock w)) div 5) + 1"
  have a: "length (requests (snd (wait_loop c chk target timeout (clock w) w))) \<le> length (requests w) + ?k"
    by (rule wait_loop_polls)
  have b: "?k \<le> nat (timeout div 5 + 1)"
    by auto
  show ?thesis unfolding wait_for_status_def
    by (rule order_trans [OF a add_left_mono [OF b]])
qed

lemma snapshot_loop_never:
  "snapshot_never_settles c project snapshot_name stays \<Longrightarrow> stays (remote w) \<Longrightarrow>
     \<exists>w'. snapshot_loop c project snapshot_name disk_name timeout start_time w =
            (failure ''Create Snapshot'' (''Snapshot creation timeout after '' @ str_int timeout @ ''s'')
               (Some ''timeout''), w')
          \<and> clock w' - start_time > timeout"
proof (induction c project snapshot_name disk_name timeout start_time w rule: snapshot_loop.induct)
  case (1 c project snapshot_name disk_name timeout start_time w)
  show ?case
  proof (cases "clock w - start_time > timeout")
    case True
    then show ?thesis by (subst snapshot_loop.simps) simp
  next
    case False
    obtain res w1 where g: "get_snapshot c project (PStr snapshot_name) w = (res, w1)"
      by (cases "get_snapshot c project (PStr snapshot_name) w")
    have k: "case get_snapshot c project (PStr snapshot_name) w of
               (Inr status, w1) \<Rightarrow> status \<noteq> Some ''READY'' \<and> status \<noteq> Some ''FAILED'' \<and> stays (remote w1)
             | (Inl e, w1) \<Rightarrow> stays (remote w1)"
      by (rule "1.prems"(1) [unfolded snapshot_never_settles_def, rule_format, OF "1.prems"(2)])
    show ?thesis
    proof (cases res)
      case (Inl e)
      have "stays (remote (time_sleep 5 w1))" using k g Inl by (simp add: time_sleep_def)
      then show ?thesis
        using "1.IH"(1) [of "clock w - start_time" res w1 e] False g Inl "1.prems"(1)
        by (subst snapshot_loop.simps) simp
    next
      case (Inr snapshot)
      let ?status = "case snapshot of None \<Rightarrow> ''UNKNOWN'' | Some s \<Rightarrow> s"
      have ns: "?status \<noteq> ''READY''" "?status \<noteq> ''FAILED''" and st: "stays (remote (time_sleep 5 w1))"
        using k g Inr by (auto simp: time_sleep_def split: option.splits)
      show ?thesis
        using "1.IH"(2) [of "clock w - start_time" res w1 snapshot ?status] False g Inr ns st "1.prems"(1)
        by (subst snapshot_loop.simps) simp
    qed
  qed
qed

lemma stop_times_out:
  assumes "get_instance c project zone (PStr vm_name) w = (Inr vm, w1)"
    and "in_status vm = ''RUNNING''"
    and "stop_instance c project zone (PStr vm_name) w1 = (Inr u, w2)"
    and "never_reaches c (VMStatus project zone (PStr vm_name)) ''TERMINATED'' stays"
    and "stays (remote w2)"
  shows "\<exists>w3. StopVMOperation_execute c project zone vm_name timeout w =
                 (failure ''Stop VM'' (''Timeout waiting for VM to stop (>'' @ str_int timeout @ ''s)'') None, w3)
             \<and> clock w3 - clock w2 > timeout"
proof -
  obtain w3 where "wait_for_status c (VMStatus project zone (PStr vm_name)) ''TERMINATED'' timeout w2 = (Inr False, w3)"
      "clock w3 - clock w2 > timeout"
    using wait_for_status_never [OF assms(4,5)] by blast
  then show ?thesis using assms(1,2,3) by (simp add: StopVMOperation_execute_def Let_def)
qed

lemma start_times_out:
  assumes "get_instance c project zone (PStr vm_name) w = (Inr vm, w1)"
    and "in_status vm = ''TERMINATED''"
    and "start_instance c project zone (PStr vm_name) w1 = (Inr u, w2)"
    and "never_reaches c (VMStatus project zone (PStr vm_name)) ''RUNNING'' stays"
    and "stays (remote w2)"
  shows "\<exists>w3. StartVMOperation_execute c project zone vm_name timeout w =
                 (failure ''Start VM'' (''Timeout waiting for VM to start (>'' @ str_int timeout @ ''s)'') None, w3)
             \<and> clock w3 - clock w2 > timeout"
proof -
  obtain w3 where "wait_for_status c (VMStatus project zone (PStr vm_name)) ''RUNNING'' timeout w2 = (Inr False, w3)"
      "clock w3 - clock w2 > timeout"
    using wait_for_status_never [OF assms(4,5)] by blast
  then show ?thesis using assms(1,2,3) by (simp add: StartVMOperation_execute_def Let_def)
qed

lemma create_disk_times_out:
  assumes "insert_disk c project zone (disk_body_of project zone disk_name size_gb disk_type source_image) w
             = (Inr u, w1)"
    and "never_reaches c (DiskStatus project zone (PStr disk_name)) ''READY'' stays"
    and "stays (remote w1)"
  shows "\<exists>w2. CreateDiskOperation_execute c project zone disk_name size_gb disk_type source_image timeout w =
                 (failure ''Create Disk'' (''Timeout waiting for disk creation (>'' @ str_int timeout @ ''s)'') None, w2)
             \<and> clock w2 - clock w1 > timeout"
proof -
  obtain w2 where "wait_for_status c (DiskStatus project zone (PStr disk_name)) ''READY'' timeout w1 = (Inr False, w2)"
      "clock w2 - clock w1 > timeout"
    using wait_for_status_never [OF assms(2,3)] by blast
  then show ?thesis using assms(1) by (simp add: CreateDiskOperation_execute_def Let_def)
qed

lemma create_snapshot_times_out:
  assumes "create_disk_snapshot c project zone (opt_val disk_name)
             (snapshot_body_of (snapshot_name_or_default sn disk_name (clock w))
                (description_or_default descr disk_name)) w = (Inr u, w1)"
    and "snapshot_never_settles c project (snapshot_name_or_default sn disk_name (clock w)) stays"
    and "stays (remote w1)"
  shows "\<exists>w2. CreateSnapshotOperation_execute c project zone disk_name sn descr timeout w =
                 (failure ''Create Snapshot'' (''Snapshot creation timeout after '' @ str_int timeout @ ''s'')
                    (Some ''timeout''), w2)
             \<and> clock w2 - clock w1 > timeout"
  using assms(1) snapshot_loop_never [OF assms(2,3), of disk_name timeout "clock w1"]
  by (simp add: CreateSnapshotOperation_execute_def Let_def)

lemma sim_vm_never:
  "st \<noteq> target \<Longrightarrow>
     never_reaches sim (VMStatus ''p'' ''z'' (PStr ''vm1'')) target
       (\<lambda>r. sim_vm r = ''vm1'' \<and> sim_status r = st)"
  by (auto simp: never_reaches_def check_func_def get_instance_def perform_def sim_def on_vm_def
        sim_instance_def)

lemma sim_disk_never:
  "never_reaches sim (DiskStatus ''p'' ''z'' (PStr n)) ''READY''
       (\<lambda>r. map_of (sim_disks r) n = Some ''CREATING'')"
  by (auto simp: never_reaches_def check_func_def get_disk_def perform_def sim_def sim_lookup_def)

lemma sim_snapshot_never:
  "snapshot_never_settles sim ''p'' n (\<lambda>r. map_of (sim_snapshots r) n = Some ''CREATING'')"
  by (auto simp: snapshot_never_settles_def get_snapshot_def perform_def sim_def sim_lookup_def)

lemma pair_fst_snd: "fst x = a \<Longrightarrow> x = (a, snd x)"
  by (cases x) simp

lemma get_snapshot_clock: "clock w \<le> clock (snd (get_snapshot c project n w))"
  by (auto simp: get_snapshot_def perform_def split: prod.splits)

lemma get_snapshot_request:
  "requests (snd (get_snapshot c project n w)) = requests w @ [SnapshotsGet project n]"
  by (auto simp: get_snapshot_def perform_def split: prod.splits)

lemma wait_for_status_run:
  assumes "wait_for_status c chk target timeout w = (res, w')"
  shows "\<exists>n. requests w' = requests w @ replicate n (status_request chk)
        \<and> n \<le> nat (timeout div 5 + 1) \<and> (0 \<le> timeout \<longrightarrow> 1 \<le> n)
        \<and> (res = Inr True \<longrightarrow>
             clock w + 5 * (int n - 1) \<le> clock w'
             \<and> (\<exists>w0. check_func c chk w0 = (Inr target, w')))
        \<and> (res = Inr False \<longrightarrow> timeout < clock w' - clock w \<and> clock w + 5 * int n \<le> clock w')
        \<and> (\<forall>e. res = Inl e \<longrightarrow> (\<exists>w0. check_func c chk w0 = (Inl e, w')))"
proof -
  have wl: "wait_loop c chk target timeout (clock w) w = (res, w')"
    using assms by (simp add: wait_for_status_def)
  obtain n where n: "requests w' = requests w @ replicate n (status_request chk)"
      "res = Inr True \<longrightarrow>
             1 \<le> n \<and> clock w + 5 * (int n - 1) \<le> clock w'
             \<and> (\<exists>w0. check_func c chk w0 = (Inr target, w'))"
      "res = Inr False \<longrightarrow> timeout < clock w' - clock w \<and> clock w + 5 * int n \<le> clock w'"
      "\<forall>e. res = Inl e \<longrightarrow> 1 \<le> n \<and> (\<exists>w0. check_func c chk w0 = (Inl e, w'))"
      "clock w - clock w \<le> timeout \<longrightarrow> 1 \<le> n"
    using wait_loop_run [OF wl] by blast
  have "length (requests w') \<le> length (requests w) + nat (timeout div 5 + 1)"
    using wait_for_status_polls [of c chk target timeout w] assms by simp
  then have b: "n \<le> nat (timeout div 5 + 1)" using n(1) by simp
  have p: "0 \<le> timeout \<longrightarrow> 1 \<le> n" using n(5) by simp
  show ?thesis using n b p by (intro exI [of _ n]) simp
qed

lemma snapshot_loop_run:
  "snapshot_loop c project name disk timeout start_time w = (result, w') \<Longrightarrow>
     \<exists>n. requests w' = requests w @ replicate n (SnapshotsGet project (PStr name))
       \<and> n \<le> (if clock w - start_time > timeout then 0
                else nat ((timeout - (clock w - start_time)) div 5) + 1)
       \<and> (clock w - start_time \<le> timeout \<longrightarrow> 1 \<le> n)
       \<and> (success result \<longrightarrow>
            (\<exists>w0. get_snapshot c project (PStr name) w0 = (Inr (Some ''READY''), w')))
       \<and> (\<not> success result \<longrightarrow>
            (result = failure ''Create Snapshot''
                        (''Snapshot creation timeout after '' @ str_int timeout @ ''s'') (Some ''timeout'')
             \<and> timeout < clock w' - start_time)
          \<or> (result = failure ''Create Snapshot'' ''Snapshot creation failed'' (Some ''snapshot_failed'')
             \<and> (\<exists>w0. get_snapshot c project (PStr name) w0 = (Inr (Some ''FAILED''), w'))))"
proof (induction c project name disk timeout start_time w rule: snapshot_loop.induct)
  case (1 c project name disk timeout start_time w)
  let ?P = "\<lambda>w n. requests w' = requests w @ replicate n (SnapshotsGet project (PStr name))
       \<and> n \<le> (if clock w - start_time > timeout then 0
                else nat ((timeout - (clock w - start_time)) div 5) + 1)
       \<and> (clock w - start_time \<le> timeout \<longrightarrow> 1 \<le> n)
       \<and> (success result \<longrightarrow>
            (\<exists>w0. get_snapshot c project (PStr name) w0 = (Inr (Some ''READY''), w')))
       \<and> (\<not> success result \<longrightarrow>
            (result = failure ''Create Snapshot''
                        (''Snapshot creation timeout after '' @ str_int timeout @ ''s'') (Some ''timeout'')
             \<and> timeout < clock w' - start_time)
          \<or> (result = failure ''Create Snapshot'' ''Snapshot creation failed'' (Some ''snapshot_failed'')
             \<and> (\<exists>w0. get_snapshot c project (PStr name) w0 = (Inr (Some ''FAILED''), w'))))"
  show ?case
  proof (cases "clock w - start_time > timeout")
    case True
    then have "snapshot_loop c project name disk timeout start_time w =
                 (failure ''Create Snapshot''
                    (''Snapshot creation timeout after '' @ str_int timeout @ ''s'') (Some ''timeout''), w)"
      by (subst snapshot_loop.simps) simp
    then have r: "result = failure ''Create Snapshot''
                 (''Snapshot creation timeout after '' @ str_int timeout @ ''s'') (Some ''timeout'')" "w' = w"
      using "1.prems" by simp_all
    have "\<not> success result" using r by (simp add: failure_def)
    then have p: "?P w 0" using True r by simp
    show ?thesis by (rule exI [of _ 0]) (rule p)
  next
    case False
    obtain r1 w1 where g: "get_snapshot c project (PStr name) w = (r1, w1)"
      by (cases "get_snapshot c project (PStr name) w")
    have rq: "requests w1 = requests w @ [SnapshotsGet project (PStr name)]"
      using get_snapshot_request [of c project "PStr name" w] g by simp
    have c1: "clock w \<le> clock w1" using get_snapshot_clock [of w c project "PStr name"] g by simp
    let ?w2 = "time_sleep 5 w1"
    have c2: "clock ?w2 = clock w1 + 5" "requests ?w2 = requests w1" by (simp_all add: time_sleep_def)
    have again: "?P w (Suc n)" if "?P ?w2 n" for n
    proof -
      have a: "requests w' = requests w @ replicate (Suc n) (SnapshotsGet project (PStr name))"
        using that rq c2 by (simp add: replicate_app_Cons_same)
      have "n \<le> (if clock ?w2 - start_time > timeout then 0
                else nat ((timeout - (clock ?w2 - start_time)) div 5) + 1)" using that by simp
      moreover have "(if clock ?w2 - start_time > timeout then 0
                else nat ((timeout - (clock ?w2 - start_time)) div 5) + 1)
                   \<le> nat ((timeout - (clock w - start_time)) div 5)"
        using c1 c2 False by (auto simp: not_less)
      ultimately have b: "Suc n \<le> nat ((timeout - (clock w - start_time)) div 5) + 1" by simp
      show ?thesis using that a b False by simp
    qed
    show ?thesis
    proof (cases r1)
      case (Inl e)
      have "snapshot_loop c project name disk timeout start_time w =
              snapshot_loop c project name disk timeout start_time ?w2"
        using False g Inl by (subst snapshot_loop.simps) simp
      then have step: "snapshot_loop c project name disk timeout start_time ?w2 = (result, w')"
        using "1.prems" by simp
      obtain n where "?P ?w2 n"
        using "1.IH"(1) [of "clock w - start_time" r1 w1 e] False g Inl step by auto
      then have p: "?P w (Suc n)" by (rule again)
      show ?thesis by (rule exI [of _ "Suc n"]) (rule p)
    next
      case (Inr snapshot)
      let ?status = "case snapshot of None \<Rightarrow> ''UNKNOWN'' | Some s \<Rightarrow> s"
      show ?thesis
      proof (cases "?status = ''READY''")
        case ready: True
        then have sn: "snapshot = Some ''READY''" by (auto split: option.splits)
        have "\<exists>r. snapshot_loop c project name disk timeout start_time w = (r, w1) \<and> success r"
          using False g Inr ready by (subst snapshot_loop.simps) (simp add: succeeded_def Let_def)
        then have r: "success result" "w' = w1"
          using "1.prems" by auto
        have gs: "get_snapshot c project (PStr name) w = (Inr (Some ''READY''), w')" using g Inr sn r by simp
        have e: "\<exists>w0. get_snapshot c project (PStr name) w0 = (Inr (Some ''READY''), w')"
          by (rule exI [of _ w]) (rule gs)
        have "requests w' = requests w @ replicate 1 (SnapshotsGet project (PStr name))" using rq r by simp
        then have p: "?P w 1" using e r(1) False by simp
        show ?thesis by (rule exI [of _ 1]) (rule p)
      next
        case nr: False
        show ?thesis
        proof (cases "?status = ''FAILED''")
        case failed: True
        then have sn: "snapshot = Some ''FAILED''" by (auto split: option.splits)
        have "snapshot_loop c project name disk timeout start_time w =
                (failure ''Create Snapshot'' ''Snapshot creation failed'' (Some ''snapshot_failed''), w1)"
          using False g Inr failed by (subst snapshot_loop.simps) (simp add: Let_def)
        then have r: "result = failure ''Create Snapshot'' ''Snapshot creation failed'' (Some ''snapshot_failed'')"
            "w' = w1"
          using "1.prems" by simp_all
        have ns: "\<not> success result" using r by (simp add: failure_def)
        have gs: "get_snapshot c project (PStr name) w = (Inr (Some ''FAILED''), w')" using g Inr sn r by simp
        have e: "\<exists>w0. get_snapshot c project (PStr name) w0 = (Inr (Some ''FAILED''), w')"
          by (rule exI [of _ w]) (rule gs)
        have "requests w' = requests w @ replicate 1 (SnapshotsGet project (PStr name))" using rq r by simp
        then have p: "?P w 1" using e r(1) ns False by simp
        show ?thesis by (rule exI [of _ 1]) (rule p)
      next
        case nf: False
        note other = nr nf
        have "snapshot_loop c project name disk timeout start_time w =
                snapshot_loop c project name disk timeout start_time ?w2"
          using False g Inr other by (subst snapshot_loop.simps) (simp add: Let_def)
        then have step: "snapshot_loop c project name disk timeout start_time ?w2 = (result, w')"
          using "1.prems" by simp
        obtain n where "?P ?w2 n"
          using "1.IH"(2) [of "clock w - start_time" r1 w1 snapshot ?status] False g Inr other step by auto
        then have p: "?P w (Suc n)" by (rule again)
        show ?thesis by (rule exI [of _ "Suc n"]) (rule p)
      qed
      qed
    qed
  qed
qed

lemma wait_for_snapshot_run:
  assumes "snapshot_loop c project name disk timeout (clock w) w = (result, w')"
  shows "\<exists>n. requests w' = requests w @ replicate n (SnapshotsGet project (PStr name))
         \<and> n \<le> nat (timeout div 5 + 1) \<and> (0 \<le> timeout \<longrightarrow> 1 \<le> n)
         \<and> (success result \<longrightarrow>
              (\<exists>w0. get_snapshot c project (PStr name) w0 = (Inr (Some ''READY''), w')))
         \<and> (\<not> success result \<longrightarrow>
              (result = failure ''Create Snapshot''
                          (''Snapshot creation timeout after '' @ str_int timeout @ ''s'') (Some ''timeout'')
               \<and> timeout < clock w' - clock w)
            \<or> (result = failure ''Create Snapshot'' ''Snapshot creation failed'' (Some ''snapshot_failed'')
               \<and> (\<exists>w0. get_snapshot c project (PStr name) w0 = (Inr (Some ''FAILED''), w'))))"
proof -
  obtain n where n: "requests w' = requests w @ replicate n (SnapshotsGet project (PStr name))"
      "n \<le> (if clock w - clock w > timeout then 0 else nat ((timeout - (clock w - clock w)) div 5) + 1)"
      "clock w - clock w \<le> timeout \<longrightarrow> 1 \<le> n"
      "success result \<longrightarrow>
              (\<exists>w0. get_snapshot c project (PStr name) w0 = (Inr (Some ''READY''), w'))"
      "\<not> success result \<longrightarrow>
              (result = failure ''Create Snapshot''
                          (''Snapshot creation timeout after '' @ str_int timeout @ ''s'') (Some ''timeout'')
               \<and> timeout < clock w' - clock w)
            \<or> (result = failure ''Create Snapshot'' ''Snapshot creation failed'' (Some ''snapshot_failed'')
               \<and> (\<exists>w0. get_snapshot c project (PStr name) w0 = (Inr (Some ''FAILED''), w')))"
    using snapshot_loop_run [OF assms] by (elim exE conjE)
  have b: "n \<le> nat (timeout div 5 + 1)" using n(2) by (auto split: if_splits)
  have p: "0 \<le> timeout \<longrightarrow> 1 \<le> n" using n(3) by simp
  have all: "requests w' = requests w @ replicate n (SnapshotsGet project (PStr name))
         \<and> n \<le> nat (timeout div 5 + 1) \<and> (0 \<le> timeout \<longrightarrow> 1 \<le> n)
         \<and> (success result \<longrightarrow>
              (\<exists>w0. get_snapshot c project (PStr name) w0 = (Inr (Some ''READY''), w')))
         \<and> (\<not> success result \<longrightarrow>
              (result = failure ''Create Snapshot''
                          (''Snapshot creation timeout after '' @ str_int timeout @ ''s'') (Some ''timeout'')
               \<and> timeout < clock w' - clock w)
            \<or> (result = failure ''Create Snapshot'' ''Snapshot creation failed'' (Some ''snapshot_failed'')
               \<and> (\<exists>w0. get_snapshot c project (PStr name) w0 = (Inr (Some ''FAILED''), w'))))"
    by (rule conjI [OF n(1) conjI [OF b conjI [OF p conjI [OF n(4) n(5)]]]])
  show ?thesis by (rule exI [of _ n]) (rule all)
qed

text \<open>
  C7 (as the code has it). Each polling wait queries the status, sleeps five seconds and queries
  again; a request never moves the clock back, so the wait returns after at most
  \<open>timeout div 5 + 1\<close> queries, having issued no other request, and after at least one query
  when the timeout is not negative. \<^verbatim>\<open>_wait_for_status\<close> (VM stop and start, disk creation)
  answers True only straight after a query that returned the target status, at once if the
  first query returns it, and False only when more than \<open>timeout\<close> seconds have passed; any
  other status, a failure status included, makes it sleep and query again. The snapshot wait
  ends with success only after a query that returned \<^verbatim>\<open>READY\<close>, and with a failure either
  because more than \<open>timeout\<close> seconds have passed or because a query returned \<^verbatim>\<open>FAILED\<close>. For
  every client whose status never reaches the target (for the snapshot: is never \<^verbatim>\<open>READY\<close> nor
  \<^verbatim>\<open>FAILED\<close>), the stop, start, disk-creation and snapshot operations return a failed result
  whose message names the timeout, after more than \<open>timeout\<close> seconds of waiting.
\<close>

theorem polling_waits_terminate:
  "(wait_for_status c chk target timeout w = (res, w') \<longrightarrow>
      (\<exists>n. requests w' = requests w @ replicate n (status_request chk)
         \<and> n \<le> nat (timeout div 5 + 1) \<and> (0 \<le> timeout \<longrightarrow> 1 \<le> n)
         \<and> (res = Inr True \<longrightarrow>
              clock w + 5 * (int n - 1) \<le> clock w'
              \<and> (\<exists>w0. check_func c chk w0 = (Inr target, w')))
         \<and> (res = Inr False \<longrightarrow> timeout < clock w' - clock w \<and> clock w + 5 * int n \<le> clock w')
         \<and> (\<forall>e. res = Inl e \<longrightarrow> (\<exists>w0. check_func c chk w0 = (Inl e, w')))))
   \<and> (0 \<le> timeout \<longrightarrow> check_func c chk w = (Inr target, w1) \<longrightarrow>
        wait_for_status c chk target timeout w = (Inr True, w1))
   \<and> (0 \<le> timeout \<longrightarrow> check_func c chk w = (Inr other_status, w1) \<longrightarrow> other_status \<noteq> target \<longrightarrow>
        wait_for_status c chk target timeout w =
          wait_loop c chk target timeout (clock w) (time_sleep 5 w1))
   \<and> (snapshot_loop c project name disk timeout (clock w) w = (result, w') \<longrightarrow>
      (\<exists>n. requests w' = requests w @ replicate n (SnapshotsGet project (PStr name))
         \<and> n \<le> nat (timeout div 5 + 1) \<and> (0 \<le> timeout \<longrightarrow> 1 \<le> n)
         \<and> (success result \<longrightarrow>
              (\<exists>w0. get_snapshot c project (PStr name) w0 = (Inr (Some ''READY''), w')))
         \<and> (\<not> success result \<longrightarrow>
              (result = failure ''Create Snapshot''
                          (''Snapshot creation timeout after '' @ str_int timeout @ ''s'') (Some ''timeout'')
               \<and> timeout < clock w' - clock w)
            \<or> (result = failure ''Create Snapshot'' ''Snapshot creation failed'' (Some ''snapshot_failed'')
               \<and> (\<exists>w0. get_snapshot c project (PStr name) w0 = (Inr (Some ''FAILED''), w'))))))
   \<and> length (requests (snd (wait_for_status c chk target timeout w))) \<le>
     length (requests w) + nat (timeout div 5 + 1)
   \<and> (wait_for_status c chk target timeout w = (Inr False, w') \<longrightarrow> clock w' - clock w > timeout)
   \<and> (never_reaches c chk target stays \<longrightarrow> stays (remote w) \<longrightarrow>
        (\<exists>w'. wait_for_status c chk target timeout w = (Inr False, w') \<and> clock w' - clock w > timeout))
   \<and> (get_instance c project zone (PStr vm_name) w = (Inr vm, w1) \<longrightarrow> in_status vm = ''RUNNING'' \<longrightarrow>
      stop_instance c project zone (PStr vm_name) w1 = (Inr u, w2) \<longrightarrow>
      never_reaches c (VMStatus project zone (PStr vm_name)) ''TERMINATED'' stays \<longrightarrow> stays (remote w2) \<longrightarrow>
        (\<exists>w3. StopVMOperation_execute c project zone vm_name timeout w =
                 (failure ''Stop VM'' (''Timeout waiting for VM to stop (>'' @ str_int timeout @ ''s)'') None, w3)
             \<and> clock w3 - clock w2 > timeout))
   \<and> (get_instance c project zone (PStr vm_name) w = (Inr vm, w1) \<longrightarrow> in_status vm = ''TERMINATED'' \<longrightarrow>
      start_instance c project zone (PStr vm_name) w1 = (Inr u, w2) \<longrightarrow>
      never_reaches c (VMStatus project zone (PStr vm_name)) ''RUNNING'' stays \<longrightarrow> stays (remote w2) \<longrightarrow>
        (\<exists>w3. StartVMOperation_execute c project zone vm_name timeout w =
                 (failure ''Start VM'' (''Timeout waiting for VM to start (>'' @ str_int timeout @ ''s)'') None, w3)
             \<and> clock w3 - clock w2 > timeout))
   \<and> (insert_disk c project zone (disk_body_of project zone disk_name size_gb disk_type source_image) w
          = (Inr u, w1) \<longrightarrow>
      never_reaches c (DiskStatus project zone (PStr disk_name)) ''READY'' stays \<longrightarrow> stays (remote w1) \<longrightarrow>
        (\<exists>w2. CreateDiskOperation_execute c project zone disk_name size_gb disk_type source_image timeout w =
                 (failure ''Create Disk'' (''Timeout waiting for disk creation (>'' @ str_int timeout @ ''s)'') None, w2)
             \<and> clock w2 - clock w1 > timeout))
   \<and> (create_disk_snapshot c project zone (opt_val disk)
          (snapshot_body_of (snapshot_name_or_default sn disk (clock w)) (description_or_default descr disk)) w
          = (Inr u, w1) \<longrightarrow>
      snapshot_never_settles c project (snapshot_name_or_default sn disk (clock w)) stays \<longrightarrow>
      stays (remote w1) \<longrightarrow>
        (\<exists>w2. CreateSnapshotOperation_execute c project zone disk sn descr timeout w =
                 (failure ''Create Snapshot'' (''Snapshot creation timeout after '' @ str_int timeout @ ''s'')
                    (Some ''timeout''), w2)
             \<and> clock w2 - clock w1 > timeout))"
proof -
  have a: "wait_for_status c chk target timeout w = (res, w') \<longrightarrow>
      (\<exists>n. requests w' = requests w @ replicate n (status_request chk)
         \<and> n \<le> nat (timeout div 5 + 1) \<and> (0 \<le> timeout \<longrightarrow> 1 \<le> n)
         \<and> (res = Inr True \<longrightarrow>
              clock w + 5 * (int n - 1) \<le> clock w'
              \<and> (\<exists>w0. check_func c chk w0 = (Inr target, w')))
         \<and> (res = Inr False \<longrightarrow> timeout < clock w' - clock w \<and> clock w + 5 * int n \<le> clock w')
         \<and> (\<forall>e. res = Inl e \<longrightarrow> (\<exists>w0. check_func c chk w0 = (Inl e, w'))))"
    by (rule impI) (rule wait_for_status_run)
  have b: "0 \<le> timeout \<longrightarrow> check_func c chk w = (Inr target, w1) \<longrightarrow>
        wait_for_status c chk target timeout w = (Inr True, w1)"
    unfolding wait_for_status_def by (subst wait_loop.simps) simp
  have c: "0 \<le> timeout \<longrightarrow> check_func c chk w = (Inr other_status, w1) \<longrightarrow> other_status \<noteq> target \<longrightarrow>
        wait_for_status c chk target timeout w =
          wait_loop c chk target timeout (clock w) (time_sleep 5 w1)"
    unfolding wait_for_status_def by (subst wait_loop.simps) simp
  have d: "snapshot_loop c project name disk timeout (clock w) w = (result, w') \<longrightarrow>
      (\<exists>n. requests w' = requests w @ replicate n (SnapshotsGet project (PStr name))
         \<and> n \<le> nat (timeout div 5 + 1) \<and> (0 \<le> timeout \<longrightarrow> 1 \<le> n)
         \<and> (success result \<longrightarrow>
              (\<exists>w0. get_snapshot c project (PStr name) w0 = (Inr (Some ''READY''), w')))
         \<and> (\<not> success result \<longrightarrow>
              (result = failure ''Create Snapshot''
                          (''Snapshot creation timeout after '' @ str_int timeout @ ''s'') (Some ''timeout'')
               \<and> timeout < clock w' - clock w)
            \<or> (result = failure ''Create Snapshot'' ''Snapshot creation failed'' (Some ''snapshot_failed'')
               \<and> (\<exists>w0. get_snapshot c project (PStr name) w0 = (Inr (Some ''FAILED''), w')))))"
    by (rule impI) (rule wait_for_snapshot_run)
  have rest: "length (requests (snd (wait_for_status c chk target timeout w))) \<le>
     length (requests w) + nat (timeout div 5 + 1)
   \<and> (wait_for_status c chk target timeout w = (Inr False, w') \<longrightarrow> clock w' - clock w > timeout)
   \<and> (never_reaches c chk target stays \<longrightarrow> stays (remote w) \<longrightarrow>
        (\<exists>w'. wait_for_status c chk target timeout w = (Inr False, w') \<and> clock w' - clock w > timeout))
   \<and> (get_instance c project zone (PStr vm_name) w = (Inr vm, w1) \<longrightarrow> in_status vm = ''RUNNING'' \<longrightarrow>
      stop_instance c project zone (PStr vm_name) w1 = (Inr u, w2) \<longrightarrow>
      never_reaches c (VMStatus project zone (PStr vm_name)) ''TERMINATED'' stays \<longrightarrow> stays (remote w2) \<longrightarrow>
        (\<exists>w3. StopVMOperation_execute c project zone vm_name timeout w =
                 (failure ''Stop VM'' (''Timeout waiting for VM to stop (>'' @ str_int timeout @ ''s)'') None, w3)
             \<and> clock w3 - clock w2 > timeout))
   \<and> (get_instance c project zone (PStr vm_name) w = (Inr vm, w1) \<longrightarrow> in_status vm = ''TERMINATED'' \<longrightarrow>
      start_instance c project zone (PStr vm_name) w1 = (Inr u, w2) \<longrightarrow>
      never_reaches c (VMStatus project zone (PStr vm_name)) ''RUNNING'' stays \<longrightarrow> stays (remote w2) \<longrightarrow>
        (\<exists>w3. StartVMOperation_execute c project zone vm_name timeout w =
                 (failure ''Start VM'' (''Timeout waiting for VM to start (>'' @ str_int timeout @ ''s)'') None, w3)
             \<and> clock w3 - clock w2 > timeout))
   \<and> (insert_disk c project zone (disk_body_of project zone disk_name size_gb disk_type source_image) w
          = (Inr u, w1) \<longrightarrow>
      never_reaches c (DiskStatus project zone (PStr disk_name)) ''READY'' stays \<longrightarrow> stays (remote w1) \<longrightarrow>
        (\<exists>w2. CreateDiskOperation_execute c project zone disk_name size_gb disk_type source_image timeout w =
                 (failure ''Create Disk'' (''Timeout waiting for disk creation (>'' @ str_int timeout @ ''s)'') None, w2)
             \<and> clock w2 - clock w1 > timeout))
   \<and> (create_disk_snapshot c project zone (opt_val disk)
          (snapshot_body_of (snapshot_name_or_default sn disk (clock w)) (description_or_default descr disk)) w
          = (Inr u, w1) \<longrightarrow>
      snapshot_never_settles c project (snapshot_name_or_default sn disk (clock w)) stays \<longrightarrow>
      stays (remote w1) \<longrightarrow>
        (\<exists>w2. CreateSnapshotOperation_execute c project zone disk sn descr timeout w =
                 (failure ''Create Snapshot'' (''Snapshot creation timeout after '' @ str_int timeout @ ''s'')
                    (Some ''timeout''), w2)
             \<and> clock w2 - clock w1 > timeout))"
  proof (intro conjI impI)
  show "length (requests (snd (wait_for_status c chk target timeout w))) \<le>
          length (requests w) + nat (timeout div 5 + 1)"
    by (rule wait_for_status_polls)
next
  assume "wait_for_status c chk target timeout w = (Inr False, w')"
  then show "clock w' - clock w > timeout"
    unfolding wait_for_status_def by (rule wait_loop_false_elapsed)
next
  assume "never_reaches c chk target stays" and "stays (remote w)"
  then obtain w'' where "wait_for_status c chk target timeout w = (Inr False, w'')"
      "clock w'' - clock w > timeout"
    using wait_for_status_never [of c chk target stays w timeout] by blast
  then show "\<exists>w'. wait_for_status c chk target timeout w = (Inr False, w') \<and> clock w' - clock w > timeout"
    by (intro exI conjI)
next
  assume "get_instance c project zone (PStr vm_name) w = (Inr vm, w1)" "in_status vm = ''RUNNING''"
    "stop_instance c project zone (PStr vm_name) w1 = (Inr u, w2)"
    "never_reaches c (VMStatus project zone (PStr vm_name)) ''TERMINATED'' stays" "stays (remote w2)"
  then show "\<exists>w3. StopVMOperation_execute c project zone vm_name timeout w =
                 (failure ''Stop VM'' (''Timeout waiting for VM to stop (>'' @ str_int timeout @ ''s)'') None, w3)
             \<and> clock w3 - clock w2 > timeout"
    by (rule stop_times_out)
next
  assume "get_instance c project zone (PStr vm_name) w = (Inr vm, w1)" "in_status vm = ''TERMINATED''"
    "start_instance c project zone (PStr vm_name) w1 = (Inr u, w2)"
    "never_reaches c (VMStatus project zone (PStr vm_name)) ''RUNNING'' stays" "stays (remote w2)"
  then show "\<exists>w3. StartVMOperation_execute c project zone vm_name timeout w =
                 (failure ''Start VM'' (''Timeout waiting for VM to start (>'' @ str_int timeout @ ''s)'') None, w3)
             \<and> clock w3 - clock w2 > timeout"
    by (rule start_times_out)
next
  assume "insert_disk c project zone (disk_body_of project zone disk_name size_gb disk_type source_image) w
          = (Inr u, w1)"
    "never_reaches c (DiskStatus project zone (PStr disk_name)) ''READY'' stays" "stays (remote w1)"
  then show "\<exists>w2. CreateDiskOperation_execute c project zone disk_name size_gb disk_type source_image timeout w =
                 (failure ''Create Disk'' (''Timeout waiting for disk creation (>'' @ str_int timeout @ ''s)'') None, w2)
             \<and> clock w2 - clock w1 > timeout"
    by (rule create_disk_times_out)
next
  assume "create_disk_snapshot c project zone (opt_val disk)
          (snapshot_body_of (snapshot_name_or_default sn disk (clock w)) (description_or_default descr disk)) w
          = (Inr u, w1)"
    "snapshot_never_settles c project (snapshot_name_or_default sn disk (clock w)) stays"
    "stays (remote w1)"
  then show "\<exists>w2. CreateSnapshotOperation_execute c project zone disk sn descr timeout w =
                 (failure ''Create Snapshot'' (''Snapshot creation timeout after '' @ str_int timeout @ ''s'')
                    (Some ''timeout''), w2)
             \<and> clock w2 - clock w1 > timeout"
    by (rule create_snapshot_times_out)
qed
  show ?thesis
    by (rule conjI [OF a conjI [OF b conjI [OF c conjI [OF d rest]]]])
qed

theorem polling_waits_terminate_witness:
  "(\<exists>w3. StopVMOperation_execute sim ''p'' ''z'' ''vm1'' 300 stuck0 =
           (failure ''Stop VM'' (''Timeout waiting for VM to stop (>'' @ str_int 300 @ ''s)'') None, w3)
         \<and> clock w3 - clock (snd (stop_instance sim ''p'' ''z'' (PStr ''vm1'')
               (snd (get_instance sim ''p'' ''z'' (PStr ''vm1'') stuck0)))) > 300)
   \<and> (\<exists>w3. StartVMOperation_execute sim ''p'' ''z'' ''vm1'' 300 stuck1 =
           (failure ''Start VM'' (''Timeout waiting for VM to start (>'' @ str_int 300 @ ''s)'') None, w3)
         \<and> clock w3 - clock (snd (start_instance sim ''p'' ''z'' (PStr ''vm1'')
               (snd (get_instance sim ''p'' ''z'' (PStr ''vm1'') stuck1)))) > 300)
   \<and> (\<exists>w2. CreateDiskOperation_execute sim ''p'' ''z'' ''d2'' 10 ''pd-standard'' ''img'' 300 stuck0 =
           (failure ''Create Disk'' (''Timeout waiting for disk creation (>'' @ str_int 300 @ ''s)'') None, w2)
         \<and> clock w2 - clock (snd (insert_disk sim ''p'' ''z''
               (disk_body_of ''p'' ''z'' ''d2'' 10 ''pd-standard'' ''img'') stuck0)) > 300)
   \<and> (\<exists>w2. CreateSnapshotOperation_execute sim ''p'' ''z'' (Some ''disk1'') (Some ''s1'') None 600 stuck0 =
           (failure ''Create Snapshot'' (''Snapshot creation timeout after '' @ str_int 600 @ ''s'')
              (Some ''timeout''), w2)
         \<and> clock w2 - clock (snd (create_disk_snapshot sim ''p'' ''z'' (opt_val (Some ''disk1''))
               (snapshot_body_of (snapshot_name_or_default (Some ''s1'') (Some ''disk1'') (clock stuck0))
                  (description_or_default None (Some ''disk1''))) stuck0)) > 600)"
proof -
  let ?g0 = "get_instance sim ''p'' ''z'' (PStr ''vm1'') stuck0"
  let ?s0 = "stop_instance sim ''p'' ''z'' (PStr ''vm1'') (snd ?g0)"
  let ?g1 = "get_instance sim ''p'' ''z'' (PStr ''vm1'') stuck1"
  let ?s1 = "start_instance sim ''p'' ''z'' (PStr ''vm1'') (snd ?g1)"
  let ?d = "insert_disk sim ''p'' ''z'' (disk_body_of ''p'' ''z'' ''d2'' 10 ''pd-standard'' ''img'') stuck0"
  let ?n = "snapshot_name_or_default (Some ''s1'') (Some ''disk1'') (clock stuck0)"
  let ?c = "create_disk_snapshot sim ''p'' ''z'' (opt_val (Some ''disk1''))
               (snapshot_body_of ?n (description_or_default None (Some ''disk1''))) stuck0"
  have g0: "?g0 = (Inr (sim_instance (remote stuck0)), snd ?g0)"
    by (rule pair_fst_snd)
       (simp add: get_instance_def perform_def sim_def on_vm_def stuck0_def world0_def cloud0_def)
  have r0: "in_status (sim_instance (remote stuck0)) = ''RUNNING''"
    by (simp add: sim_instance_def stuck0_def world0_def cloud0_def)
  have s0: "?s0 = (Inr (), snd ?s0)"
    by (rule pair_fst_snd)
       (simp add: stop_instance_def get_instance_def perform_def sim_def on_vm_def stuck0_def world0_def
          cloud0_def)
  have i0: "sim_vm (remote (snd ?s0)) = ''vm1'' \<and> sim_status (remote (snd ?s0)) = ''STOPPING''"
    by (simp add: stop_instance_def get_instance_def perform_def sim_def on_vm_def stuck0_def world0_def
          cloud0_def)
  have g1: "?g1 = (Inr (sim_instance (remote stuck1)), snd ?g1)"
    by (rule pair_fst_snd)
       (simp add: get_instance_def perform_def sim_def on_vm_def stuck1_def world0_def cloud0_def)
  have r1: "in_status (sim_instance (remote stuck1)) = ''TERMINATED''"
    by (simp add: sim_instance_def stuck1_def world0_def cloud0_def)
  have s1: "?s1 = (Inr (), snd ?s1)"
    by (rule pair_fst_snd)
       (simp add: start_instance_def get_instance_def perform_def sim_def on_vm_def stuck1_def world0_def
          cloud0_def)
  have i1: "sim_vm (remote (snd ?s1)) = ''vm1'' \<and> sim_status (remote (snd ?s1)) = ''PROVISIONING''"
    by (simp add: start_instance_def get_instance_def perform_def sim_def on_vm_def stuck1_def world0_def
          cloud0_def)
  have d: "?d = (Inr (), snd ?d)"
    by (rule pair_fst_snd)
       (simp add: insert_disk_def perform_def sim_def sim_insert_disk_def disk_body_of_def stuck0_def
          world0_def cloud0_def)
  have id: "map_of (sim_disks (remote (snd ?d))) ''d2'' = Some ''CREATING''"
    by (simp add: insert_disk_def perform_def sim_def sim_insert_disk_def disk_body_of_def stuck0_def
          world0_def cloud0_def)
  have n: "?n = ''s1''"
    by (simp add: snapshot_name_or_default_def fmt_opt_def)
  have c: "?c = (Inr (), snd ?c)"
    by (rule pair_fst_snd)
       (simp add: create_disk_snapshot_def perform_def sim_def sim_create_snapshot_def snapshot_body_of_def
          opt_val_def n stuck0_def world0_def cloud0_def)
  have ic: "map_of (sim_snapshots (remote (snd ?c))) ?n = Some ''CREATING''"
    by (simp add: create_disk_snapshot_def perform_def sim_def sim_create_snapshot_def snapshot_body_of_def
          opt_val_def n stuck0_def world0_def cloud0_def)
  note t = polling_waits_terminate
             [THEN conjunct2, THEN conjunct2, THEN conjunct2, THEN conjunct2,
              THEN conjunct2, THEN conjunct2, THEN conjunct2]
  have stop: "\<exists>w3. StopVMOperation_execute sim ''p'' ''z'' ''vm1'' 300 stuck0 =
           (failure ''Stop VM'' (''Timeout waiting for VM to stop (>'' @ str_int 300 @ ''s)'') None, w3)
         \<and> clock w3 - clock (snd ?s0) > 300"
    by (rule t [THEN conjunct1, rule_format, OF g0 r0 s0 sim_vm_never i0]) simp
  have start: "\<exists>w3. StartVMOperation_execute sim ''p'' ''z'' ''vm1'' 300 stuck1 =
           (failure ''Start VM'' (''Timeout waiting for VM to start (>'' @ str_int 300 @ ''s)'') None, w3)
         \<and> clock w3 - clock (snd ?s1) > 300"
    by (rule t [THEN conjunct2, THEN conjunct1, rule_format, OF g1 r1 s1 sim_vm_never i1]) simp
  have disk: "\<exists>w2. CreateDiskOperation_execute sim ''p'' ''z'' ''d2'' 10 ''pd-standard'' ''img'' 300 stuck0 =
           (failure ''Create Disk'' (''Timeout waiting for disk creation (>'' @ str_int 300 @ ''s)'') None, w2)
         \<and> clock w2 - clock (snd ?d) > 300"
    by (rule t [THEN conjunct2, THEN conjunct2, THEN conjunct1, rule_format, OF d sim_disk_never id])
  have snap: "\<exists>w2. CreateSnapshotOperation_execute sim ''p'' ''z'' (Some ''disk1'') (Some ''s1'') None 600 stuck0 =
           (failure ''Create Snapshot'' (''Snapshot creation timeout after '' @ str_int 600 @ ''s'')
              (Some ''timeout''), w2)
         \<and> clock w2 - clock (snd ?c) > 600"
    by (rule t [THEN conjunct2, THEN conjunct2, THEN conjunct2, rule_format, OF c sim_snapshot_never ic])
  show ?thesis
    by (rule conjI [OF stop conjI [OF start conjI [OF disk snap]]])
qed

text \<open>
  C7 as stated fails for \<^verbatim>\<open>_wait_for_status\<close>, which does not stop on a terminal failure
  status: a disk whose status is \<^verbatim>\<open>FAILED\<close> is queried 61 times, every five seconds, until the
  clock has passed the timeout of 300 seconds, and only then the wait answers False.
\<close>

theorem failed_disk_is_polled_until_timeout:
  "fst (check_func sim (DiskStatus ''p'' ''z'' (PStr ''d2'')) failed0) = Inr ''FAILED''
   \<and> wait_for_status sim (DiskStatus ''p'' ''z'' (PStr ''d2'')) ''READY'' 300 failed0 =
       (Inr False, failed0\<lparr>clock := 1305, requests := replicate 61 (DisksGet ''p'' ''z'' (PStr ''d2''))\<rparr>)"
  by code_simp

section \<open>C4: compensating a change of run state\<close>

lemma stop_rollback_noop:
  "dict_item rd ''vm_name'' = Inr v \<Longrightarrow> dict_item rd ''original_status'' = Inr st \<Longrightarrow>
     st \<noteq> PStr ''RUNNING'' \<Longrightarrow> StopVMOperation_rollback c project zone rd w = (True, w)"
  by (simp add: StopVMOperation_rollback_def)

lemma start_rollback_noop:
  "dict_item rd ''vm_name'' = Inr v \<Longrightarrow> dict_item rd ''original_status'' = Inr st \<Longrightarrow>
     st \<noteq> PStr ''TERMINATED'' \<Longrightarrow> StartVMOperation_rollback c project zone rd w = (True, w)"
  by (simp add: StartVMOperation_rollback_def)

lemma start_instance_request:
  "requests (snd (start_instance c project zone v w)) = requests w @ [InstancesStart project zone v]"
  by (auto simp: start_instance_def perform_def split: prod.splits)

lemma stop_instance_request:
  "requests (snd (stop_instance c project zone v w)) = requests w @ [InstancesStop project zone v]"
  by (auto simp: stop_instance_def perform_def split: prod.splits)

text \<open>What a run-state compensation does once it has decided to act: one request \<open>call\<close>, then
  the wait for the status \<open>target\<close>.\<close>

lemma request_then_wait:
  assumes rq: "requests w1 = requests w @ [call]"
    and out: "out = (case res of
                  Inl e \<Rightarrow> (False, w1)
                | Inr u \<Rightarrow>
                    (case wait_for_status c (VMStatus project zone v) target 300 w1 of
                       (Inl e, w2) \<Rightarrow> (False, w2)
                     | (Inr reached, w2) \<Rightarrow> (reached, w2)))"
  shows "(\<exists>n. requests (snd out) = requests w @ call # replicate n (InstancesGet project zone v)
            \<and> n \<le> 61 \<and> ((\<exists>u. res = Inr u) \<longrightarrow> 1 \<le> n))
       \<and> (fst out \<longrightarrow> (\<exists>u. res = Inr u)
             \<and> (\<exists>w0. check_func c (VMStatus project zone v) w0 = (Inr target, snd out)))"
proof (cases res)
  case (Inl e)
  then have o: "out = (False, w1)" using out by simp
  have "requests (snd out) = requests w @ call # replicate 0 (InstancesGet project zone v)
            \<and> 0 \<le> (61 :: nat) \<and> ((\<exists>u. res = Inr u) \<longrightarrow> 1 \<le> (0 :: nat))"
    using o rq Inl by simp
  then have "\<exists>n. requests (snd out) = requests w @ call # replicate n (InstancesGet project zone v)
            \<and> n \<le> 61 \<and> ((\<exists>u. res = Inr u) \<longrightarrow> 1 \<le> n)"
    by (rule exI [of _ 0])
  then show ?thesis using o by simp
next
  case (Inr u)
  obtain r2 w2 where wt: "wait_for_status c (VMStatus project zone v) target 300 w1 = (r2, w2)"
    by (cases "wait_for_status c (VMStatus project zone v) target 300 w1")
  obtain n where n: "requests w2 = requests w1 @ replicate n (status_request (VMStatus project zone v))"
      "n \<le> nat (300 div 5 + 1)" "1 \<le> n"
      "r2 = Inr True \<longrightarrow> (\<exists>w0. check_func c (VMStatus project zone v) w0 = (Inr target, w2))"
    using wait_for_status_run [OF wt] by auto
  have o: "snd out = w2" "fst out = (r2 = Inr True)"
    using out Inr wt by (auto split: sum.splits)
  have a: "requests (snd out) = requests w @ call # replicate n (InstancesGet project zone v)
            \<and> n \<le> 61 \<and> ((\<exists>u. res = Inr u) \<longrightarrow> 1 \<le> n)"
    using o(1) n(1,2,3) rq by (simp add: status_request_def)
  have "\<exists>n. requests (snd out) = requests w @ call # replicate n (InstancesGet project zone v)
            \<and> n \<le> 61 \<and> ((\<exists>u. res = Inr u) \<longrightarrow> 1 \<le> n)"
    by (rule exI [of _ n]) (rule a)
  then show ?thesis using o n(4) Inr by simp
qed

lemma stop_rollback_waits:
  assumes "dict_item rd ''vm_name'' = Inr v" and "dict_item rd ''original_status'' = Inr (PStr ''RUNNING'')"
  shows "StopVMOperation_rollback c project zone rd w =
           (case start_instance c project zone v w of
              (Inl e, w1) \<Rightarrow> (False, w1)
            | (Inr u, w1) \<Rightarrow>
                (case wait_for_status c (VMStatus project zone v) ''RUNNING'' 300 w1 of
                   (Inl e, w2) \<Rightarrow> (False, w2)
                 | (Inr reached, w2) \<Rightarrow> (reached, w2)))
       \<and> (\<exists>n. requests (snd (StopVMOperation_rollback c project zone rd w)) =
                 requests w @ InstancesStart project zone v # replicate n (InstancesGet project zone v)
             \<and> n \<le> 61
             \<and> ((\<exists>u. fst (start_instance c project zone v w) = Inr u) \<longrightarrow> 1 \<le> n))
       \<and> (fst (StopVMOperation_rollback c project zone rd w) \<longrightarrow>
             (\<exists>u. fst (start_instance c project zone v w) = Inr u)
             \<and> (\<exists>w0. check_func c (VMStatus project zone v) w0 =
                        (Inr ''RUNNING'', snd (StopVMOperation_rollback c project zone rd w))))"
proof -
  obtain res w1 where s: "start_instance c project zone v w = (res, w1)"
    by (cases "start_instance c project zone v w")
  have rq: "requests w1 = requests w @ [InstancesStart project zone v]"
    using start_instance_request [of c project zone v w] s by simp
  have eq: "StopVMOperation_rollback c project zone rd w =
           (case start_instance c project zone v w of
              (Inl e, w1) \<Rightarrow> (False, w1)
            | (Inr u, w1) \<Rightarrow>
                (case wait_for_status c (VMStatus project zone v) ''RUNNING'' 300 w1 of
                   (Inl e, w2) \<Rightarrow> (False, w2)
                 | (Inr reached, w2) \<Rightarrow> (reached, w2)))"
    using assms by (simp add: StopVMOperation_rollback_def)
  have out: "StopVMOperation_rollback c project zone rd w =
           (case res of
              Inl e \<Rightarrow> (False, w1)
            | Inr u \<Rightarrow>
                (case wait_for_status c (VMStatus project zone v) ''RUNNING'' 300 w1 of
                   (Inl e, w2) \<Rightarrow> (False, w2)
                 | (Inr reached, w2) \<Rightarrow> (reached, w2)))"
    using eq s by simp
  show ?thesis
    using request_then_wait [OF rq out] eq s by simp
qed

lemma start_rollback_waits:
  assumes "dict_item rd ''vm_name'' = Inr v" and "dict_item rd ''original_status'' = Inr (PStr ''TERMINATED'')"
  shows "StartVMOperation_rollback c project zone rd w =
           (case stop_instance c project zone v w of
              (Inl e, w1) \<Rightarrow> (False, w1)
            | (Inr u, w1) \<Rightarrow>
                (case wait_for_status c (VMStatus project zone v) ''TERMINATED'' 300 w1 of
                   (Inl e, w2) \<Rightarrow> (False, w2)
                 | (Inr reached, w2) \<Rightarrow> (reached, w2)))
       \<and> (\<exists>n. requests (snd (StartVMOperation_rollback c project zone rd w)) =
                 requests w @ InstancesStop project zone v # replicate n (InstancesGet project zone v)
             \<and> n \<le> 61
             \<and> ((\<exists>u. fst (stop_instance c project zone v w) = Inr u) \<longrightarrow> 1 \<le> n))
       \<and> (fst (StartVMOperation_rollback c project zone rd w) \<longrightarrow>
             (\<exists>u. fst (stop_instance c project zone v w) = Inr u)
             \<and> (\<exists>w0. check_func c (VMStatus project zone v) w0 =
                        (Inr ''TERMINATED'', snd (StartVMOperation_rollback c project zone rd w))))"
proof -
  obtain res w1 where s: "stop_instance c project zone v w = (res, w1)"
    by (cases "stop_instance c project zone v w")
  have rq: "requests w1 = requests w @ [InstancesStop project zone v]"
    using stop_instance_request [of c project zone v w] s by simp
  have eq: "StartVMOperation_rollback c project zone rd w =
           (case stop_instance c project zone v w of
              (Inl e, w1) \<Rightarrow> (False, w1)
            | (Inr u, w1) \<Rightarrow>
                (case wait_for_status c (VMStatus project zone v) ''TERMINATED'' 300 w1 of
                   (Inl e, w2) \<Rightarrow> (False, w2)
                 | (Inr reached, w2) \<Rightarrow> (reached, w2)))"
    using assms by (simp add: StartVMOperation_rollback_def)
  have out: "StartVMOperation_rollback c project zone rd w =
           (case res of
              Inl e \<Rightarrow> (False, w1)
            | Inr u \<Rightarrow>
                (case wait_for_status c (VMStatus project zone v) ''TERMINATED'' 300 w1 of
                   (Inl e, w2) \<Rightarrow> (False, w2)
                 | (Inr reached, w2) \<Rightarrow> (reached, w2)))"
    using eq s by simp
  show ?thesis
    using request_then_wait [OF rq out] eq s by simp
qed

lemma rollback_without_record:
  assumes "(\<exists>e. dict_item rd ''vm_name'' = Inl e) \<or> (\<exists>e. dict_item rd ''original_status'' = Inl e)"
  shows "StopVMOperation_rollback c project zone rd w = (False, w)
       \<and> StartVMOperation_rollback c project zone rd w = (False, w)"
  using assms
  by (auto simp: StopVMOperation_rollback_def StartVMOperation_rollback_def split: sum.splits)

text \<open>
  C4 (as the code has it). The compensation of a change of run state looks at the record only,
  never at the current status of the instance. A record without \<^verbatim>\<open>vm_name\<close> or
  \<^verbatim>\<open>original_status\<close> makes either \<^verbatim>\<open>rollback\<close> return False without a request. With both present,
  \<^verbatim>\<open>StopVMOperation.rollback\<close> is a no-op returning success whenever the recorded prior status
  is not \<^verbatim>\<open>RUNNING\<close>, and \<^verbatim>\<open>StartVMOperation.rollback\<close> whenever it is not \<^verbatim>\<open>TERMINATED\<close>. When the
  recorded prior status is \<^verbatim>\<open>RUNNING\<close>, \<^verbatim>\<open>StopVMOperation.rollback\<close> issues the start request first,
  whatever the current status, and, if the request returns, waits for \<^verbatim>\<open>RUNNING\<close> with a timeout
  of 300 seconds: it issues between one and 61 status queries and nothing else, and it answers
  True only straight after a query that returned \<^verbatim>\<open>RUNNING\<close>. Likewise
  \<^verbatim>\<open>StartVMOperation.rollback\<close> issues the stop request and waits for \<^verbatim>\<open>TERMINATED\<close> when the
  recorded prior status is \<^verbatim>\<open>TERMINATED\<close>.
\<close>

theorem run_state_compensation_by_recorded_status:
  "(dict_item rd ''vm_name'' = Inr v \<longrightarrow> dict_item rd ''original_status'' = Inr st \<longrightarrow>
      st \<noteq> PStr ''RUNNING'' \<longrightarrow> StopVMOperation_rollback c project zone rd w = (True, w))
   \<and> (dict_item rd ''vm_name'' = Inr v \<longrightarrow> dict_item rd ''original_status'' = Inr st \<longrightarrow>
      st \<noteq> PStr ''TERMINATED'' \<longrightarrow> StartVMOperation_rollback c project zone rd w = (True, w))
   \<and> (dict_item rd ''vm_name'' = Inr v \<longrightarrow> dict_item rd ''original_status'' = Inr (PStr ''RUNNING'') \<longrightarrow>
        StopVMOperation_rollback c project zone rd w =
           (case start_instance c project zone v w of
              (Inl e, w1) \<Rightarrow> (False, w1)
            | (Inr u, w1) \<Rightarrow>
                (case wait_for_status c (VMStatus project zone v) ''RUNNING'' 300 w1 of
                   (Inl e, w2) \<Rightarrow> (False, w2)
                 | (Inr reached, w2) \<Rightarrow> (reached, w2)))
       \<and> (\<exists>n. requests (snd (StopVMOperation_rollback c project zone rd w)) =
                 requests w @ InstancesStart project zone v # replicate n (InstancesGet project zone v)
             \<and> n \<le> 61
             \<and> ((\<exists>u. fst (start_instance c project zone v w) = Inr u) \<longrightarrow> 1 \<le> n))
       \<and> (fst (StopVMOperation_rollback c project zone rd w) \<longrightarrow>
             (\<exists>u. fst (start_instance c project zone v w) = Inr u)
             \<and> (\<exists>w0. check_func c (VMStatus project zone v) w0 =
                        (Inr ''RUNNING'', snd (StopVMOperation_rollback c project zone rd w)))))
   \<and> (dict_item rd ''vm_name'' = Inr v \<longrightarrow> dict_item rd ''original_status'' = Inr (PStr ''TERMINATED'') \<longrightarrow>
        StartVMOperation_rollback c project zone rd w =
           (case stop_instance c project zone v w of
              (Inl e, w1) \<Rightarrow> (False, w1)
            | (Inr u, w1) \<Rightarrow>
                (case wait_for_status c (VMStatus project zone v) ''TERMINATED'' 300 w1 of
                   (Inl e, w2) \<Rightarrow> (False, w2)
                 | (Inr reached, w2) \<Rightarrow> (reached, w2)))
       \<and> (\<exists>n. requests (snd (StartVMOperation_rollback c project zone rd w)) =
                 requests w @ InstancesStop project zone v # replicate n (InstancesGet project zone v)
             \<and> n \<le> 61
             \<and> ((\<exists>u. fst (stop_instance c project zone v w) = Inr u) \<longrightarrow> 1 \<le> n))
       \<and> (fst (StartVMOperation_rollback c project zone rd w) \<longrightarrow>
             (\<exists>u. fst (stop_instance c project zone v w) = Inr u)
             \<and> (\<exists>w0. check_func c (VMStatus project zone v) w0 =
                        (Inr ''TERMINATED'', snd (StartVMOperation_rollback c project zone rd w)))))
   \<and> ((\<exists>e. dict_item rd ''vm_name'' = Inl e) \<or> (\<exists>e. dict_item rd ''original_status'' = Inl e) \<longrightarrow>
        StopVMOperation_rollback c project zone rd w = (False, w)
        \<and> StartVMOperation_rollback c project zone rd w = (False, w))"
proof -
  have a: "dict_item rd ''vm_name'' = Inr v \<longrightarrow> dict_item rd ''original_status'' = Inr st \<longrightarrow>
      st \<noteq> PStr ''RUNNING'' \<longrightarrow> StopVMOperation_rollback c project zone rd w = (True, w)"
    using stop_rollback_noop [of rd v st c project zone w] by (intro impI)
  have b: "dict_item rd ''vm_name'' = Inr v \<longrightarrow> dict_item rd ''original_status'' = Inr st \<longrightarrow>
      st \<noteq> PStr ''TERMINATED'' \<longrightarrow> StartVMOperation_rollback c project zone rd w = (True, w)"
    using start_rollback_noop [of rd v st c project zone w] by (intro impI)
  note c = stop_rollback_waits [of rd v c project zone w]
  note d = start_rollback_waits [of rd v c project zone w]
  note e = rollback_without_record [of rd c project zone w]
  show ?thesis
    by (rule conjI [OF a conjI [OF b conjI [OF impI [OF impI [OF c]] conjI [OF impI [OF impI [OF d]] impI [OF e]]]]])
qed

theorem run_state_compensation_by_recorded_status_witness:
  "StopVMOperation_rollback sim ''p'' ''z''
      [(''vm_name'', PStr ''vm1''), (''original_status'', PStr ''TERMINATED'')] world0 = (True, world0)
   \<and> StartVMOperation_rollback sim ''p'' ''z''
      [(''vm_name'', PStr ''vm1''), (''original_status'', PStr ''RUNNING'')] world0 = (True, world0)
   \<and> (\<exists>n. requests (snd (StopVMOperation_rollback sim ''p'' ''z''
           [(''vm_name'', PStr ''vm1''), (''original_status'', PStr ''RUNNING'')] world0)) =
         requests world0 @ InstancesStart ''p'' ''z'' (PStr ''vm1'')
           # replicate n (InstancesGet ''p'' ''z'' (PStr ''vm1''))
        \<and> n \<le> 61 \<and> 1 \<le> n)
   \<and> fst (StopVMOperation_rollback sim ''p'' ''z''
           [(''vm_name'', PStr ''vm1''), (''original_status'', PStr ''RUNNING'')] world0)
   \<and> (\<exists>w0. check_func sim (VMStatus ''p'' ''z'' (PStr ''vm1'')) w0 =
         (Inr ''RUNNING'', snd (StopVMOperation_rollback sim ''p'' ''z''
           [(''vm_name'', PStr ''vm1''), (''original_status'', PStr ''RUNNING'')] world0)))
   \<and> StopVMOperation_rollback sim ''p'' ''z'' [(''vm_name'', PStr ''vm1'')] world0 = (False, world0)"
proof -
  let ?t = "[(''vm_name'', PStr ''vm1''), (''original_status'', PStr ''TERMINATED'')]"
  let ?r = "[(''vm_name'', PStr ''vm1''), (''original_status'', PStr ''RUNNING'')]"
  let ?m = "[(''vm_name'', PStr ''vm1'')]"
  have a: "dict_item ?t ''vm_name'' = Inr (PStr ''vm1'')" "dict_item ?t ''original_status'' = Inr (PStr ''TERMINATED'')"
          "dict_item ?r ''vm_name'' = Inr (PStr ''vm1'')" "dict_item ?r ''original_status'' = Inr (PStr ''RUNNING'')"
    by (simp_all add: dict_item_def)
  have m: "(\<exists>e. dict_item ?m ''vm_name'' = Inl e) \<or> (\<exists>e. dict_item ?m ''original_status'' = Inl e)"
    by (simp add: dict_item_def)
  have ne: "PStr ''TERMINATED'' \<noteq> PStr ''RUNNING''" "PStr ''RUNNING'' \<noteq> PStr ''TERMINATED''" by simp_all
  have s: "\<exists>u. fst (start_instance sim ''p'' ''z'' (PStr ''vm1'') world0) = Inr u"
    by (simp add: start_instance_def perform_def sim_def on_vm_def world0_def cloud0_def split: prod.splits)
  have ok: "fst (StopVMOperation_rollback sim ''p'' ''z'' ?r world0)" by code_simp
  note t1 = run_state_compensation_by_recorded_status
              [where rd = ?t and v = "PStr ''vm1''" and st = "PStr ''TERMINATED''" and c = sim
                 and project = "''p''" and zone = "''z''" and w = world0,
               THEN conjunct1, rule_format, OF a(1) a(2) ne(1)]
  note t2 = run_state_compensation_by_recorded_status
              [where rd = ?r and v = "PStr ''vm1''" and st = "PStr ''RUNNING''" and c = sim
                 and project = "''p''" and zone = "''z''" and w = world0,
               THEN conjunct2, THEN conjunct1, rule_format, OF a(3) a(4) ne(2)]
  note t3 = run_state_compensation_by_recorded_status
              [where rd = ?r and v = "PStr ''vm1''" and c = sim
                 and project = "''p''" and zone = "''z''" and w = world0,
               THEN conjunct2, THEN conjunct2, THEN conjunct1, THEN mp, THEN mp, OF a(3) a(4)]
  note t5 = run_state_compensation_by_recorded_status
              [where rd = ?m and c = sim and project = "''p''" and zone = "''z''" and w = world0,
               THEN conjunct2, THEN conjunct2, THEN conjunct2, THEN conjunct2, THEN mp, OF m,
               THEN conjunct1]
  have t3b: "\<exists>n. requests (snd (StopVMOperation_rollback sim ''p'' ''z'' ?r world0)) =
         requests world0 @ InstancesStart ''p'' ''z'' (PStr ''vm1'')
           # replicate n (InstancesGet ''p'' ''z'' (PStr ''vm1''))
        \<and> n \<le> 61 \<and> 1 \<le> n"
    using t3 [THEN conjunct2, THEN conjunct1] s by (elim exE conjE) (intro exI conjI, simp_all)
  have t3c: "\<exists>w0. check_func sim (VMStatus ''p'' ''z'' (PStr ''vm1'')) w0 =
         (Inr ''RUNNING'', snd (StopVMOperation_rollback sim ''p'' ''z'' ?r world0))"
    by (rule t3 [THEN conjunct2, THEN conjunct2, THEN mp, OF ok, THEN conjunct2])
  show ?thesis
    by (rule conjI [OF t1 conjI [OF t2 conjI [OF t3b conjI [OF ok conjI [OF t3c t5]]]]])
qed

text \<open>
  C4 as stated fails: the instance is running and the recorded prior status is \<^verbatim>\<open>RUNNING\<close>, yet
  compensating the stop issues the start request again (and then polls once) before it
  returns success.
\<close>

theorem run_state_compensation_counterexample:
  "sim_status (remote world0) = ''RUNNING''
   \<and> fst (StopVMOperation_rollback sim ''p'' ''z''
            [(''vm_name'', PStr ''vm1''), (''original_status'', PStr ''RUNNING'')] world0)
   \<and> requests (snd (StopVMOperation_rollback sim ''p'' ''z''
            [(''vm_name'', PStr ''vm1''), (''original_status'', PStr ''RUNNING'')] world0)) =
        [InstancesStart ''p'' ''z'' (PStr ''vm1''), InstancesGet ''p'' ''z'' (PStr ''vm1'')]"
  by code_simp

section \<open>C6: detaching a disk captures the configuration its compensation uses\<close>

lemma attach_body_of_disk_info: "attach_body_of (PDict (disk_info_of disk)) = Inr (PDict (disk_info_of disk))"
  by (simp add: attach_body_of_def bind_res_def py_item_def dict_item_def disk_info_of_def)

lemma detach_rollback_requests:
  "requests (snd (DetachDiskOperation_rollback c project zone
       [(''vm_name'', v), (''disk_info'', PDict (disk_info_of disk))] w)) =
     requests w @ [InstancesAttachDisk project zone v (PDict (disk_info_of disk))]"
  by (simp add: DetachDiskOperation_rollback_def dict_item_def attach_body_of_disk_info
        attach_disk_def perform_def time_sleep_def split: prod.splits sum.splits)

lemma detach_captures_disk_info:
  assumes "success (fst (DetachDiskOperation_execute c project zone vm_name device_name w))"
  shows "\<exists>vm disk.
           fst (get_instance c project zone (PStr vm_name) w) = Inr vm
         \<and> find (\<lambda>d. Some (ad_deviceName d) = device_name) (disks_of vm) = Some disk
         \<and> requests (snd (DetachDiskOperation_execute c project zone vm_name device_name w)) =
             requests w @ [InstancesGet project zone (PStr vm_name),
                           InstancesDetachDisk project zone (PStr vm_name) (opt_val device_name)]
         \<and> rollback_data (fst (DetachDiskOperation_execute c project zone vm_name device_name w)) =
             Some [(''vm_name'', PStr vm_name), (''disk_info'', PDict (disk_info_of disk))]
         \<and> requests (snd (DetachDiskOperation_rollback c project zone
               [(''vm_name'', PStr vm_name), (''disk_info'', PDict (disk_info_of disk))] w')) =
             requests w' @ [InstancesAttachDisk project zone (PStr vm_name) (PDict (disk_info_of disk))]"
proof -
  obtain res w1 where g: "get_instance c project zone (PStr vm_name) w = (res, w1)"
    by (cases "get_instance c project zone (PStr vm_name) w")
  have rq1: "requests w1 = requests w @ [InstancesGet project zone (PStr vm_name)]"
    using g by (auto simp: get_instance_def perform_def split: prod.splits)
  show ?thesis
  proof (cases res)
    case (Inl e)
    then show ?thesis using assms g by (simp add: DetachDiskOperation_execute_def failure_def)
  next
    case (Inr vm)
    show ?thesis
    proof (cases "find (\<lambda>d. Some (ad_deviceName d) = device_name) (disks_of vm)")
      case None
      then show ?thesis using assms g Inr
        by (simp add: DetachDiskOperation_execute_def failure_def find_disk_info_def disks_of_def)
    next
      case (Some disk)
      obtain res2 w2 where d: "detach_disk c project zone (PStr vm_name) (opt_val device_name) w1 = (res2, w2)"
        by (cases "detach_disk c project zone (PStr vm_name) (opt_val device_name) w1")
      have rq2: "requests w2 = requests w1 @ [InstancesDetachDisk project zone (PStr vm_name) (opt_val device_name)]"
        using d by (auto simp: detach_disk_def perform_def split: prod.splits)
      show ?thesis
      proof (cases res2)
        case (Inl e)
        then show ?thesis using assms g Inr Some d
          by (simp add: DetachDiskOperation_execute_def failure_def find_disk_info_def disks_of_def)
      next
        case Inr2: (Inr u)
        have "fst (get_instance c project zone (PStr vm_name) w) = Inr vm" using g Inr by simp
        moreover have "requests (snd (DetachDiskOperation_execute c project zone vm_name device_name w)) =
             requests w @ [InstancesGet project zone (PStr vm_name),
                           InstancesDetachDisk project zone (PStr vm_name) (opt_val device_name)]"
          using g Inr Some d Inr2 rq1 rq2
          by (simp add: DetachDiskOperation_execute_def find_disk_info_def disks_of_def time_sleep_def)
        moreover have "rollback_data (fst (DetachDiskOperation_execute c project zone vm_name device_name w)) =
             Some [(''vm_name'', PStr vm_name), (''disk_info'', PDict (disk_info_of disk))]"
          using g Inr Some d Inr2
          by (simp add: DetachDiskOperation_execute_def find_disk_info_def disks_of_def succeeded_def)
        ultimately show ?thesis using Some detach_rollback_requests by blast
      qed
    qed
  qed
qed

lemma detach_rollback_result:
  "fst (DetachDiskOperation_rollback c project zone
          [(''vm_name'', v), (''disk_info'', PDict (disk_info_of disk))] w) =
     (\<exists>u. fst (attach_disk c project zone v (PDict (disk_info_of disk)) w) = Inr u)"
  by (simp add: DetachDiskOperation_rollback_def dict_item_def attach_body_of_disk_info
        split: prod.splits sum.splits)

text \<open>
  C6. Every successful \<^verbatim>\<open>DetachDiskOperation.execute\<close> has read the instance in the world it
  started in, found the disk with the device name there, and only then issued the detach
  request. Its compensation record holds the five fields of that entry: \<^verbatim>\<open>source\<close>, \<^verbatim>\<open>boot\<close>
  (False when absent), \<^verbatim>\<open>autoDelete\<close> (False when absent), \<^verbatim>\<open>deviceName\<close> and \<^verbatim>\<open>mode\<close>
  (\<^verbatim>\<open>READ_WRITE\<close> when absent). \<^verbatim>\<open>rollback\<close> on the record that \<^verbatim>\<open>execute\<close> returned issues, in any
  world, exactly one request, the attachment of the disk with a body of exactly these five
  values, and answers True exactly when that request returns.
\<close>

theorem detach_rollback_reattaches_captured_config:
  assumes "success (fst (DetachDiskOperation_execute c project zone vm_name device_name w))"
  shows "\<exists>vm disk.
           fst (get_instance c project zone (PStr vm_name) w) = Inr vm
         \<and> find (\<lambda>d. Some (ad_deviceName d) = device_name) (disks_of vm) = Some disk
         \<and> requests (snd (DetachDiskOperation_execute c project zone vm_name device_name w)) =
             requests w @ [InstancesGet project zone (PStr vm_name),
                           InstancesDetachDisk project zone (PStr vm_name) (opt_val device_name)]
         \<and> rollback_data (fst (DetachDiskOperation_execute c project zone vm_name device_name w)) =
             Some [(''vm_name'', PStr vm_name),
                   (''disk_info'', PDict
                      [(''source'', PStr (ad_source disk)),
                       (''boot'', PBool (case ad_boot disk of None \<Rightarrow> False | Some b \<Rightarrow> b)),
                       (''autoDelete'', PBool (case ad_autoDelete disk of None \<Rightarrow> False | Some b \<Rightarrow> b)),
                       (''deviceName'', PStr (ad_deviceName disk)),
                       (''mode'', PStr (case ad_mode disk of None \<Rightarrow> ''READ_WRITE'' | Some m \<Rightarrow> m))])]
         \<and> requests (snd (DetachDiskOperation_rollback c project zone
               (the (rollback_data (fst (DetachDiskOperation_execute c project zone vm_name device_name w))))
               w')) =
             requests w' @ [InstancesAttachDisk project zone (PStr vm_name)
                (PDict
                   [(''source'', PStr (ad_source disk)),
                    (''boot'', PBool (case ad_boot disk of None \<Rightarrow> False | Some b \<Rightarrow> b)),
                    (''autoDelete'', PBool (case ad_autoDelete disk of None \<Rightarrow> False | Some b \<Rightarrow> b)),
                    (''deviceName'', PStr (ad_deviceName disk)),
                    (''mode'', PStr (case ad_mode disk of None \<Rightarrow> ''READ_WRITE'' | Some m \<Rightarrow> m))])]
         \<and> fst (DetachDiskOperation_rollback c project zone
               (the (rollback_data (fst (DetachDiskOperation_execute c project zone vm_name device_name w))))
               w') =
             (\<exists>u. fst (attach_disk c project zone (PStr vm_name)
                (PDict
                   [(''source'', PStr (ad_source disk)),
                    (''boot'', PBool (case ad_boot disk of None \<Rightarrow> False | Some b \<Rightarrow> b)),
                    (''autoDelete'', PBool (case ad_autoDelete disk of None \<Rightarrow> False | Some b \<Rightarrow> b)),
                    (''deviceName'', PStr (ad_deviceName disk)),
                    (''mode'', PStr (case ad_mode disk of None \<Rightarrow> ''READ_WRITE'' | Some m \<Rightarrow> m))]) w') = Inr u)"
proof -
  obtain vm disk where d:
      "fst (get_instance c project zone (PStr vm_name) w) = Inr vm"
      "find (\<lambda>d. Some (ad_deviceName d) = device_name) (disks_of vm) = Some disk"
      "requests (snd (DetachDiskOperation_execute c project zone vm_name device_name w)) =
             requests w @ [InstancesGet project zone (PStr vm_name),
                           InstancesDetachDisk project zone (PStr vm_name) (opt_val device_name)]"
      "rollback_data (fst (DetachDiskOperation_execute c project zone vm_name device_name w)) =
             Some [(''vm_name'', PStr vm_name), (''disk_info'', PDict (disk_info_of disk))]"
      "requests (snd (DetachDiskOperation_rollback c project zone
               [(''vm_name'', PStr vm_name), (''disk_info'', PDict (disk_info_of disk))] w')) =
             requests w' @ [InstancesAttachDisk project zone (PStr vm_name) (PDict (disk_info_of disk))]"
    using detach_captures_disk_info [OF assms, of w'] by (elim exE conjE)
  have r: "requests (snd (DetachDiskOperation_rollback c project zone
               (the (rollback_data (fst (DetachDiskOperation_execute c project zone vm_name device_name w))))
               w')) =
             requests w' @ [InstancesAttachDisk project zone (PStr vm_name) (PDict (disk_info_of disk))]"
    unfolding d(4) option.sel by (rule detach_rollback_requests)
  have f: "fst (DetachDiskOperation_rollback c project zone
               (the (rollback_data (fst (DetachDiskOperation_execute c project zone vm_name device_name w))))
               w') =
             (\<exists>u. fst (attach_disk c project zone (PStr vm_name) (PDict (disk_info_of disk)) w') = Inr u)"
    unfolding d(4) option.sel by (rule detach_rollback_result)
  note all = conjI [OF d(1) conjI [OF d(2) conjI [OF d(3) conjI [OF d(4) conjI [OF r f]]]]]
  show ?thesis
    by (rule exI [of _ vm], rule exI [of _ disk]) (rule all [unfolded disk_info_of_def])
qed

theorem detach_rollback_reattaches_captured_config_witness:
  "success (fst (DetachDiskOperation_execute sim ''p'' ''z'' ''vm1'' (Some ''persistent-disk-0'') world0))
   \<and> requests (snd (DetachDiskOperation_rollback sim ''p'' ''z''
        (the (rollback_data (fst (DetachDiskOperation_execute sim ''p'' ''z'' ''vm1''
                                    (Some ''persistent-disk-0'') world0))))
        (snd (DetachDiskOperation_execute sim ''p'' ''z'' ''vm1'' (Some ''persistent-disk-0'') world0)))) =
       [InstancesGet ''p'' ''z'' (PStr ''vm1''),
        InstancesDetachDisk ''p'' ''z'' (PStr ''vm1'') (PStr ''persistent-disk-0''),
        InstancesAttachDisk ''p'' ''z'' (PStr ''vm1'')
          (PDict [(''source'', PStr ''projects/p/zones/z/disks/disk1''), (''boot'', PBool True),
                  (''autoDelete'', PBool True), (''deviceName'', PStr ''persistent-disk-0''),
                  (''mode'', PStr ''READ_WRITE'')])]
   \<and> (\<exists>vm disk.
         fst (get_instance sim ''p'' ''z'' (PStr ''vm1'') world0) = Inr vm
       \<and> find (\<lambda>d. Some (ad_deviceName d) = Some ''persistent-disk-0'') (disks_of vm) = Some disk
       \<and> requests (snd (DetachDiskOperation_execute sim ''p'' ''z'' ''vm1'' (Some ''persistent-disk-0'') world0)) =
           requests world0 @ [InstancesGet ''p'' ''z'' (PStr ''vm1''),
                             InstancesDetachDisk ''p'' ''z'' (PStr ''vm1'') (opt_val (Some ''persistent-disk-0''))]
       \<and> rollback_data (fst (DetachDiskOperation_execute sim ''p'' ''z'' ''vm1'' (Some ''persistent-disk-0'') world0)) =
           Some [(''vm_name'', PStr ''vm1''),
                 (''disk_info'', PDict
                    [(''source'', PStr (ad_source disk)),
                     (''boot'', PBool (case ad_boot disk of None \<Rightarrow> False | Some b \<Rightarrow> b)),
                     (''autoDelete'', PBool (case ad_autoDelete disk of None \<Rightarrow> False | Some b \<Rightarrow> b)),
                     (''deviceName'', PStr (ad_deviceName disk)),
                     (''mode'', PStr (case ad_mode disk of None \<Rightarrow> ''READ_WRITE'' | Some m \<Rightarrow> m))])]
       \<and> requests (snd (DetachDiskOperation_rollback sim ''p'' ''z''
             (the (rollback_data (fst (DetachDiskOperation_execute sim ''p'' ''z'' ''vm1''
                                         (Some ''persistent-disk-0'') world0))))
             world0)) =
           requests world0 @ [InstancesAttachDisk ''p'' ''z'' (PStr ''vm1'')
              (PDict
                 [(''source'', PStr (ad_source disk)),
                  (''boot'', PBool (case ad_boot disk of None \<Rightarrow> False | Some b \<Rightarrow> b)),
                  (''autoDelete'', PBool (case ad_autoDelete disk of None \<Rightarrow> False | Some b \<Rightarrow> b)),
                  (''deviceName'', PStr (ad_deviceName disk)),
                  (''mode'', PStr (case ad_mode disk of None \<Rightarrow> ''READ_WRITE'' | Some m \<Rightarrow> m))])]
       \<and> fst (DetachDiskOperation_rollback sim ''p'' ''z''
             (the (rollback_data (fst (DetachDiskOperation_execute sim ''p'' ''z'' ''vm1''
                                         (Some ''persistent-disk-0'') world0))))
             world0) =
           (\<exists>u. fst (attach_disk sim ''p'' ''z'' (PStr ''vm1'')
              (PDict
                 [(''source'', PStr (ad_source disk)),
                  (''boot'', PBool (case ad_boot disk of None \<Rightarrow> False | Some b \<Rightarrow> b)),
                  (''autoDelete'', PBool (case ad_autoDelete disk of None \<Rightarrow> False | Some b \<Rightarrow> b)),
                  (''deviceName'', PStr (ad_deviceName disk)),
                  (''mode'', PStr (case ad_mode disk of None \<Rightarrow> ''READ_WRITE'' | Some m \<Rightarrow> m))]) world0) = Inr u))"
proof -
  have s: "success (fst (DetachDiskOperation_execute sim ''p'' ''z'' ''vm1'' (Some ''persistent-disk-0'') world0))"
    by code_simp
  have q: "requests (snd (DetachDiskOperation_rollback sim ''p'' ''z''
        (the (rollback_data (fst (DetachDiskOperation_execute sim ''p'' ''z'' ''vm1''
                                    (Some ''persistent-disk-0'') world0))))
        (snd (DetachDiskOperation_execute sim ''p'' ''z'' ''vm1'' (Some ''persistent-disk-0'') world0)))) =
       [InstancesGet ''p'' ''z'' (PStr ''vm1''),
        InstancesDetachDisk ''p'' ''z'' (PStr ''vm1'') (PStr ''persistent-disk-0''),
        InstancesAttachDisk ''p'' ''z'' (PStr ''vm1'')
          (PDict [(''source'', PStr ''projects/p/zones/z/disks/disk1''), (''boot'', PBool True),
                  (''autoDelete'', PBool True), (''deviceName'', PStr ''persistent-disk-0''),
                  (''mode'', PStr ''READ_WRITE'')])]"
    by code_simp
  show ?thesis
    by (rule conjI [OF s conjI [OF q detach_rollback_reattaches_captured_config [OF s]]])
qed

section \<open>C8: the validation pipeline\<close>

lemma run_loop_acc:
  "run_loop vs acc w = (acc @ fst (run_loop vs [] w), snd (run_loop vs [] w))"
proof (induction vs arbitrary: acc w)
  case Nil
  show ?case by simp
next
  case (Cons v vs)
  obtain r w1 where v: "v w = (r, w1)" by (cases "v w")
  show ?case
    using Cons.IH [of "acc @ [r]" w1] Cons.IH [of "[r]" w1] v by simp
qed

lemma run_all_Nil: "run_all [] w = ([], w)"
  by (simp add: run_all_def)

lemma run_all_Cons:
  "run_all (v # vs) w = (fst (v w) # fst (run_all vs (snd (v w))), snd (run_all vs (snd (v w))))"
proof -
  obtain r w1 where v: "v w = (r, w1)" by (cases "v w")
  show ?thesis using v run_loop_acc [of vs "[r]" w1] by (simp add: run_all_def)
qed

lemma run_all_length: "length (fst (run_all vs w)) = length vs"
  by (induction vs arbitrary: w) (simp_all add: run_all_Nil run_all_Cons)

lemma run_all_append:
  "run_all (vs1 @ vs2) w =
     (fst (run_all vs1 w) @ fst (run_all vs2 (snd (run_all vs1 w))), snd (run_all vs2 (snd (run_all vs1 w))))"
  by (induction vs1 arbitrary: w) (simp_all add: run_all_Nil run_all_Cons)

lemma run_all_nth:
  assumes "i < length vs"
  shows "fst (run_all vs w) ! i = fst ((vs ! i) (snd (run_all (take i vs) w)))"
proof -
  have vs: "vs = take i vs @ (vs ! i) # drop (Suc i) vs"
    using assms by (simp add: id_take_nth_drop)
  have len: "length (fst (run_all (take i vs) w)) = i"
    using assms by (simp add: run_all_length)
  have "fst (run_all (take i vs @ (vs ! i) # drop (Suc i) vs) w) ! i =
          fst ((vs ! i) (snd (run_all (take i vs) w)))"
    using len by (simp add: run_all_append run_all_Cons nth_append)
  then show ?thesis using vs by simp
qed

lemma rescue_gate:
  "\<not> fst (RescueOrchestrator_validate c auth project zone vm_name w) \<Longrightarrow>
     rescue_vm c auth project zone vm_name config scripts w =
       \<lparr>returned = False, state_tracker = [], rolled_back = None,
        final_world = snd (RescueOrchestrator_validate c auth project zone vm_name w)\<rparr>"
  by (cases "RescueOrchestrator_validate c auth project zone vm_name w") (simp add: rescue_vm_def)

lemma restore_gate:
  "\<not> fst (RestoreOrchestrator_validate c auth project zone vm_name w) \<Longrightarrow>
     restore_vm c auth project zone vm_name config w =
       \<lparr>returned = False, state_tracker = [], rolled_back = None,
        final_world = snd (RestoreOrchestrator_validate c auth project zone vm_name w)\<rparr>"
  by (cases "RestoreOrchestrator_validate c auth project zone vm_name w") (simp add: restore_vm_def)

lemma only_reads_refl: "only_reads w w"
  by (simp add: only_reads_def)

lemma only_reads_trans: "only_reads w w1 \<Longrightarrow> only_reads w1 w2 \<Longrightarrow> only_reads w w2"
  by (auto simp: only_reads_def)

lemma credentials_world: "snd (CredentialsValidator_validate auth w) = w"
  by (auto simp: CredentialsValidator_validate_def Let_def
           split: sum.splits prod.splits exn.splits option.splits)

lemma iam_only_reads: "only_reads w (snd (IAMPermissionsValidator_validate c project zone vm w))"
  by (auto simp: IAMPermissionsValidator_validate_def Let_def test_iam_permissions_def perform_def
                 only_reads_def
           split: sum.splits prod.splits exn.splits option.splits)

lemma vm_check_failed_world: "snd (vm_check_failed n w e a b u) = w"
  by (auto simp: vm_check_failed_def split: exn.splits)

lemma get_instance_only_reads: "only_reads w (snd (get_instance c project zone v w))"
  by (auto simp: get_instance_def perform_def only_reads_def split: prod.splits)

lemma vm_state_only_reads: "only_reads w (snd (VMStateValidator_validate c project zone vm w))"
proof (cases "vm = None \<or> vm = Some []")
  case True
  then show ?thesis by (auto simp: VMStateValidator_validate_def only_reads_refl)
next
  case False
  obtain res w1 where g: "get_instance c project zone (opt_val vm) w = (res, w1)"
    by (cases "get_instance c project zone (opt_val vm) w")
  have "snd (VMStateValidator_validate c project zone vm w) = w1"
    using False g
    by (auto simp: VMStateValidator_validate_def Let_def vm_check_failed_world
             split: sum.splits option.splits)
  then show ?thesis using get_instance_only_reads [of w c project zone "opt_val vm"] g by simp
qed

lemma vm_restore_state_only_reads:
  "only_reads w (snd (VMRestoreStateValidator_validate c project zone vm w))"
proof (cases "vm = None \<or> vm = Some []")
  case True
  then show ?thesis by (auto simp: VMRestoreStateValidator_validate_def only_reads_refl)
next
  case False
  obtain res w1 where g: "get_instance c project zone (opt_val vm) w = (res, w1)"
    by (cases "get_instance c project zone (opt_val vm) w")
  have "snd (VMRestoreStateValidator_validate c project zone vm w) = w1"
    using False g
    by (auto simp: VMRestoreStateValidator_validate_def Let_def vm_check_failed_world
             split: sum.splits option.splits prod.splits)
  then show ?thesis using get_instance_only_reads [of w c project zone "opt_val vm"] g by simp
qed

lemma rescue_validate_only_reads:
  "only_reads w (snd (RescueOrchestrator_validate c auth project zone vm_name w))"
proof -
  let ?w1 = "snd (IAMPermissionsValidator_validate c project zone (Some vm_name) w)"
  have "snd (RescueOrchestrator_validate c auth project zone vm_name w) =
          snd (VMStateValidator_validate c project zone (Some vm_name) ?w1)"
    by (simp add: RescueOrchestrator_validate_def run_all_Cons run_all_Nil credentials_world
          split: prod.splits)
  then show ?thesis
    using only_reads_trans [OF iam_only_reads vm_state_only_reads] by simp
qed

lemma restore_validate_only_reads:
  "only_reads w (snd (RestoreOrchestrator_validate c auth project zone vm_name w))"
proof -
  let ?w1 = "snd (IAMPermissionsValidator_validate c project zone (Some vm_name) w)"
  have "snd (RestoreOrchestrator_validate c auth project zone vm_name w) =
          snd (VMRestoreStateValidator_validate c project zone (Some vm_name) ?w1)"
    by (simp add: RestoreOrchestrator_validate_def run_all_Cons run_all_Nil credentials_world
          split: prod.splits)
  then show ?thesis
    using only_reads_trans [OF iam_only_reads vm_restore_state_only_reads] by simp
qed

lemma failing_result_in_failures:
  "i < length results \<Longrightarrow> \<not> passed (results ! i) \<Longrightarrow> results ! i \<in> set (get_failures results)"
  by (simp add: get_failures_def)

lemma rescue_validate_results:
  "RescueOrchestrator_validate c auth project zone vm_name w0 =
        (all_passed (fst (run_all [CredentialsValidator_validate auth,
                                   IAMPermissionsValidator_validate c project zone (Some vm_name),
                                   VMStateValidator_validate c project zone (Some vm_name)] w0)),
         snd (run_all [CredentialsValidator_validate auth,
                       IAMPermissionsValidator_validate c project zone (Some vm_name),
                       VMStateValidator_validate c project zone (Some vm_name)] w0))"
  by (simp add: RescueOrchestrator_validate_def split: prod.splits)

lemma restore_validate_results:
  "RestoreOrchestrator_validate c auth project zone vm_name w0 =
        (all_passed (fst (run_all [CredentialsValidator_validate auth,
                                   IAMPermissionsValidator_validate c project zone (Some vm_name),
                                   VMRestoreStateValidator_validate c project zone (Some vm_name)] w0)),
         snd (run_all [CredentialsValidator_validate auth,
                       IAMPermissionsValidator_validate c project zone (Some vm_name),
                       VMRestoreStateValidator_validate c project zone (Some vm_name)] w0))"
  by (simp add: RestoreOrchestrator_validate_def split: prod.splits)

lemma rescue_validate_iff:
  "fst (RescueOrchestrator_validate c auth project zone vm_name w0) =
        (passed (fst (CredentialsValidator_validate auth w0))
         \<and> passed (fst (IAMPermissionsValidator_validate c project zone (Some vm_name) w0))
         \<and> passed (fst (VMStateValidator_validate c project zone (Some vm_name)
                          (snd (IAMPermissionsValidator_validate c project zone (Some vm_name) w0)))))"
  by (simp add: rescue_validate_results run_all_Cons run_all_Nil all_passed_def credentials_world)

lemma restore_validate_iff:
  "fst (RestoreOrchestrator_validate c auth project zone vm_name w0) =
        (passed (fst (CredentialsValidator_validate auth w0))
         \<and> passed (fst (IAMPermissionsValidator_validate c project zone (Some vm_name) w0))
         \<and> passed (fst (VMRestoreStateValidator_validate c project zone (Some vm_name)
                          (snd (IAMPermissionsValidator_validate c project zone (Some vm_name) w0)))))"
  by (simp add: restore_validate_results run_all_Cons run_all_Nil all_passed_def credentials_world)

lemma rescue_gate_open:
  "fst (RescueOrchestrator_validate c auth project zone vm_name w) \<Longrightarrow>
     rescue_vm c auth project zone vm_name config scripts w =
       RescueOrchestrator_execute c project zone vm_name config scripts
         (snd (RescueOrchestrator_validate c auth project zone vm_name w))"
  by (cases "RescueOrchestrator_validate c auth project zone vm_name w") (simp add: rescue_vm_def)

lemma restore_gate_open:
  "fst (RestoreOrchestrator_validate c auth project zone vm_name w) \<Longrightarrow>
     restore_vm c auth project zone vm_name config w =
       RestoreOrchestrator_execute c project zone vm_name config
         (snd (RestoreOrchestrator_validate c auth project zone vm_name w))"
  by (cases "RestoreOrchestrator_validate c auth project zone vm_name w") (simp add: restore_vm_def)

lemma validation_pipeline:
  "length (fst (run_all validators w)) = length validators
   \<and> (\<forall>i<length validators.
        fst (run_all validators w) ! i = fst ((validators ! i) (snd (run_all (take i validators) w)))
        \<and> (\<not> passed (fst (run_all validators w) ! i) \<longrightarrow>
             fst (run_all validators w) ! i \<in> set (get_failures (fst (run_all validators w)))))
   \<and> all_passed results = (\<forall>r\<in>set results. passed r)
   \<and> (\<not> fst (RescueOrchestrator_validate c auth project zone vm_name w0) \<longrightarrow>
        rescue_vm c auth project zone vm_name config scripts w0 =
          \<lparr>returned = False, state_tracker = [], rolled_back = None,
           final_world = snd (RescueOrchestrator_validate c auth project zone vm_name w0)\<rparr>
        \<and> only_reads w0 (final_world (rescue_vm c auth project zone vm_name config scripts w0)))
   \<and> (\<not> fst (RestoreOrchestrator_validate c auth project zone vm_name w0) \<longrightarrow>
        restore_vm c auth project zone vm_name config' w0 =
          \<lparr>returned = False, state_tracker = [], rolled_back = None,
           final_world = snd (RestoreOrchestrator_validate c auth project zone vm_name w0)\<rparr>
        \<and> only_reads w0 (final_world (restore_vm c auth project zone vm_name config' w0)))"
proof (intro conjI allI impI)
  show "length (fst (run_all validators w)) = length validators"
    by (rule run_all_length)
next
  fix i assume "i < length validators"
  then show "fst (run_all validators w) ! i = fst ((validators ! i) (snd (run_all (take i validators) w)))"
    by (rule run_all_nth)
next
  fix i assume "i < length validators" and "\<not> passed (fst (run_all validators w) ! i)"
  then show "fst (run_all validators w) ! i \<in> set (get_failures (fst (run_all validators w)))"
    by (simp add: failing_result_in_failures run_all_length)
next
  show "all_passed results = (\<forall>r\<in>set results. passed r)"
    by (simp add: all_passed_def list_all_iff)
next
  assume f: "\<not> fst (RescueOrchestrator_validate c auth project zone vm_name w0)"
  show "rescue_vm c auth project zone vm_name config scripts w0 =
          \<lparr>returned = False, state_tracker = [], rolled_back = None,
           final_world = snd (RescueOrchestrator_validate c auth project zone vm_name w0)\<rparr>"
    using f by (rule rescue_gate)
  then show "only_reads w0 (final_world (rescue_vm c auth project zone vm_name config scripts w0))"
    using rescue_validate_only_reads [of w0 c auth project zone vm_name] by simp
next
  assume f: "\<not> fst (RestoreOrchestrator_validate c auth project zone vm_name w0)"
  show "restore_vm c auth project zone vm_name config' w0 =
          \<lparr>returned = False, state_tracker = [], rolled_back = None,
           final_world = snd (RestoreOrchestrator_validate c auth project zone vm_name w0)\<rparr>"
    using f by (rule restore_gate)
  then show "only_reads w0 (final_world (restore_vm c auth project zone vm_name config' w0))"
    using restore_validate_only_reads [of w0 c auth project zone vm_name] by simp
qed

text \<open>
  C8. \<^verbatim>\<open>run_all\<close> collects one result per validator, in order: the i-th result is what the
  i-th validator answers in the world the validators before it left, whether or not they
  passed, and every failing result is among \<^verbatim>\<open>get_failures\<close>. \<^verbatim>\<open>all_passed\<close> holds exactly when
  every collected result passed. \<^verbatim>\<open>validate\<close> of either workflow is \<^verbatim>\<open>all_passed\<close> of \<^verbatim>\<open>run_all\<close> over
  its three validators (credentials, permissions, state of the instance), so it answers True
  exactly when each of the three passed. When any of the three fails, \<^verbatim>\<open>rescue_vm\<close> and
  \<^verbatim>\<open>restore_vm\<close> return False with an empty state tracker, in the world the validators left,
  which differs from the initial one by read requests only; when all three pass, the outcome
  is that of \<^verbatim>\<open>execute\<close> in that world.
\<close>

theorem validation_never_short_circuits:
  "length (fst (run_all validators w)) = length validators
   \<and> (\<forall>i<length validators.
        fst (run_all validators w) ! i = fst ((validators ! i) (snd (run_all (take i validators) w)))
        \<and> (\<not> passed (fst (run_all validators w) ! i) \<longrightarrow>
             fst (run_all validators w) ! i \<in> set (get_failures (fst (run_all validators w)))))
   \<and> all_passed results = (\<forall>r\<in>set results. passed r)
   \<and> (\<not> fst (RescueOrchestrator_validate c auth project zone vm_name w0) \<longrightarrow>
        rescue_vm c auth project zone vm_name config scripts w0 =
          \<lparr>returned = False, state_tracker = [], rolled_back = None,
           final_world = snd (RescueOrchestrator_validate c auth project zone vm_name w0)\<rparr>
        \<and> only_reads w0 (final_world (rescue_vm c auth project zone vm_name config scripts w0)))
   \<and> (\<not> fst (RestoreOrchestrator_validate c auth project zone vm_name w0) \<longrightarrow>
        restore_vm c auth project zone vm_name config' w0 =
          \<lparr>returned = False, state_tracker = [], rolled_back = None,
           final_world = snd (RestoreOrchestrator_validate c auth project zone vm_name w0)\<rparr>
        \<and> only_reads w0 (final_world (restore_vm c auth project zone vm_name config' w0)))
   \<and> RescueOrchestrator_validate c auth project zone vm_name w0 =
        (all_passed (fst (run_all [CredentialsValidator_validate auth,
                                   IAMPermissionsValidator_validate c project zone (Some vm_name),
                                   VMStateValidator_validate c project zone (Some vm_name)] w0)),
         snd (run_all [CredentialsValidator_validate auth,
                       IAMPermissionsValidator_validate c project zone (Some vm_name),
                       VMStateValidator_validate c project zone (Some vm_name)] w0))
   \<and> fst (RescueOrchestrator_validate c auth project zone vm_name w0) =
        (passed (fst (CredentialsValidator_validate auth w0))
         \<and> passed (fst (IAMPermissionsValidator_validate c project zone (Some vm_name) w0))
         \<and> passed (fst (VMStateValidator_validate c project zone (Some vm_name) (snd (IAMPermissionsValidator_validate c project zone (Some vm_name) w0)))))
   \<and> (\<not> passed (fst (CredentialsValidator_validate auth w0))
        \<or> \<not> passed (fst (IAMPermissionsValidator_validate c project zone (Some vm_name) w0))
        \<or> \<not> passed (fst (VMStateValidator_validate c project zone (Some vm_name) (snd (IAMPermissionsValidator_validate c project zone (Some vm_name) w0)))) \<longrightarrow>
        rescue_vm c auth project zone vm_name config scripts w0 =
          \<lparr>returned = False, state_tracker = [], rolled_back = None,
           final_world = snd (RescueOrchestrator_validate c auth project zone vm_name w0)\<rparr>
        \<and> only_reads w0 (final_world (rescue_vm c auth project zone vm_name config scripts w0)))
   \<and> (passed (fst (CredentialsValidator_validate auth w0))
        \<and> passed (fst (IAMPermissionsValidator_validate c project zone (Some vm_name) w0))
        \<and> passed (fst (VMStateValidator_validate c project zone (Some vm_name) (snd (IAMPermissionsValidator_validate c project zone (Some vm_name) w0)))) \<longrightarrow>
        rescue_vm c auth project zone vm_name config scripts w0 = RescueOrchestrator_execute c project zone vm_name config scripts (snd (RescueOrchestrator_validate c auth project zone vm_name w0)))
   \<and> RestoreOrchestrator_validate c auth project zone vm_name w0 =
        (all_passed (fst (run_all [CredentialsValidator_validate auth,
                                   IAMPermissionsValidator_validate c project zone (Some vm_name),
                                   VMRestoreStateValidator_validate c project zone (Some vm_name)] w0)),
         snd (run_all [CredentialsValidator_validate auth,
                       IAMPermissionsValidator_validate c project zone (Some vm_name),
                       VMRestoreStateValidator_validate c project zone (Some vm_name)] w0))
   \<and> fst (RestoreOrchestrator_validate c auth project zone vm_name w0) =
        (passed (fst (CredentialsValidator_validate auth w0))
         \<and> passed (fst (IAMPermissionsValidator_validate c project zone (Some vm_name) w0))
         \<and> passed (fst (VMRestoreStateValidator_validate c project zone (Some vm_name) (snd (IAMPermissionsValidator_validate c project zone (Some vm_name) w0)))))
   \<and> (\<not> passed (fst (CredentialsValidator_validate auth w0))
        \<or> \<not> passed (fst (IAMPermissionsValidator_validate c project zone (Some vm_name) w0))
        \<or> \<not> passed (fst (VMRestoreStateValidator_validate c project zone (Some vm_name) (snd (IAMPermissionsValidator_validate c project zone (Some vm_name) w0)))) \<longrightarrow>
        restore_vm c auth project zone vm_name config' w0 =
          \<lparr>returned = False, state_tracker = [], rolled_back = None,
           final_world = snd (RestoreOrchestrator_validate c auth project zone vm_name w0)\<rparr>
        \<and> only_reads w0 (final_world (restore_vm c auth project zone vm_name config' w0)))
   \<and> (passed (fst (CredentialsValidator_validate auth w0))
        \<and> passed (fst (IAMPermissionsValidator_validate c project zone (Some vm_name) w0))
        \<and> passed (fst (VMRestoreStateValidator_validate c project zone (Some vm_name) (snd (IAMPermissionsValidator_validate c project zone (Some vm_name) w0)))) \<longrightarrow>
        restore_vm c auth project zone vm_name config' w0 = RestoreOrchestrator_execute c project zone vm_name config' (snd (RestoreOrchestrator_validate c auth project zone vm_name w0)))"
proof -
  note old = validation_pipeline [of validators w results c auth project zone vm_name w0 config scripts config']
  have r3: "\<not> passed (fst (CredentialsValidator_validate auth w0))
        \<or> \<not> passed (fst (IAMPermissionsValidator_validate c project zone (Some vm_name) w0))
        \<or> \<not> passed (fst (VMStateValidator_validate c project zone (Some vm_name)
                             (snd (IAMPermissionsValidator_validate c project zone (Some vm_name) w0)))) \<longrightarrow>
        rescue_vm c auth project zone vm_name config scripts w0 =
          \<lparr>returned = False, state_tracker = [], rolled_back = None,
           final_world = snd (RescueOrchestrator_validate c auth project zone vm_name w0)\<rparr>
        \<and> only_reads w0 (final_world (rescue_vm c auth project zone vm_name config scripts w0))"
  proof
    assume "\<not> passed (fst (CredentialsValidator_validate auth w0))
        \<or> \<not> passed (fst (IAMPermissionsValidator_validate c project zone (Some vm_name) w0))
        \<or> \<not> passed (fst (VMStateValidator_validate c project zone (Some vm_name)
                             (snd (IAMPermissionsValidator_validate c project zone (Some vm_name) w0))))"
    then have f: "\<not> fst (RescueOrchestrator_validate c auth project zone vm_name w0)"
      unfolding rescue_validate_iff by simp
    have g: "rescue_vm c auth project zone vm_name config scripts w0 =
          \<lparr>returned = False, state_tracker = [], rolled_back = None,
           final_world = snd (RescueOrchestrator_validate c auth project zone vm_name w0)\<rparr>"
      using f by (rule rescue_gate)
    have "only_reads w0 (final_world (rescue_vm c auth project zone vm_name config scripts w0))"
      unfolding g using rescue_validate_only_reads [of w0 c auth project zone vm_name] by simp
    with g show "rescue_vm c auth project zone vm_name config scripts w0 =
          \<lparr>returned = False, state_tracker = [], rolled_back = None,
           final_world = snd (RescueOrchestrator_validate c auth project zone vm_name w0)\<rparr>
        \<and> only_reads w0 (final_world (rescue_vm c auth project zone vm_name config scripts w0))"
      by (rule conjI)
  qed
  have r4: "passed (fst (CredentialsValidator_validate auth w0))
        \<and> passed (fst (IAMPermissionsValidator_validate c project zone (Some vm_name) w0))
        \<and> passed (fst (VMStateValidator_validate c project zone (Some vm_name)
                          (snd (IAMPermissionsValidator_validate c project zone (Some vm_name) w0)))) \<longrightarrow>
        rescue_vm c auth project zone vm_name config scripts w0 =
          RescueOrchestrator_execute c project zone vm_name config scripts
            (snd (RescueOrchestrator_validate c auth project zone vm_name w0))"
    unfolding rescue_validate_iff [symmetric] by (rule impI) (rule rescue_gate_open)
  have s3: "\<not> passed (fst (CredentialsValidator_validate auth w0))
        \<or> \<not> passed (fst (IAMPermissionsValidator_validate c project zone (Some vm_name) w0))
        \<or> \<not> passed (fst (VMRestoreStateValidator_validate c project zone (Some vm_name)
                             (snd (IAMPermissionsValidator_validate c project zone (Some vm_name) w0)))) \<longrightarrow>
        restore_vm c auth project zone vm_name config' w0 =
          \<lparr>returned = False, state_tracker = [], rolled_back = None,
           final_world = snd (RestoreOrchestrator_validate c auth project zone vm_name w0)\<rparr>
        \<and> only_reads w0 (final_world (restore_vm c auth project zone vm_name config' w0))"
  proof
    assume "\<not> passed (fst (CredentialsValidator_validate auth w0))
        \<or> \<not> passed (fst (IAMPermissionsValidator_validate c project zone (Some vm_name) w0))
        \<or> \<not> passed (fst (VMRestoreStateValidator_validate c project zone (Some vm_name)
                             (snd (IAMPermissionsValidator_validate c project zone (Some vm_name) w0))))"
    then have f: "\<not> fst (RestoreOrchestrator_validate c auth project zone vm_name w0)"
      unfolding restore_validate_iff by simp
    have g: "restore_vm c auth project zone vm_name config' w0 =
          \<lparr>returned = False, state_tracker = [], rolled_back = None,
           final_world = snd (RestoreOrchestrator_validate c auth project zone vm_name w0)\<rparr>"
      using f by (rule restore_gate)
    have "only_reads w0 (final_world (restore_vm c auth project zone vm_name config' w0))"
      unfolding g using restore_validate_only_reads [of w0 c auth project zone vm_name] by simp
    with g show "restore_vm c auth project zone vm_name config' w0 =
          \<lparr>returned = False, state_tracker = [], rolled_back = None,
           final_world = snd (RestoreOrchestrator_validate c auth project zone vm_name w0)\<rparr>
        \<and> only_reads w0 (final_world (restore_vm c auth project zone vm_name config' w0))"
      by (rule conjI)
  qed
  have s4: "passed (fst (CredentialsValidator_validate auth w0))
        \<and> passed (fst (IAMPermissionsValidator_validate c project zone (Some vm_name) w0))
        \<and> passed (fst (VMRestoreStateValidator_validate c project zone (Some vm_name)
                          (snd (IAMPermissionsValidator_validate c project zone (Some vm_name) w0)))) \<longrightarrow>
        restore_vm c auth project zone vm_name config' w0 =
          RestoreOrchestrator_execute c project zone vm_name config'
            (snd (RestoreOrchestrator_validate c auth project zone vm_name w0))"
    unfolding restore_validate_iff [symmetric] by (rule impI) (rule restore_gate_open)
  note r1 = rescue_validate_results [of c auth project zone vm_name w0]
  note r2 = rescue_validate_iff [of c auth project zone vm_name w0]
  note s1 = restore_validate_results [of c auth project zone vm_name w0]
  note s2 = restore_validate_iff [of c auth project zone vm_name w0]
  note new = conjI [OF r1 conjI [OF r2 conjI [OF r3 conjI [OF r4
               conjI [OF s1 conjI [OF s2 conjI [OF s3 s4]]]]]]]
  note o1 = old [THEN conjunct1]
  note o2 = old [THEN conjunct2, THEN conjunct1]
  note o3 = old [THEN conjunct2, THEN conjunct2, THEN conjunct1]
  note o4 = old [THEN conjunct2, THEN conjunct2, THEN conjunct2, THEN conjunct1]
  note o5 = old [THEN conjunct2, THEN conjunct2, THEN conjunct2, THEN conjunct2]
  show ?thesis
    by (rule conjI [OF o1 conjI [OF o2 conjI [OF o3 conjI [OF o4 conjI [OF o5 new]]]]])
qed

theorem validation_never_short_circuits_witness:
  "\<not> fst (RescueOrchestrator_validate sim bad_auth ''p'' ''z'' ''vm1''
           (world0\<lparr>remote := cloud0\<lparr>sim_granted := []\<rparr>\<rparr>))
   \<and> map validator_name (get_failures (fst (run_all
          [CredentialsValidator_validate bad_auth,
           IAMPermissionsValidator_validate sim ''p'' ''z'' (Some ''vm1''),
           VMStateValidator_validate sim ''p'' ''z'' (Some ''vm1'')]
          (world0\<lparr>remote := cloud0\<lparr>sim_granted := []\<rparr>\<rparr>)))) =
        [''Credentials & Authentication'', ''IAM Permissions'']
   \<and> \<not> returned (rescue_vm sim bad_auth ''p'' ''z'' ''vm1'' default_RescueConfig scripts0
           (world0\<lparr>remote := cloud0\<lparr>sim_granted := []\<rparr>\<rparr>))
   \<and> only_reads (world0\<lparr>remote := cloud0\<lparr>sim_granted := []\<rparr>\<rparr>)
        (final_world (rescue_vm sim bad_auth ''p'' ''z'' ''vm1'' default_RescueConfig scripts0
           (world0\<lparr>remote := cloud0\<lparr>sim_granted := []\<rparr>\<rparr>)))
   \<and> \<not> passed (fst (IAMPermissionsValidator_validate sim ''p'' ''z'' (Some ''vm1'')
                       (world0\<lparr>remote := cloud0\<lparr>sim_granted := []\<rparr>\<rparr>)))
   \<and> rescue_vm sim good_auth ''p'' ''z'' ''vm1'' default_RescueConfig scripts0
        (world0\<lparr>remote := cloud0\<lparr>sim_granted := []\<rparr>\<rparr>) =
       \<lparr>returned = False, state_tracker = [], rolled_back = None,
        final_world = snd (RescueOrchestrator_validate sim good_auth ''p'' ''z'' ''vm1''
                             (world0\<lparr>remote := cloud0\<lparr>sim_granted := []\<rparr>\<rparr>))\<rparr>
   \<and> \<not> passed (fst (VMRestoreStateValidator_validate sim ''p'' ''z'' (Some ''vm1'')
                       (snd (IAMPermissionsValidator_validate sim ''p'' ''z'' (Some ''vm1'') world0))))
   \<and> restore_vm sim good_auth ''p'' ''z'' ''vm1'' default_RestoreConfig world0 =
       \<lparr>returned = False, state_tracker = [], rolled_back = None,
        final_world = snd (RestoreOrchestrator_validate sim good_auth ''p'' ''z'' ''vm1'' world0)\<rparr>"
proof -
  let ?w = "world0\<lparr>remote := cloud0\<lparr>sim_granted := []\<rparr>\<rparr>"
  have nv: "\<not> fst (RescueOrchestrator_validate sim bad_auth ''p'' ''z'' ''vm1'' ?w)"
    by code_simp
  have fl: "map validator_name (get_failures (fst (run_all
          [CredentialsValidator_validate bad_auth,
           IAMPermissionsValidator_validate sim ''p'' ''z'' (Some ''vm1''),
           VMStateValidator_validate sim ''p'' ''z'' (Some ''vm1'')] ?w))) =
        [''Credentials & Authentication'', ''IAM Permissions'']"
    by code_simp
  have gate: "rescue_vm sim bad_auth ''p'' ''z'' ''vm1'' default_RescueConfig scripts0 ?w =
          \<lparr>returned = False, state_tracker = [], rolled_back = None,
           final_world = snd (RescueOrchestrator_validate sim bad_auth ''p'' ''z'' ''vm1'' ?w)\<rparr>
        \<and> only_reads ?w (final_world (rescue_vm sim bad_auth ''p'' ''z'' ''vm1'' default_RescueConfig scripts0 ?w))"
    by (rule validation_never_short_circuits
          [where c = sim and auth = bad_auth and project = "''p''" and zone = "''z''"
             and vm_name = "''vm1''" and ?w0.0 = ?w and config = default_RescueConfig
             and scripts = scripts0,
           THEN conjunct2, THEN conjunct2, THEN conjunct2, THEN conjunct1, THEN mp, OF nv])
  have ret: "\<not> returned (rescue_vm sim bad_auth ''p'' ''z'' ''vm1'' default_RescueConfig scripts0 ?w)"
    using gate by simp
  have ni: "\<not> passed (fst (IAMPermissionsValidator_validate sim ''p'' ''z'' (Some ''vm1'') ?w))"
    by code_simp
  have gi: "rescue_vm sim good_auth ''p'' ''z'' ''vm1'' default_RescueConfig scripts0 ?w =
       \<lparr>returned = False, state_tracker = [], rolled_back = None,
        final_world = snd (RescueOrchestrator_validate sim good_auth ''p'' ''z'' ''vm1'' ?w)\<rparr>"
    by (rule validation_never_short_circuits
          [where c = sim and auth = good_auth and project = "''p''" and zone = "''z''"
             and vm_name = "''vm1''" and ?w0.0 = ?w and config = default_RescueConfig
             and scripts = scripts0,
           THEN conjunct2, THEN conjunct2, THEN conjunct2, THEN conjunct2, THEN conjunct2,
           THEN conjunct2, THEN conjunct2, THEN conjunct1, THEN mp, OF disjI2 [OF disjI1 [OF ni]],
           THEN conjunct1])
  have nr: "\<not> passed (fst (VMRestoreStateValidator_validate sim ''p'' ''z'' (Some ''vm1'')
                       (snd (IAMPermissionsValidator_validate sim ''p'' ''z'' (Some ''vm1'') world0))))"
    by code_simp
  have gr: "restore_vm sim good_auth ''p'' ''z'' ''vm1'' default_RestoreConfig world0 =
       \<lparr>returned = False, state_tracker = [], rolled_back = None,
        final_world = snd (RestoreOrchestrator_validate sim good_auth ''p'' ''z'' ''vm1'' world0)\<rparr>"
    by (rule validation_never_short_circuits
          [where c = sim and auth = good_auth and project = "''p''" and zone = "''z''"
             and vm_name = "''vm1''" and ?w0.0 = world0 and config' = default_RestoreConfig,
           THEN conjunct2, THEN conjunct2, THEN conjunct2, THEN conjunct2, THEN conjunct2,
           THEN conjunct2, THEN conjunct2, THEN conjunct2, THEN conjunct2, THEN conjunct2,
           THEN conjunct2, THEN conjunct1, THEN mp, OF disjI2 [OF disjI2 [OF nr]],
           THEN conjunct1])
  show ?thesis
    by (rule conjI [OF nv conjI [OF fl conjI [OF ret conjI [OF gate [THEN conjunct2]
          conjI [OF ni conjI [OF gi conjI [OF nr gr]]]]]]])
qed

section \<open>C9: the permission validator\<close>

text \<open>
  C9 (as the code has it). The validator declares the instance, disk and snapshot permission
  sets, but it tests the six instance-level permissions only. For every run in which the test
  call returns, the validation passes exactly when all six are among the granted ones, and
  when one is not, the result's details list exactly the missing instance-level permissions
  under \<^verbatim>\<open>missing\<close>.
\<close>

theorem missing_instance_permissions_fail:
  assumes "vm_name \<noteq> None" and "vm_name \<noteq> Some []"
    and "fst (test_iam_permissions c project zone (opt_val vm_name)
                (PDict [(''permissions'', str_list INSTANCE_PERMISSIONS)]) w) = Inr result"
    and "granted = (case result of None \<Rightarrow> [] | Some ps \<Rightarrow> ps)"
  shows "passed (fst (IAMPermissionsValidator_validate c project zone vm_name w)) =
           list_all (\<lambda>p. p \<in> set granted) INSTANCE_PERMISSIONS
       \<and> (\<not> list_all (\<lambda>p. p \<in> set granted) INSTANCE_PERMISSIONS \<longrightarrow>
            (\<exists>d. details (fst (IAMPermissionsValidator_validate c project zone vm_name w)) = Some d
               \<and> map_of d ''missing'' =
                   Some (str_list (filter (\<lambda>p. p \<notin> set granted) INSTANCE_PERMISSIONS))))"
proof -
  obtain w1 where t: "test_iam_permissions c project zone (opt_val vm_name)
                (PDict [(''permissions'', str_list INSTANCE_PERMISSIONS)]) w = (Inr result, w1)"
    using assms(3) by (cases "test_iam_permissions c project zone (opt_val vm_name)
                (PDict [(''permissions'', str_list INSTANCE_PERMISSIONS)]) w") auto
  have f: "(filter (\<lambda>p. p \<notin> set granted) INSTANCE_PERMISSIONS = []) =
             list_all (\<lambda>p. p \<in> set granted) INSTANCE_PERMISSIONS"
    by (simp add: filter_empty_conv list_all_iff)
  show ?thesis
    using assms(1,2) t f
    by (simp add: IAMPermissionsValidator_validate_def Let_def assms(4) [symmetric])
qed

theorem missing_instance_permissions_fail_witness:
  "\<not> passed (fst (IAMPermissionsValidator_validate sim ''p'' ''z'' (Some ''vm1'')
        (world0\<lparr>remote := cloud0\<lparr>sim_granted := [''compute.instances.get'', ''compute.disks.create'']\<rparr>\<rparr>)))
   \<and> (\<exists>d. details (fst (IAMPermissionsValidator_validate sim ''p'' ''z'' (Some ''vm1'')
        (world0\<lparr>remote := cloud0\<lparr>sim_granted := [''compute.instances.get'', ''compute.disks.create'']\<rparr>\<rparr>))) = Some d
         \<and> map_of d ''missing'' = Some (str_list
              [''compute.instances.stop'', ''compute.instances.start'', ''compute.instances.attachDisk'',
               ''compute.instances.detachDisk'', ''compute.instances.setMetadata'']))"
proof -
  let ?w = "world0\<lparr>remote := cloud0\<lparr>sim_granted := [''compute.instances.get'', ''compute.disks.create'']\<rparr>\<rparr>"
  have t: "fst (test_iam_permissions sim ''p'' ''z'' (opt_val (Some ''vm1''))
                (PDict [(''permissions'', str_list INSTANCE_PERMISSIONS)]) ?w) = Inr (Some [''compute.instances.get''])"
    by code_simp
  have g: "[''compute.instances.get''] = (case Some [''compute.instances.get''] of None \<Rightarrow> [] | Some ps \<Rightarrow> ps)"
    by simp
  have n: "\<not> list_all (\<lambda>p. p \<in> set [''compute.instances.get'']) INSTANCE_PERMISSIONS"
    by (simp add: INSTANCE_PERMISSIONS_def)
  have fl: "filter (\<lambda>p. p \<notin> set [''compute.instances.get'']) INSTANCE_PERMISSIONS =
              [''compute.instances.stop'', ''compute.instances.start'', ''compute.instances.attachDisk'',
               ''compute.instances.detachDisk'', ''compute.instances.setMetadata'']"
    by (simp add: INSTANCE_PERMISSIONS_def)
  show ?thesis
    using missing_instance_permissions_fail
            [where vm_name = "Some ''vm1''" and c = sim and project = "''p''" and zone = "''z''"
               and w = ?w and result = "Some [''compute.instances.get'']"
               and granted = "[''compute.instances.get'']", OF _ _ t g] n fl
    by simp
qed

text \<open>
  C9 as stated fails: \<^verbatim>\<open>compute.disks.create\<close> is one of the declared required permissions, the
  caller does not hold it, and the validation passes.
\<close>

theorem untested_permission_counterexample:
  "''compute.disks.create'' \<in> set DISK_PERMISSIONS
   \<and> ''compute.disks.create'' \<notin> set (sim_granted cloud0)
   \<and> passed (fst (IAMPermissionsValidator_validate sim ''p'' ''z'' (Some ''vm1'') world0))"
proof -
  have "passed (fst (IAMPermissionsValidator_validate sim ''p'' ''z'' (Some ''vm1'') world0))"
    by code_simp
  then show ?thesis
    by (simp add: DISK_PERMISSIONS_def cloud0_def INSTANCE_PERMISSIONS_def)
qed

section \<open>C1: rollback runs over the successful steps in reverse order\<close>



























section \<open>C3: rescue followed by restore\<close>

text \<open>\<^verbatim>\<open>SetMetadataOperation.execute\<close> writes the items it is given and nothing else: the items the
  instance had are kept in the compensation record only, not merged into the request.\<close>

lemma set_metadata_writes_given_items:
  assumes "success (fst (SetMetadataOperation_execute c project zone vm_name metadata_items w))"
  shows "\<exists>fingerprint. requests (snd (SetMetadataOperation_execute c project zone vm_name metadata_items w)) =
           requests w @ [InstancesGet project zone (PStr vm_name),
                         InstancesSetMetadata project zone (PStr vm_name)
                           (PDict [(''fingerprint'', fingerprint), (''items'', PList metadata_items)])]"
  using assms
  by (auto simp: SetMetadataOperation_execute_def Let_def get_instance_def set_metadata_def perform_def
        time_sleep_def failure_def succeeded_def split: prod.splits sum.splits)

lemma after_restore_remote:
  "returned after_rescue \<and> returned after_restore \<and>
   remote (final_world after_restore) =
     cloud0\<lparr>sim_attached := [\<lparr>ad_source = ''projects/p/zones/z/disks/disk1'',
                                ad_deviceName = ''disk1'', ad_boot = Some True,
                                ad_autoDelete = Some False, ad_mode = Some ''READ_WRITE''\<rparr>],
            sim_items := [],
            sim_fingerprint := 9,
            sim_snapshots := [(''pre-rescue-disk1-1000'', ''READY'')]\<rparr>"
  by code_simp

text \<open>
  C3. The round trip does not return the metadata to its former value. On an instance with the
  metadata item \<open>owner = alice\<close> and the boot disk \<open>disk1\<close> attached under the device name
  \<open>persistent-disk-0\<close> with \<open>autoDelete\<close> set, both workflows run to completion and return True; the
  instance is running again, \<open>disk1\<close> is its only disk and its boot disk, and the rescue disk is
  deleted. But the metadata is empty: the rescue workflow replaced all items by its three
  markers, and the restore workflow removed the markers from what it found. The boot disk is
  attached under the device name \<open>disk1\<close> and without \<open>autoDelete\<close>.
\<close>

theorem rescue_then_restore_loses_metadata:
  "returned after_rescue \<and> returned after_restore
   \<and> sim_items (remote world0) = [(''owner'', ''alice'')]
   \<and> sim_items (remote (final_world after_restore)) = []
   \<and> sim_attached (remote world0) =
        [\<lparr>ad_source = ''projects/p/zones/z/disks/disk1'', ad_deviceName = ''persistent-disk-0'',
          ad_boot = Some True, ad_autoDelete = Some True, ad_mode = Some ''READ_WRITE''\<rparr>]
   \<and> sim_attached (remote (final_world after_restore)) =
        [\<lparr>ad_source = ''projects/p/zones/z/disks/disk1'', ad_deviceName = ''disk1'',
          ad_boot = Some True, ad_autoDelete = Some False, ad_mode = Some ''READ_WRITE''\<rparr>]
   \<and> sim_disks (remote (final_world after_restore)) = sim_disks (remote world0)
   \<and> sim_status (remote (final_world after_restore)) = sim_status (remote world0)"
  using after_restore_remote by (simp add: world0_def cloud0_def)

end
